theory Spec2Isabelle
  imports Complex_Main "HOL-Library.Word"
begin

section \<open>JavaScript values\<close>

text \<open>
  A JavaScript string is a sequence of UTF-16 code units: \<open>s.length\<close> counts code units and
  \<open>s.slice(0, n)\<close> keeps the first \<open>n\<close> of them. ASCII literals of the source are written
  \<open>js ''...''\<close>.
\<close>

type_synonym jchar = "16 word"
type_synonym jstring = "jchar list"

definition cu :: "char \<Rightarrow> jchar" where
  "cu c = word_of_nat (of_char c)"

definition js :: "string \<Rightarrow> jstring" where
  "js s = map cu s"

text \<open>
  \<open>new TextEncoder().encode(s).byteLength\<close>: the length of the UTF-8 encoding of \<open>s\<close>. A high
  surrogate followed by a low surrogate is one code point of four bytes; a lone surrogate is
  replaced by U+FFFD, three bytes.
\<close>

definition is_high_surrogate :: "jchar \<Rightarrow> bool" where
  "is_high_surrogate c = (0xD800 \<le> c \<and> c \<le> 0xDBFF)"

definition is_low_surrogate :: "jchar \<Rightarrow> bool" where
  "is_low_surrogate c = (0xDC00 \<le> c \<and> c \<le> 0xDFFF)"

definition unit_bytes :: "jchar \<Rightarrow> nat" where
  "unit_bytes c = (if c < 0x80 then 1 else if c < 0x800 then 2 else 3)"

fun utf8_byteLength :: "jstring \<Rightarrow> nat" where
  "utf8_byteLength [] = 0"
| "utf8_byteLength [c] = unit_bytes c"
| "utf8_byteLength (c # d # cs) =
     (if is_high_surrogate c \<and> is_low_surrogate d then 4 + utf8_byteLength cs
      else unit_bytes c + utf8_byteLength (d # cs))"

text \<open>
  JSON numbers are doubles; \<open>JSON.parse\<close> yields a finite value or, on overflow, an infinity
  (never NaN).
\<close>

datatype jnumber = Finite rat | PosInfinity | NegInfinity

fun num_nonneg :: "jnumber \<Rightarrow> bool" where
  "num_nonneg (Finite q) = (0 \<le> q)"
| "num_nonneg PosInfinity = True"
| "num_nonneg NegInfinity = False"

datatype json =
    JNull
  | JBool bool
  | JNum jnumber
  | JStr jstring
  | JArr "json list"
  | JObj "(jstring \<times> json) list"

text \<open>
  \<open>v[k]\<close> for the property names the program reads (\<open>type\<close>, \<open>prompt\<close>, \<open>media_type\<close>,
  \<open>error\<close>, ...): an own property of an object; \<open>undefined\<close> (here \<open>None\<close>) on an array or a
  primitive, since none of these names is an index or a built-in property.
\<close>

fun getProp :: "json \<Rightarrow> jstring \<Rightarrow> json option" where
  "getProp (JObj kvs) k = map_of kvs k"
| "getProp _ k = None"

text \<open>JavaScript truthiness of a value read from parsed JSON (\<open>None\<close> is \<open>undefined\<close>).\<close>

fun truthy :: "json option \<Rightarrow> bool" where
  "truthy None = False"
| "truthy (Some JNull) = False"
| "truthy (Some (JBool b)) = b"
| "truthy (Some (JNum n)) = (n \<noteq> Finite 0)"
| "truthy (Some (JStr s)) = (s \<noteq> [])"
| "truthy (Some (JArr xs)) = True"
| "truthy (Some (JObj kvs)) = True"

fun startsWith :: "'a list \<Rightarrow> 'a list \<Rightarrow> bool" where
  "startsWith s [] = True"
| "startsWith [] (p # ps) = False"
| "startsWith (c # cs) (p # ps) = (c = p \<and> startsWith cs ps)"

fun str_includes :: "'a list \<Rightarrow> 'a list \<Rightarrow> bool" where
  "str_includes [] n = (n = [])"
| "str_includes (c # cs) n = (startsWith (c # cs) n \<or> str_includes cs n)"

section \<open>Wire protocol (server/protocol.ts)\<close>

definition MAX_PROMPT_BYTES :: nat where "MAX_PROMPT_BYTES = 512 * 1024"
definition MAX_SYSTEM_PROMPT_BYTES :: nat where "MAX_SYSTEM_PROMPT_BYTES = 64 * 1024"
definition MAX_IMAGES :: nat where "MAX_IMAGES = 4"
definition MAX_IMAGE_BASE64_BYTES :: nat where "MAX_IMAGE_BASE64_BYTES = 10 * 1024 * 1024"
definition MAX_PROJECT_ID_LENGTH :: nat where "MAX_PROJECT_ID_LENGTH = 128"

definition ALLOWED_IMAGE_TYPES :: "jstring list" where
  "ALLOWED_IMAGE_TYPES = [js ''image/png'', js ''image/jpeg'', js ''image/gif'', js ''image/webp'']"

text \<open>\<open>PROJECT_ID_PATTERN = /^[a-zA-Z0-9._-]+$/\<close>\<close>

definition project_id_char :: "jchar \<Rightarrow> bool" where
  "project_id_char c =
     ((0x61 \<le> c \<and> c \<le> 0x7A) \<or> (0x41 \<le> c \<and> c \<le> 0x5A) \<or> (0x30 \<le> c \<and> c \<le> 0x39)
      \<or> c = 0x2E \<or> c = 0x5F \<or> c = 0x2D)"

definition PROJECT_ID_PATTERN_test :: "jstring \<Rightarrow> bool" where
  "PROJECT_ID_PATTERN_test s = (s \<noteq> [] \<and> list_all project_id_char s)"

datatype provider = Claude | Codex | Ollama

record PromptImage =
  media_type :: jstring
  data :: jstring

record PromptMessage =
  prompt :: jstring
  model :: "jstring option"
  systemPrompt :: "jstring option"
  projectId :: "jstring option"
  requestId :: jstring
  provider :: provider
  thinkingTokens :: "jnumber option"
  images :: "PromptImage list option"

datatype ClientMessage = Prompt PromptMessage | Cancel jstring

text \<open>\<open>ParseResult\<close>: \<open>Inl error\<close> is \<open>{ok: false, error}\<close>, \<open>Inr message\<close> is \<open>{ok: true, message}\<close>.\<close>

type_synonym ParseResult = "jstring + ClientMessage"

text \<open>\<open>typeof v === "string"\<close>: \<open>Some s\<close> when the value is the string \<open>s\<close>, else \<open>None\<close>.\<close>

fun typeof_string :: "json option \<Rightarrow> jstring option" where
  "typeof_string (Some (JStr s)) = Some s"
| "typeof_string _ = None"

text \<open>\<open>typeof v === "object" && v !== null\<close> (an array is an object).\<close>

fun is_object :: "json \<Rightarrow> bool" where
  "is_object (JObj kvs) = True"
| "is_object (JArr xs) = True"
| "is_object _ = False"

text \<open>The loop over \<open>rawImages\<close>; \<open>acc\<close> is \<open>parsedImages\<close>.\<close>

fun parseImages :: "json list \<Rightarrow> PromptImage list \<Rightarrow> jstring + PromptImage list" where
  "parseImages [] acc = Inr acc"
| "parseImages (img # rest) acc =
     (if \<not> is_object img
      then Inl (js ''Each image must be an object with media_type and data'')
      else case typeof_string (getProp img (js ''media_type'')) of
        None \<Rightarrow> Inl (js ''Each image must have string media_type and data fields'')
      | Some mt \<Rightarrow>
         (case typeof_string (getProp img (js ''data'')) of
            None \<Rightarrow> Inl (js ''Each image must have string media_type and data fields'')
          | Some d \<Rightarrow>
              if mt \<notin> set ALLOWED_IMAGE_TYPES
              then Inl (js ''Unsupported image type: '' @ take 50 mt
                        @ js '' (allowed: png, jpeg, gif, webp)'')
              else if length d > MAX_IMAGE_BASE64_BYTES
              then Inl (js ''Image exceeds maximum size of 10485760 bytes'')
              else parseImages rest (acc @ [\<lparr>media_type = mt, data = d\<rparr>])))"

text \<open>\<open>Array.isArray(rawImages) && rawImages.length > 0\<close>, then the count and the loop.\<close>

definition parseImagesField :: "json option \<Rightarrow> jstring + PromptImage list option" where
  "parseImagesField rawImages =
     (case rawImages of
        Some (JArr (x # xs)) \<Rightarrow>
          if length (x # xs) > MAX_IMAGES then Inl (js ''Too many images (max 4)'')
          else (case parseImages (x # xs) [] of Inl e \<Rightarrow> Inl e | Inr imgs \<Rightarrow> Inr (Some imgs))
      | _ \<Rightarrow> Inr None)"

text \<open>
  The rest of the \<open>case "prompt"\<close> branch once the scalar fields have passed: the images and
  the returned message.
\<close>

definition finishPrompt :: "json \<Rightarrow> jstring \<Rightarrow> jstring \<Rightarrow> ParseResult" where
  "finishPrompt obj p rid =
     (case parseImagesField (getProp obj (js ''images'')) of
        Inl e \<Rightarrow> Inl e
      | Inr parsedImages \<Rightarrow>
          Inr (Prompt \<lparr>
            prompt = p,
            model = typeof_string (getProp obj (js ''model'')),
            systemPrompt = typeof_string (getProp obj (js ''systemPrompt'')),
            projectId = typeof_string (getProp obj (js ''projectId'')),
            requestId = rid,
            provider =
              (if getProp obj (js ''provider'') = Some (JStr (js ''codex'')) then Codex
               else if getProp obj (js ''provider'') = Some (JStr (js ''ollama'')) then Ollama
               else Claude),
            thinkingTokens =
              (case getProp obj (js ''thinkingTokens'') of
                 Some (JNum n) \<Rightarrow> if num_nonneg n then Some n else None
               | _ \<Rightarrow> None),
            images = parsedImages\<rparr>))"

text \<open>The \<open>case "prompt"\<close> branch.\<close>

definition parsePrompt :: "json \<Rightarrow> ParseResult" where
  "parsePrompt obj =
     (case typeof_string (getProp obj (js ''prompt'')) of
        None \<Rightarrow> Inl (js ''Missing or empty 'prompt' field'')
      | Some p \<Rightarrow>
          if p = [] then Inl (js ''Missing or empty 'prompt' field'')
          else if utf8_byteLength p > MAX_PROMPT_BYTES
          then Inl (js ''Prompt exceeds maximum size of 524288 bytes'')
          else (case typeof_string (getProp obj (js ''requestId'')) of
            None \<Rightarrow> Inl (js ''Missing or empty 'requestId' field'')
          | Some rid \<Rightarrow>
              if rid = [] then Inl (js ''Missing or empty 'requestId' field'')
              else
                let model = getProp obj (js ''model'');
                    systemPrompt = getProp obj (js ''systemPrompt'');
                    projectId = getProp obj (js ''projectId'');
                    provider = getProp obj (js ''provider'');
                    thinkingTokens = getProp obj (js ''thinkingTokens'')
                in
                if (case typeof_string systemPrompt of
                      Some sp \<Rightarrow> utf8_byteLength sp > MAX_SYSTEM_PROMPT_BYTES | None \<Rightarrow> False)
                then Inl (js ''System prompt exceeds maximum size of 65536 bytes'')
                else if (case typeof_string projectId of
                      Some pid \<Rightarrow> length pid > MAX_PROJECT_ID_LENGTH | None \<Rightarrow> False)
                then Inl (js ''projectId exceeds maximum length of 128'')
                else if (case typeof_string projectId of
                      Some pid \<Rightarrow> \<not> PROJECT_ID_PATTERN_test pid | None \<Rightarrow> False)
                then Inl (js ''projectId contains invalid characters (allowed: alphanumeric, hyphens, underscores, dots)'')
                else case typeof_string provider of
                  Some pv \<Rightarrow>
                    if pv \<noteq> js ''claude'' \<and> pv \<noteq> js ''codex'' \<and> pv \<noteq> js ''ollama''
                    then Inl (js ''Unknown provider: '' @ [0x22] @ pv @ [0x22]
                              @ js '' (supported: claude, codex, ollama)'')
                    else finishPrompt obj p rid
                | None \<Rightarrow> finishPrompt obj p rid))"

text \<open>The \<open>case "cancel"\<close> branch.\<close>

definition parseCancel :: "json \<Rightarrow> ParseResult" where
  "parseCancel obj =
     (case typeof_string (getProp obj (js ''requestId'')) of
        None \<Rightarrow> Inl (js ''Missing or empty 'requestId' field in cancel message'')
      | Some rid \<Rightarrow>
          if rid = [] then Inl (js ''Missing or empty 'requestId' field in cancel message'')
          else Inr (Cancel rid))"

text \<open>
  \<open>parseClientMessage(raw)\<close>. \<open>JSON.parse\<close> belongs to the JavaScript runtime; it is the
  parameter \<open>JSON_parse\<close>, with \<open>None\<close> for a thrown \<open>SyntaxError\<close>.
\<close>

definition parseClientMessage :: "(jstring \<Rightarrow> json option) \<Rightarrow> jstring \<Rightarrow> ParseResult" where
  "parseClientMessage JSON_parse raw =
     (case JSON_parse raw of
        None \<Rightarrow> Inl (js ''Invalid JSON'')
      | Some dat \<Rightarrow>
          (case dat of
             JObj kvs \<Rightarrow>
               (case typeof_string (getProp dat (js ''type'')) of
                  None \<Rightarrow> Inl (js ''Missing or invalid 'type' field'')
                | Some t \<Rightarrow>
                    if t = js ''prompt'' then parsePrompt dat
                    else if t = js ''cancel'' then parseCancel dat
                    else Inl (js ''Unknown message type: '' @ take 50 t))
           | _ \<Rightarrow> Inl (js ''Message must be a JSON object'')))"

subsection \<open>The validation order as a list of checks\<close>

text \<open>
  The validation stated as an ordered list of checks, each a pair of "this check fails" and the
  error message it gives; the outcome of a list is the message of its first failing check.
\<close>

fun first_failing :: "(bool \<times> 'e) list \<Rightarrow> 'e option" where
  "first_failing [] = None"
| "first_failing ((failed, e) # cs) = (if failed then Some e else first_failing cs)"

definition image_checks :: "json \<Rightarrow> (bool \<times> jstring) list" where
  "image_checks img =
     [(\<not> is_object img,
        js ''Each image must be an object with media_type and data''),
      (typeof_string (getProp img (js ''media_type'')) = None
         \<or> typeof_string (getProp img (js ''data'')) = None,
        js ''Each image must have string media_type and data fields''),
      (case typeof_string (getProp img (js ''media_type'')) of
         Some mt \<Rightarrow> mt \<notin> set ALLOWED_IMAGE_TYPES | None \<Rightarrow> False,
        js ''Unsupported image type: ''
          @ take 50 (case typeof_string (getProp img (js ''media_type'')) of Some mt \<Rightarrow> mt | None \<Rightarrow> [])
          @ js '' (allowed: png, jpeg, gif, webp)''),
      (case typeof_string (getProp img (js ''data'')) of
         Some d \<Rightarrow> length d > 10 * 1024 * 1024 | None \<Rightarrow> False,
        js ''Image exceeds maximum size of 10485760 bytes'')]"

definition images_checks :: "json option \<Rightarrow> (bool \<times> jstring) list" where
  "images_checks rawImages =
     (case rawImages of
        Some (JArr (x # xs)) \<Rightarrow>
          (length (x # xs) > 4, js ''Too many images (max 4)'') # concat (map image_checks (x # xs))
      | _ \<Rightarrow> [])"

definition prompt_checks :: "json \<Rightarrow> (bool \<times> jstring) list" where
  "prompt_checks obj =
     [(case typeof_string (getProp obj (js ''prompt'')) of Some p \<Rightarrow> p = [] | None \<Rightarrow> True,
        js ''Missing or empty 'prompt' field''),
      (case typeof_string (getProp obj (js ''prompt'')) of
         Some p \<Rightarrow> utf8_byteLength p > 512 * 1024 | None \<Rightarrow> False,
        js ''Prompt exceeds maximum size of 524288 bytes''),
      (case typeof_string (getProp obj (js ''requestId'')) of Some r \<Rightarrow> r = [] | None \<Rightarrow> True,
        js ''Missing or empty 'requestId' field''),
      (case typeof_string (getProp obj (js ''systemPrompt'')) of
         Some sp \<Rightarrow> utf8_byteLength sp > 64 * 1024 | None \<Rightarrow> False,
        js ''System prompt exceeds maximum size of 65536 bytes''),
      (case typeof_string (getProp obj (js ''projectId'')) of
         Some pid \<Rightarrow> length pid > 128 | None \<Rightarrow> False,
        js ''projectId exceeds maximum length of 128''),
      (case typeof_string (getProp obj (js ''projectId'')) of
         Some pid \<Rightarrow> \<not> PROJECT_ID_PATTERN_test pid | None \<Rightarrow> False,
        js ''projectId contains invalid characters (allowed: alphanumeric, hyphens, underscores, dots)''),
      (case typeof_string (getProp obj (js ''provider'')) of
         Some pv \<Rightarrow> pv \<notin> {js ''claude'', js ''codex'', js ''ollama''} | None \<Rightarrow> False,
        js ''Unknown provider: '' @ [0x22]
          @ (case typeof_string (getProp obj (js ''provider'')) of Some pv \<Rightarrow> pv | None \<Rightarrow> [])
          @ [0x22] @ js '' (supported: claude, codex, ollama)'')]
     @ images_checks (getProp obj (js ''images''))"

definition cancel_checks :: "json \<Rightarrow> (bool \<times> jstring) list" where
  "cancel_checks obj =
     [(case typeof_string (getProp obj (js ''requestId'')) of Some r \<Rightarrow> r = [] | None \<Rightarrow> True,
        js ''Missing or empty 'requestId' field in cancel message'')]"

definition frame_checks :: "json option \<Rightarrow> (bool \<times> jstring) list" where
  "frame_checks parsed =
     [(parsed = None, js ''Invalid JSON''),
      (case parsed of Some (JObj kvs) \<Rightarrow> False | _ \<Rightarrow> True, js ''Message must be a JSON object''),
      (case parsed of Some dat \<Rightarrow> typeof_string (getProp dat (js ''type'')) = None | None \<Rightarrow> True,
        js ''Missing or invalid 'type' field'')]
     @ (case parsed of
          Some dat \<Rightarrow>
            (case typeof_string (getProp dat (js ''type'')) of
               Some t \<Rightarrow>
                 if t = js ''prompt'' then prompt_checks dat
                 else if t = js ''cancel'' then cancel_checks dat
                 else [(True, js ''Unknown message type: '' @ take 50 t)]
             | None \<Rightarrow> [])
        | None \<Rightarrow> [])"

subsection \<open>Example frames\<close>

text \<open>
  \<open>JSON.parse\<close> tabulated on the frames used as examples: each frame's text with the value
  \<open>JSON.parse\<close> returns for it.
\<close>

definition dq :: "string \<Rightarrow> string" where
  "dq s = [CHR 0x22] @ s @ [CHR 0x22]"

definition JSON_parse_table :: "(jstring \<times> json) list \<Rightarrow> jstring \<Rightarrow> json option" where
  "JSON_parse_table frames raw = map_of frames raw"

definition cancel_frame :: jstring where
  "cancel_frame = js (''{'' @ dq ''type'' @ '':'' @ dq ''cancel'' @ '','' @ dq ''requestId'' @ '':'' @ dq ''r1'' @ ''}'')"

definition cancel_frame_value :: json where
  "cancel_frame_value = JObj [(js ''type'', JStr (js ''cancel'')), (js ''requestId'', JStr (js ''r1''))]"

definition gpt4_frame :: jstring where
  "gpt4_frame = js (''{'' @ dq ''type'' @ '':'' @ dq ''prompt'' @ '','' @ dq ''prompt'' @ '':'' @ dq ''hi''
       @ '','' @ dq ''requestId'' @ '':'' @ dq ''r1'' @ '','' @ dq ''provider'' @ '':'' @ dq ''gpt4'' @ ''}'')"

definition gpt4_frame_value :: json where
  "gpt4_frame_value = JObj [(js ''type'', JStr (js ''prompt'')), (js ''prompt'', JStr (js ''hi'')),
     (js ''requestId'', JStr (js ''r1'')), (js ''provider'', JStr (js ''gpt4''))]"

text \<open>The \<open>provider\<close> union \<open>"claude" | "codex" | "ollama"\<close> as strings.\<close>

definition provider_name :: "provider \<Rightarrow> jstring" where
  "provider_name p = (case p of Claude \<Rightarrow> js ''claude'' | Codex \<Rightarrow> js ''codex'' | Ollama \<Rightarrow> js ''ollama'')"

text \<open>The object without its \<open>provider\<close> property.\<close>
definition without_provider :: "(jstring \<times> json) list \<Rightarrow> (jstring \<times> json) list" where
  "without_provider kvs = filter (\<lambda>kv. fst kv \<noteq> js ''provider'') kvs"

definition numeric_provider_value :: json where
  "numeric_provider_value = JObj [(js ''type'', JStr (js ''prompt'')), (js ''prompt'', JStr (js ''hi'')),
     (js ''requestId'', JStr (js ''r1'')), (js ''provider'', JNum (Finite 5))]"

definition numeric_provider_frame :: jstring where
  "numeric_provider_frame = js (''{'' @ dq ''type'' @ '':'' @ dq ''prompt'' @ '','' @ dq ''prompt'' @ '':'' @ dq ''hi''
       @ '','' @ dq ''requestId'' @ '':'' @ dq ''r1'' @ '','' @ dq ''provider'' @ '':5}'')"

section \<open>Runner interface and subprocess runner base (process/base-cli-provider.ts)\<close>

record RunOptions =
  opt_prompt :: jstring
  opt_model :: "jstring option"
  opt_systemPrompt :: "jstring option"
  opt_projectId :: "jstring option"
  opt_requestId :: jstring
  opt_thinkingTokens :: "jnumber option"
  opt_images :: "PromptImage list option"

text \<open>
  A call of one of the three \<open>RunHandlers\<close>. The content and the message are whatever value
  the runner passes (a string, in the typed program); the flag of \<open>OnChunk\<close> is the optional
  \<open>thinking\<close> argument.
\<close>

datatype callback =
    OnChunk json jstring bool
  | OnComplete jstring
  | OnError json jstring

text \<open>
  What a runner does to the outside. The \<open>n\<close>-th call of \<open>run\<close> on a runner (counted from 0)
  receives the handlers object \<open>n\<close>; a child process it spawns, or an HTTP call it starts, is
  child \<open>n\<close>.
\<close>

record fetch_body =
  body_model :: jstring
  body_prompt :: jstring
  body_stream :: bool
  body_system :: "jstring option"

datatype effect =
    Handler nat callback
  | ProcKill nat
  | Fetch nat jstring fetch_body

text \<open>Decimal rendering of an integer, as a template literal renders it.\<close>

fun digits :: "nat \<Rightarrow> string" where
  "digits n = (if n < 10 then [char_of (48 + n)] else digits (n div 10) @ [char_of (48 + n mod 10)])"

declare digits.simps [simp del]

definition show_int :: "int \<Rightarrow> jstring" where
  "show_int i = (if i < 0 then js (CHR ''-'' # digits (nat (- i))) else js (digits (nat i)))"

text \<open>
  The result of the abstract \<open>spawnProcess\<close>: the child process, or \<open>null\<close> after the calls of
  the handlers the subclass made.
\<close>

datatype spawn_result = Spawned | NotSpawned "callback list"

text \<open>The abstract methods of \<open>BaseCliProvider\<close>, over the subclass's own fields \<open>'s\<close>.\<close>

record 's cli_subclass =
  spawnProcess :: "RunOptions \<Rightarrow> 's \<Rightarrow> spawn_result \<times> 's"
  parseStreamLine :: "jstring \<Rightarrow> jstring \<Rightarrow> 's \<Rightarrow> callback list \<times> 's"
  onProcessExit :: "RunOptions \<Rightarrow> 's \<Rightarrow> 's"

text \<open>
  The fields of \<open>BaseCliProvider\<close>. \<open>process\<close> holds the child handle and \<open>timeout\<close> the armed
  timer of an execution. \<open>children\<close> keeps, for each spawned child, the \<open>options\<close> its listeners
  close over, and \<open>handlersDone\<close> the executions whose closure variable \<open>handlersDone\<close> is true.
\<close>

record 's cli_runner =
  process :: "nat option"
  timeout :: "nat option"
  disposed :: bool
  killed :: bool
  sub :: 's
  runs :: nat
  children :: "(nat \<times> RunOptions) list"
  handlersDone :: "nat list"

definition new_runner :: "'s \<Rightarrow> 's cli_runner" where
  "new_runner s = \<lparr>process = None, timeout = None, disposed = False, killed = False, sub = s,
     runs = 0, children = [], handlersDone = []\<rparr>"

definition clearTimeout :: "'s cli_runner \<Rightarrow> 's cli_runner" where
  "clearTimeout r = r\<lparr>timeout := None\<rparr>"

definition kill :: "'s cli_runner \<Rightarrow> 's cli_runner \<times> effect list" where
  "kill r =
     (let r1 = clearTimeout r in
      case process r1 of
        None \<Rightarrow> (r1, [])
      | Some p \<Rightarrow> (r1\<lparr>killed := True, process := None\<rparr>, [ProcKill p]))"

definition dispose :: "'s cli_runner \<Rightarrow> 's cli_runner \<times> effect list" where
  "dispose r = kill (r\<lparr>disposed := True\<rparr>)"

text \<open>The closure \<open>finish\<close> of execution \<open>k\<close>.\<close>

definition finish :: "nat \<Rightarrow> callback \<Rightarrow> 's cli_runner \<Rightarrow> 's cli_runner \<times> effect list" where
  "finish k cb r =
     (if k \<in> set (handlersDone r) then (r, [])
      else (clearTimeout (r\<lparr>handlersDone := k # handlersDone r\<rparr>), [Handler k cb]))"

definition run :: "'s cli_subclass \<Rightarrow> RunOptions \<Rightarrow> 's cli_runner \<Rightarrow> 's cli_runner \<times> effect list" where
  "run S options r =
     (let k = runs r; r0 = r\<lparr>runs := Suc k\<rparr> in
      if disposed r0
      then (r0, [Handler k (OnError (JStr (js ''Runner has been disposed'')) (opt_requestId options))])
      else
        case kill r0 of (r1, out1) \<Rightarrow>
        let r2 = r1\<lparr>killed := False\<rparr> in
        case spawnProcess S options (sub r2) of
          (NotSpawned cbs, s') \<Rightarrow> (r2\<lparr>sub := s'\<rparr>, out1 @ map (Handler k) cbs)
        | (Spawned, s') \<Rightarrow>
            (r2\<lparr>sub := s', process := Some k, children := children r2 @ [(k, options)],
                timeout := Some k\<rparr>, out1))"

text \<open>The listener of the child's \<open>exit\<close> event, with the exit code and the signal.\<close>

definition exit_reason :: "int option \<Rightarrow> jstring option \<Rightarrow> jstring" where
  "exit_reason exitCode signal =
     (case exitCode of
        Some n \<Rightarrow> js ''CLI exited with code '' @ show_int n
      | None \<Rightarrow> js ''CLI killed by signal '' @ (case signal of Some s \<Rightarrow> s | None \<Rightarrow> js ''unknown''))"

definition onExit ::
  "'s cli_subclass \<Rightarrow> nat \<Rightarrow> int option \<Rightarrow> jstring option \<Rightarrow> 's cli_runner \<Rightarrow> 's cli_runner \<times> effect list" where
  "onExit S k exitCode signal r =
     (case map_of (children r) k of
        None \<Rightarrow> (r, [])
      | Some options \<Rightarrow>
          let r1 = r\<lparr>process := None, sub := onProcessExit S options (sub r)\<rparr> in
          if killed r1 then (r1, [])
          else if exitCode = Some 0 then finish k (OnComplete (opt_requestId options)) r1
          else finish k (OnError (JStr (exit_reason exitCode signal)) (opt_requestId options)) r1)"

text \<open>The listener of the child's \<open>error\<close> event, with \<open>err.message\<close>.\<close>

definition onErrorEvent ::
  "'s cli_subclass \<Rightarrow> nat \<Rightarrow> jstring \<Rightarrow> 's cli_runner \<Rightarrow> 's cli_runner \<times> effect list" where
  "onErrorEvent S k message r =
     (case map_of (children r) k of
        None \<Rightarrow> (r, [])
      | Some options \<Rightarrow>
          finish k (OnError (JStr message) (opt_requestId options))
            (r\<lparr>process := None, sub := onProcessExit S options (sub r)\<rparr>))"

text \<open>The timer of execution \<open>k\<close> fires; a cleared timer does not.\<close>

definition onTimeout :: "nat \<Rightarrow> 's cli_runner \<Rightarrow> 's cli_runner \<times> effect list" where
  "onTimeout k r =
     (case map_of (children r) k of
        None \<Rightarrow> (r, [])
      | Some options \<Rightarrow>
          if timeout r \<noteq> Some k then (r, [])
          else
            case kill r of (r1, out1) \<Rightarrow>
            case finish k (OnError (JStr (js ''Process timed out'')) (opt_requestId options)) r1 of
              (r2, out2) \<Rightarrow> (r2, out1 @ out2))"

text \<open>A line of the child's stdout.\<close>

definition onLine ::
  "'s cli_subclass \<Rightarrow> nat \<Rightarrow> jstring \<Rightarrow> 's cli_runner \<Rightarrow> 's cli_runner \<times> effect list" where
  "onLine S k line r =
     (case map_of (children r) k of
        None \<Rightarrow> (r, [])
      | Some options \<Rightarrow>
          case parseStreamLine S line (opt_requestId options) (sub r) of
            (cbs, s') \<Rightarrow> (r\<lparr>sub := s'\<rparr>, map (Handler k) cbs))"

text \<open>
  What can happen to a runner: its owner calls a method, or an event of child \<open>k\<close> arrives (a
  line of stderr is only logged).
\<close>

datatype runner_op =
    Run RunOptions
  | Kill
  | Dispose
  | Exit nat "int option" "jstring option"
  | ErrorEvent nat jstring
  | StdoutLine nat jstring
  | StderrLine nat jstring
  | TimeoutFired nat

fun step :: "'s cli_subclass \<Rightarrow> runner_op \<Rightarrow> 's cli_runner \<Rightarrow> 's cli_runner \<times> effect list" where
  "step S (Run options) r = run S options r"
| "step S Kill r = kill r"
| "step S Dispose r = dispose r"
| "step S (Exit k exitCode signal) r = onExit S k exitCode signal r"
| "step S (ErrorEvent k message) r = onErrorEvent S k message r"
| "step S (StdoutLine k line) r = onLine S k line r"
| "step S (StderrLine k line) r = (r, [])"
| "step S (TimeoutFired k) r = onTimeout k r"

fun exec :: "'s cli_subclass \<Rightarrow> runner_op list \<Rightarrow> 's cli_runner \<Rightarrow> 's cli_runner \<times> effect list" where
  "exec S [] r = (r, [])"
| "exec S (x # xs) r =
     (case step S x r of (r1, out1) \<Rightarrow>
      case exec S xs r1 of (r2, out2) \<Rightarrow> (r2, out1 @ out2))"

text \<open>The terminal handlers, and how often execution \<open>k\<close>'s were called.\<close>

fun is_terminal :: "callback \<Rightarrow> bool" where
  "is_terminal (OnChunk c rid th) = False"
| "is_terminal (OnComplete rid) = True"
| "is_terminal (OnError m rid) = True"

fun terminal_of :: "nat \<Rightarrow> effect \<Rightarrow> bool" where
  "terminal_of k (Handler n cb) = (n = k \<and> is_terminal cb)"
| "terminal_of k _ = False"

definition terminal_count :: "nat \<Rightarrow> effect list \<Rightarrow> nat" where
  "terminal_count k out = length (filter (terminal_of k) out)"




subsection \<open>The test subclass (test/base-cli-provider.test.ts)\<close>

record TestProvider =
  spawnCalled :: bool
  failSpawn :: bool

definition TestProvider_spawnProcess :: "RunOptions \<Rightarrow> TestProvider \<Rightarrow> spawn_result \<times> TestProvider" where
  "TestProvider_spawnProcess options t =
     (if failSpawn t
      then (NotSpawned [OnError (JStr (js ''spawn failed'')) (opt_requestId options)], t\<lparr>spawnCalled := True\<rparr>)
      else (Spawned, t\<lparr>spawnCalled := True\<rparr>))"

definition TestProvider_parseStreamLine ::
  "jstring \<Rightarrow> jstring \<Rightarrow> TestProvider \<Rightarrow> callback list \<times> TestProvider" where
  "TestProvider_parseStreamLine line rid t =
     ((if line = js ''CHUNK:hello'' then [OnChunk (JStr (js ''hello'')) rid False] else [])
      @ (if line = js ''ERROR:oops'' then [OnError (JStr (js ''oops'')) rid] else []), t)"

definition TestProvider_class :: "TestProvider cli_subclass" where
  "TestProvider_class = \<lparr>spawnProcess = TestProvider_spawnProcess,
     parseStreamLine = TestProvider_parseStreamLine, onProcessExit = (\<lambda>options t. t)\<rparr>"

definition test_options :: "string \<Rightarrow> RunOptions" where
  "test_options rid = \<lparr>opt_prompt = js ''hi'', opt_model = None, opt_systemPrompt = None,
     opt_projectId = None, opt_requestId = js rid, opt_thinkingTokens = None, opt_images = None\<rparr>"

text \<open>
  The children spawned so far, and the bookkeeping they obey: a child and a finished execution
  are runs that have been made.
\<close>

definition spawned :: "'s cli_runner \<Rightarrow> nat set" where
  "spawned r = fst ` set (children r)"

definition runner_inv :: "'s cli_runner \<Rightarrow> bool" where
  "runner_inv r = (list_all (\<lambda>k. k < runs r) (map fst (children r))
     \<and> list_all (\<lambda>k. k < runs r) (handlersDone r))"

text \<open>How many terminal handler calls execution \<open>k\<close> can still make: none once its guard is set.\<close>

definition pending :: "nat \<Rightarrow> 's cli_runner \<Rightarrow> nat" where
  "pending k r = (if k \<in> set (handlersDone r) then 0 else 1)"

definition test_provider :: TestProvider where
  "test_provider = \<lparr>spawnCalled = False, failSpawn = False\<rparr>"

section \<open>HTTP streaming runner (process/ollama-provider.ts)\<close>

definition DEFAULT_BASE_URL :: jstring where
  "DEFAULT_BASE_URL = js ''http://localhost:11434''"

definition DEFAULT_MODEL :: jstring where
  "DEFAULT_MODEL = js ''llama3.2''"

text \<open>
  The fields of \<open>OllamaProvider\<close>. \<open>abortController\<close> holds the controller made by a run;
  \<open>aborted\<close> are the runs whose signal has been aborted, \<open>timers\<close> the runs whose
  \<open>timeoutHandle\<close> is armed, and \<open>calls\<close> the options each started request closes over.
\<close>

record OllamaProvider =
  baseUrl :: jstring
  abortController :: "nat option"
  ol_disposed :: bool
  aborted :: "nat list"
  timers :: "nat list"
  ol_runs :: nat
  calls :: "(nat \<times> RunOptions) list"

text \<open>The constructor: \<open>(options.baseUrl ?? DEFAULT_BASE_URL).replace(/\/$/, "")\<close>.\<close>

definition strip_trailing_slash :: "jstring \<Rightarrow> jstring" where
  "strip_trailing_slash u = (if u \<noteq> [] \<and> last u = 0x2F then butlast u else u)"

definition new_OllamaProvider :: "jstring option \<Rightarrow> OllamaProvider" where
  "new_OllamaProvider url =
     \<lparr>baseUrl = strip_trailing_slash (case url of Some u \<Rightarrow> u | None \<Rightarrow> DEFAULT_BASE_URL),
      abortController = None, ol_disposed = False, aborted = [], timers = [], ol_runs = 0,
      calls = []\<rparr>"

definition ollama_kill :: "OllamaProvider \<Rightarrow> OllamaProvider" where
  "ollama_kill r =
     (case abortController r of
        None \<Rightarrow> r
      | Some k \<Rightarrow> r\<lparr>aborted := k # aborted r, abortController := None\<rparr>)"

definition ollama_dispose :: "OllamaProvider \<Rightarrow> OllamaProvider" where
  "ollama_dispose r = ollama_kill (r\<lparr>ol_disposed := True\<rparr>)"

definition ollama_run :: "RunOptions \<Rightarrow> OllamaProvider \<Rightarrow> OllamaProvider \<times> effect list" where
  "ollama_run options r =
     (let k = ol_runs r; r0 = r\<lparr>ol_runs := Suc k\<rparr> in
      if ol_disposed r0
      then (r0, [Handler k (OnError (JStr (js ''Runner has been disposed'')) (opt_requestId options))])
      else
        let r1 = ollama_kill r0;
            r2 = r1\<lparr>abortController := Some k, timers := k # timers r1,
                    calls := calls r1 @ [(k, options)]\<rparr>
        in (r2, [Fetch k (baseUrl r @ js ''/api/generate'')
                  \<lparr>body_model = (case opt_model options of Some m \<Rightarrow> m | None \<Rightarrow> DEFAULT_MODEL),
                   body_prompt = opt_prompt options,
                   body_stream = True,
                   body_system = (case opt_systemPrompt options of
                                    Some sp \<Rightarrow> if sp \<noteq> [] then Some sp else None
                                  | None \<Rightarrow> None)\<rparr>]))"

text \<open>The timer of request \<open>k\<close> fires, if it is still armed.\<close>

definition ollama_onTimeout :: "nat \<Rightarrow> OllamaProvider \<Rightarrow> OllamaProvider \<times> effect list" where
  "ollama_onTimeout k r =
     (case map_of (calls r) k of
        None \<Rightarrow> (r, [])
      | Some options \<Rightarrow>
          if k \<notin> set (timers r) then (r, [])
          else (ollama_kill (r\<lparr>timers := removeAll k (timers r)\<rparr>),
                [Handler k (OnError (JStr (js ''Request timed out'')) (opt_requestId options))]))"

subsection \<open>\<open>fetchStream\<close>\<close>

text \<open>
  What the network does to one request, as \<open>fetchStream\<close> observes it. \<open>fetch\<close> rejects (with
  \<open>signal.aborted\<close> as read in the \<open>catch\<close>, \<open>err.message\<close> when \<open>err\<close> is an \<open>Error\<close>, and the
  \<open>code\<close> of \<open>err.cause\<close> when the error carries its underlying cause there; the catch reads
  the message only), or it answers with a status, the text of the body (\<open>None\<close> when
  \<open>response.text()\<close> rejects) and the body stream. Each read of the stream yields decoded text together with \<open>signal.aborted\<close>
  as read after it; the stream ends (with \<open>signal.aborted\<close> as read then) or a read rejects.
\<close>

datatype stream_end = EndOfStream bool | ReadRejects "jstring option"

datatype body_script = NoBody | Body "(bool \<times> jstring) list" stream_end

datatype fetch_script =
    FetchRejects bool "jstring option" "jstring option"
  | Response nat "jstring option" body_script

text \<open>How an \<open>async\<close> function ends: it returns, or throws (with the message of an \<open>Error\<close>).\<close>

datatype outcome = Returned | Threw "jstring option"

text \<open>The closure \<open>finish\<close> of \<open>fetchStream\<close>, given its variable \<open>handlersDone\<close>.\<close>

definition ollama_finish :: "bool \<Rightarrow> callback \<Rightarrow> callback list" where
  "ollama_finish done_already cb = (if done_already then [] else [cb])"

text \<open>\<open>!line.trim()\<close>: the line has only white space and line terminators.\<close>

definition js_whitespace :: "jchar \<Rightarrow> bool" where
  "js_whitespace c =
     (c = 0x09 \<or> c = 0x0A \<or> c = 0x0B \<or> c = 0x0C \<or> c = 0x0D \<or> c = 0x20 \<or> c = 0xA0
      \<or> c = 0x1680 \<or> (0x2000 \<le> c \<and> c \<le> 0x200A) \<or> c = 0x2028 \<or> c = 0x2029 \<or> c = 0x202F
      \<or> c = 0x205F \<or> c = 0x3000 \<or> c = 0xFEFF)"

text \<open>\<open>v\<close> when it is truthy.\<close>

definition if_truthy :: "json option \<Rightarrow> json option" where
  "if_truthy v = (if truthy v then v else None)"

text \<open>
  The body of the \<open>for\<close> loop for one line: \<open>Stop\<close> when it returns from \<open>fetchStream\<close>,
  \<open>Continue\<close> when the loop goes on. Every call of \<open>finish\<close> is followed by \<open>return\<close>, so
  \<open>handlersDone\<close> is false when \<open>finish\<close> is reached. Reading a property of \<open>null\<close> throws, and
  the \<open>catch\<close> skips the line as it does a line that is not JSON.
\<close>

datatype line_result = Continue "callback list" | Stop "callback list"

definition processLine :: "(jstring \<Rightarrow> json option) \<Rightarrow> jstring \<Rightarrow> jstring \<Rightarrow> line_result" where
  "processLine JSON_parse rid line =
     (if list_all js_whitespace line then Continue []
      else case JSON_parse line of
        None \<Rightarrow> Continue []
      | Some JNull \<Rightarrow> Continue []
      | Some event \<Rightarrow>
          (case if_truthy (getProp event (js ''error'')) of
             Some err \<Rightarrow> Stop (ollama_finish False (OnError err rid))
           | None \<Rightarrow>
               let chunk = (case if_truthy (getProp event (js ''response'')) of
                              Some response \<Rightarrow> [OnChunk response rid False]
                            | None \<Rightarrow> [])
               in if truthy (getProp event (js ''done''))
                  then Stop (chunk @ ollama_finish False (OnComplete rid))
                  else Continue chunk))"

fun processLines :: "(jstring \<Rightarrow> json option) \<Rightarrow> jstring \<Rightarrow> jstring list \<Rightarrow> line_result" where
  "processLines JSON_parse rid [] = Continue []"
| "processLines JSON_parse rid (line # rest) =
     (case processLine JSON_parse rid line of
        Stop cbs \<Rightarrow> Stop cbs
      | Continue cbs \<Rightarrow>
          (case processLines JSON_parse rid rest of
             Stop cbs2 \<Rightarrow> Stop (cbs @ cbs2)
           | Continue cbs2 \<Rightarrow> Continue (cbs @ cbs2)))"

text \<open>
  The stream as the specification words it. A line makes its calls and either stops the
  processing or not; the calls of a stream are those of the lines before the first one that
  stops, then those of that line, and when no line stops \<open>onComplete\<close> unless the request is
  aborted at the end.
\<close>

definition line_calls :: "(jstring \<Rightarrow> json option) \<Rightarrow> jstring \<Rightarrow> jstring \<Rightarrow> callback list" where
  "line_calls JSON_parse rid line =
     (case processLine JSON_parse rid line of Continue cbs \<Rightarrow> cbs | Stop cbs \<Rightarrow> cbs)"

definition line_stops :: "(jstring \<Rightarrow> json option) \<Rightarrow> jstring \<Rightarrow> jstring \<Rightarrow> bool" where
  "line_stops JSON_parse rid line =
     (case processLine JSON_parse rid line of Continue cbs \<Rightarrow> False | Stop cbs \<Rightarrow> True)"

definition stream_calls ::
  "(jstring \<Rightarrow> json option) \<Rightarrow> jstring \<Rightarrow> jstring list \<Rightarrow> bool \<Rightarrow> callback list" where
  "stream_calls JSON_parse rid lines endAborted =
     concat (map (line_calls JSON_parse rid)
               (takeWhile (\<lambda>l. \<not> line_stops JSON_parse rid l) lines))
     @ (case dropWhile (\<lambda>l. \<not> line_stops JSON_parse rid l) lines of
          l # rest \<Rightarrow> line_calls JSON_parse rid l
        | [] \<Rightarrow> if endAborted then [] else [OnComplete rid])"

text \<open>\<open>s.split("\n")\<close>\<close>

fun split_nl :: "jstring \<Rightarrow> jstring list" where
  "split_nl [] = [[]]"
| "split_nl (c # cs) =
     (if c = 0x0A then [] # split_nl cs
      else case split_nl cs of
        [] \<Rightarrow> [[c]]
      | l # ls \<Rightarrow> (c # l) # ls)"

text \<open>The \<open>while\<close> loop over the reads, with the current \<open>buffer\<close>.\<close>

fun readLoop ::
  "(jstring \<Rightarrow> json option) \<Rightarrow> jstring \<Rightarrow> (bool \<times> jstring) list \<Rightarrow> stream_end \<Rightarrow> jstring
     \<Rightarrow> callback list \<times> outcome" where
  "readLoop JSON_parse rid [] e buffer =
     (case e of
        ReadRejects m \<Rightarrow> ([], Threw m)
      | EndOfStream abortedNow \<Rightarrow>
          if abortedNow then ([], Returned)
          else (ollama_finish False (OnComplete rid), Returned))"
| "readLoop JSON_parse rid ((abortedNow, text) # rest) e buffer =
     (if abortedNow then ([], Returned)
      else
        let lines = split_nl (buffer @ text) in
        case processLines JSON_parse rid (butlast lines) of
          Stop cbs \<Rightarrow> (cbs, Returned)
        | Continue cbs \<Rightarrow>
            (case readLoop JSON_parse rid rest e (last lines) of
               (cbs2, oc) \<Rightarrow> (cbs @ cbs2, oc)))"

definition fetchStream ::
  "jstring \<Rightarrow> (jstring \<Rightarrow> json option) \<Rightarrow> jstring \<Rightarrow> fetch_script \<Rightarrow> callback list \<times> outcome" where
  "fetchStream url JSON_parse rid script =
     (case script of
        FetchRejects abortedNow err cause \<Rightarrow>
          if abortedNow then ([], Returned)
          else ([], Threw (Some
            (case err of
               Some message \<Rightarrow>
                 if str_includes message (js ''ECONNREFUSED'')
                 then js ''Ollama server not reachable at '' @ url @ js ''. Is Ollama running?''
                 else message
             | None \<Rightarrow> js ''Failed to connect to Ollama'')))
      | Response status text body \<Rightarrow>
          if \<not> (200 \<le> status \<and> status \<le> 299)
          then ([], Threw (Some (js ''Ollama returned HTTP '' @ js (digits status) @ js '': ''
                  @ take 200 (case text of Some t \<Rightarrow> t | None \<Rightarrow> []))))
          else (case body of
                  NoBody \<Rightarrow> ([], Threw (Some (js ''Ollama response has no body'')))
                | Body reads e \<Rightarrow> readLoop JSON_parse rid reads e []))"

text \<open>
  The promise of request \<open>k\<close> settles: what \<open>fetchStream\<close> called, then the \<open>catch\<close> and the
  \<open>finally\<close> of \<open>run\<close>.
\<close>

definition ollama_settle ::
  "(jstring \<Rightarrow> json option) \<Rightarrow> nat \<Rightarrow> fetch_script \<Rightarrow> OllamaProvider \<Rightarrow> OllamaProvider \<times> effect list" where
  "ollama_settle JSON_parse k script r =
     (case map_of (calls r) k of
        None \<Rightarrow> (r, [])
      | Some options \<Rightarrow>
          case fetchStream (baseUrl r) JSON_parse (opt_requestId options) script of
            (cbs, oc) \<Rightarrow>
              (r\<lparr>timers := removeAll k (timers r), abortController := None\<rparr>,
               map (Handler k)
                 (cbs @ (case oc of
                           Returned \<Rightarrow> []
                         | Threw m \<Rightarrow>
                             if k \<in> set (aborted r) then []
                             else [OnError (JStr (case m of Some message \<Rightarrow> message
                                                   | None \<Rightarrow> js ''Ollama request failed''))
                                     (opt_requestId options)]))))"

datatype ollama_op =
    ORun RunOptions
  | OKill
  | ODispose
  | OTimeoutFired nat
  | OSettled nat fetch_script

fun ollama_step ::
  "(jstring \<Rightarrow> json option) \<Rightarrow> ollama_op \<Rightarrow> OllamaProvider \<Rightarrow> OllamaProvider \<times> effect list" where
  "ollama_step JSON_parse (ORun options) r = ollama_run options r"
| "ollama_step JSON_parse OKill r = (ollama_kill r, [])"
| "ollama_step JSON_parse ODispose r = (ollama_dispose r, [])"
| "ollama_step JSON_parse (OTimeoutFired k) r = ollama_onTimeout k r"
| "ollama_step JSON_parse (OSettled k script) r = ollama_settle JSON_parse k script r"

fun ollama_exec ::
  "(jstring \<Rightarrow> json option) \<Rightarrow> ollama_op list \<Rightarrow> OllamaProvider \<Rightarrow> OllamaProvider \<times> effect list" where
  "ollama_exec JSON_parse [] r = (r, [])"
| "ollama_exec JSON_parse (x # xs) r =
     (case ollama_step JSON_parse x r of (r1, out1) \<Rightarrow>
      case ollama_exec JSON_parse xs r1 of (r2, out2) \<Rightarrow> (r2, out1 @ out2))"

text \<open>Example lines of an Ollama response stream.\<close>

definition empty_response_line :: jstring where
  "empty_response_line = js (''{'' @ dq ''response'' @ '':'' @ dq [] @ '','' @ dq ''done'' @ '':false}'')"

definition empty_response_value :: json where
  "empty_response_value = JObj [(js ''response'', JStr []), (js ''done'', JBool False)]"

definition hello_line :: jstring where
  "hello_line = js (''{'' @ dq ''response'' @ '':'' @ dq ''Hello'' @ '','' @ dq ''done'' @ '':false}'')"

definition hello_value :: json where
  "hello_value = JObj [(js ''response'', JStr (js ''Hello'')), (js ''done'', JBool False)]"

definition done_line :: jstring where
  "done_line = js (''{'' @ dq ''response'' @ '':'' @ dq [] @ '','' @ dq ''done'' @ '':true}'')"

definition done_value :: json where
  "done_value = JObj [(js ''response'', JStr []), (js ''done'', JBool True)]"

definition error_line :: jstring where
  "error_line = js (''{'' @ dq ''error'' @ '':'' @ dq ''model not found'' @ ''}'')"

definition error_value :: json where
  "error_value = JObj [(js ''error'', JStr (js ''model not found''))]"

definition ollama_lines :: "jstring \<Rightarrow> json option" where
  "ollama_lines = JSON_parse_table
     [(empty_response_line, empty_response_value), (hello_line, hello_value), (done_line, done_value),
      (error_line, error_value)]"

text \<open>The bookkeeping of an \<open>OllamaProvider\<close>: an aborted or started request is a run made.\<close>

definition no_read_aborted :: "(bool \<times> jstring) list \<Rightarrow> bool" where
  "no_read_aborted reads = list_all (\<lambda>rd. \<not> fst rd) reads"

section \<open>Connection state and multiplexer (server/websocket.ts)\<close>

text \<open>The frames the server sends (\<open>AgentMessage\<close>); a chunk carries \<open>thinking: true\<close> or no such key.\<close>

datatype AgentMessage =
    ConnectedMessage jstring jstring
  | ChunkMessage json jstring bool
  | CompleteMessage jstring
  | ErrorMessage json "jstring option"

text \<open>A JavaScript \<open>Map\<close> with string keys, in insertion order.\<close>

definition Map_get :: "(jstring \<times> 'v) list \<Rightarrow> jstring \<Rightarrow> 'v option" where
  "Map_get m k = map_of m k"

definition Map_has :: "(jstring \<times> 'v) list \<Rightarrow> jstring \<Rightarrow> bool" where
  "Map_has m k = (map_of m k \<noteq> None)"

definition Map_set :: "(jstring \<times> 'v) list \<Rightarrow> jstring \<Rightarrow> 'v \<Rightarrow> (jstring \<times> 'v) list" where
  "Map_set m k v =
     (if Map_has m k then map (\<lambda>kv. if fst kv = k then (k, v) else kv) m else m @ [(k, v)])"

definition Map_delete :: "(jstring \<times> 'v) list \<Rightarrow> jstring \<Rightarrow> (jstring \<times> 'v) list" where
  "Map_delete m k = filter (\<lambda>kv. fst kv \<noteq> k) m"

text \<open>
  The runners behind a connection, through the \<open>Runner\<close> interface: \<open>'r\<close> are the runner
  objects and \<open>'w\<close> is everything they hold and touch. \<open>createRunner\<close> is \<open>createClaudeRunner\<close>,
  \<open>createCodexRunner\<close> or \<open>createOllamaRunner\<close> (a factory of the options, or the provider
  class); \<open>runnerRun\<close> gives the handler calls made before \<open>run\<close> returns. The runners of this
  repository call no handler inside \<open>kill\<close> and \<open>dispose\<close>.
\<close>

record ('r, 'w) runner_layer =
  createRunner :: "provider \<Rightarrow> 'w \<Rightarrow> 'r \<times> 'w"
  runnerRun :: "'r \<Rightarrow> RunOptions \<Rightarrow> 'w \<Rightarrow> callback list \<times> 'w"
  runnerKill :: "'r \<Rightarrow> 'w \<Rightarrow> 'w"
  runnerDispose :: "'r \<Rightarrow> 'w \<Rightarrow> 'w"

datatype 'r runner_call =
    CreateCall provider 'r
  | RunCall 'r RunOptions
  | KillCall 'r
  | DisposeCall 'r

text \<open>
  \<open>ConnectionState\<close> with its socket: whether \<open>ws.readyState\<close> is \<open>OPEN\<close>, the frames written
  and the frames dropped, the runners' world, and the calls made to runners so far.
\<close>

record ('r, 'w) connection =
  requests :: "(jstring \<times> 'r) list"
  claudeRunner :: "'r option"
  codexRunner :: "'r option"
  ollamaRunner :: "'r option"
  isAlive :: bool
  readyStateOpen :: bool
  sent :: "AgentMessage list"
  dropped :: "AgentMessage list"
  world :: 'w
  runnerCalls :: "'r runner_call list"

definition sendMessage :: "('r, 'w) connection \<Rightarrow> AgentMessage \<Rightarrow> ('r, 'w) connection" where
  "sendMessage c message =
     (if readyStateOpen c then c\<lparr>sent := sent c @ [message]\<rparr>
      else c\<lparr>dropped := dropped c @ [message]\<rparr>)"

text \<open>The connection after admission, in \<open>handleConnection\<close>.\<close>

definition new_connection :: "jstring option \<Rightarrow> 'w \<Rightarrow> ('r, 'w) connection" where
  "new_connection agentName w =
     sendMessage
       \<lparr>requests = [], claudeRunner = None, codexRunner = None, ollamaRunner = None,
        isAlive = True, readyStateOpen = True, sent = [], dropped = [], world = w,
        runnerCalls = []\<rparr>
       (ConnectedMessage (js ''2.0'') (case agentName of Some a \<Rightarrow> a | None \<Rightarrow> js ''bridge-ws''))"

text \<open>The three handlers \<open>handlePrompt\<close> binds to the connection.\<close>

fun applyCallback :: "callback \<Rightarrow> ('r, 'w) connection \<Rightarrow> ('r, 'w) connection" where
  "applyCallback (OnChunk content reqId thinking) c =
     sendMessage c (ChunkMessage content reqId thinking)"
| "applyCallback (OnComplete reqId) c =
     sendMessage (c\<lparr>requests := Map_delete (requests c) reqId\<rparr>) (CompleteMessage reqId)"
| "applyCallback (OnError errorMessage reqId) c =
     sendMessage (c\<lparr>requests := Map_delete (requests c) reqId\<rparr>)
       (ErrorMessage errorMessage (Some reqId))"

definition runner_slot :: "provider \<Rightarrow> ('r, 'w) connection \<Rightarrow> 'r option" where
  "runner_slot p c = (case p of Codex \<Rightarrow> codexRunner c | Ollama \<Rightarrow> ollamaRunner c | Claude \<Rightarrow> claudeRunner c)"

text \<open>The lazy creation of the provider's runner in \<open>handlePrompt\<close>.\<close>

definition selectRunner ::
  "('r, 'w) runner_layer \<Rightarrow> provider \<Rightarrow> ('r, 'w) connection \<Rightarrow> 'r \<times> ('r, 'w) connection" where
  "selectRunner L p c =
     (case runner_slot p c of
        Some r \<Rightarrow> (r, c)
      | None \<Rightarrow>
          case createRunner L p (world c) of (r, w') \<Rightarrow>
          let c1 = c\<lparr>world := w', runnerCalls := runnerCalls c @ [CreateCall p r]\<rparr> in
          (r, case p of
                Codex \<Rightarrow> c1\<lparr>codexRunner := Some r\<rparr>
              | Ollama \<Rightarrow> c1\<lparr>ollamaRunner := Some r\<rparr>
              | Claude \<Rightarrow> c1\<lparr>claudeRunner := Some r\<rparr>))"

text \<open>The options object \<open>handlePrompt\<close> passes to \<open>run\<close>.\<close>

definition promptOptions :: "PromptMessage \<Rightarrow> RunOptions" where
  "promptOptions m =
     \<lparr>opt_prompt = prompt m, opt_model = model m, opt_systemPrompt = systemPrompt m,
      opt_projectId = projectId m, opt_requestId = requestId m,
      opt_thinkingTokens = thinkingTokens m, opt_images = images m\<rparr>"

text \<open>The call \<open>runner.run(options, handlers)\<close> with the connection as it is at the call.\<close>

definition invokeRun ::
  "('r, 'w) runner_layer \<Rightarrow> 'r \<Rightarrow> RunOptions \<Rightarrow> ('r, 'w) connection \<Rightarrow> ('r, 'w) connection" where
  "invokeRun L r options c =
     (case runnerRun L r options (world c) of (cbs, w') \<Rightarrow>
        fold applyCallback cbs (c\<lparr>world := w', runnerCalls := runnerCalls c @ [RunCall r options]\<rparr>))"

definition handlePrompt ::
  "('r, 'w) runner_layer \<Rightarrow> ('r, 'w) connection \<Rightarrow> PromptMessage \<Rightarrow> ('r, 'w) connection" where
  "handlePrompt L c m =
     (if Map_has (requests c) (requestId m)
      then sendMessage c
             (ErrorMessage (JStr (js ''Request '' @ requestId m @ js '' is already in progress''))
                (Some (requestId m)))
      else
        case selectRunner L (provider m) c of (r, c1) \<Rightarrow>
          invokeRun L r (promptOptions m)
            (c1\<lparr>requests := Map_set (requests c1) (requestId m) r\<rparr>))"

definition handleCancel ::
  "('r, 'w) runner_layer \<Rightarrow> ('r, 'w) connection \<Rightarrow> jstring \<Rightarrow> ('r, 'w) connection" where
  "handleCancel L c rid =
     (case Map_get (requests c) rid of
        None \<Rightarrow>
          sendMessage c (ErrorMessage (JStr (js ''No active request with id: '' @ rid)) (Some rid))
      | Some r \<Rightarrow>
          let c1 = c\<lparr>world := runnerKill L r (world c), runnerCalls := runnerCalls c @ [KillCall r]\<rparr>;
              c2 = c1\<lparr>requests := Map_delete (requests c1) rid\<rparr>
          in sendMessage c2 (ErrorMessage (JStr (js ''Request cancelled'')) (Some rid)))"

definition handleMessage ::
  "('r, 'w) runner_layer \<Rightarrow> (jstring \<Rightarrow> json option) \<Rightarrow> ('r, 'w) connection \<Rightarrow> jstring
     \<Rightarrow> ('r, 'w) connection" where
  "handleMessage L JSON_parse c raw =
     (case parseClientMessage JSON_parse raw of
        Inl e \<Rightarrow> sendMessage c (ErrorMessage (JStr e) None)
      | Inr (Prompt m) \<Rightarrow> handlePrompt L c m
      | Inr (Cancel rid) \<Rightarrow> handleCancel L c rid)"

text \<open>
  The disposal at close, in the heartbeat and in \<open>stop\<close>: the runner of every active request,
  then the cached runners.
\<close>

definition disposeRunner :: "('r, 'w) runner_layer \<Rightarrow> 'r \<Rightarrow> ('r, 'w) connection \<Rightarrow> ('r, 'w) connection" where
  "disposeRunner L r c =
     c\<lparr>world := runnerDispose L r (world c), runnerCalls := runnerCalls c @ [DisposeCall r]\<rparr>"

definition disposeAll :: "('r, 'w) runner_layer \<Rightarrow> ('r, 'w) connection \<Rightarrow> ('r, 'w) connection" where
  "disposeAll L c =
     fold (disposeRunner L)
       (map snd (requests c)
        @ (case claudeRunner c of Some r \<Rightarrow> [r] | None \<Rightarrow> [])
        @ (case codexRunner c of Some r \<Rightarrow> [r] | None \<Rightarrow> [])
        @ (case ollamaRunner c of Some r \<Rightarrow> [r] | None \<Rightarrow> [])) c"

text \<open>
  What happens on a connection: a frame arrives, a pong arrives, a runner calls a handler
  later, the heartbeat ticks (the ping may throw), the socket closes.
\<close>

datatype conn_event =
    Message jstring
  | Pong
  | HandlerCall callback
  | Heartbeat bool
  | Close

fun conn_step ::
  "('r, 'w) runner_layer \<Rightarrow> (jstring \<Rightarrow> json option) \<Rightarrow> conn_event \<Rightarrow> ('r, 'w) connection
     \<Rightarrow> ('r, 'w) connection" where
  "conn_step L JSON_parse (Message raw) c = handleMessage L JSON_parse c raw"
| "conn_step L JSON_parse Pong c = c\<lparr>isAlive := True\<rparr>"
| "conn_step L JSON_parse (HandlerCall cb) c = applyCallback cb c"
| "conn_step L JSON_parse (Heartbeat pingThrows) c =
     (if \<not> isAlive c then (disposeAll L c)\<lparr>readyStateOpen := False\<rparr>
      else if pingThrows then (disposeAll L (c\<lparr>isAlive := False\<rparr>))\<lparr>readyStateOpen := False\<rparr>
      else c\<lparr>isAlive := False\<rparr>)"
| "conn_step L JSON_parse Close c = (disposeAll L c)\<lparr>readyStateOpen := False\<rparr>"

definition conn_run ::
  "('r, 'w) runner_layer \<Rightarrow> (jstring \<Rightarrow> json option) \<Rightarrow> conn_event list \<Rightarrow> ('r, 'w) connection
     \<Rightarrow> ('r, 'w) connection" where
  "conn_run L JSON_parse events c = fold (conn_step L JSON_parse) events c"

text \<open>How often a runner was created for provider \<open>p\<close>.\<close>

fun is_create :: "provider \<Rightarrow> 'r runner_call \<Rightarrow> bool" where
  "is_create p (CreateCall q r) = (q = p)"
| "is_create p _ = False"

definition creations :: "provider \<Rightarrow> ('r, 'w) connection \<Rightarrow> nat" where
  "creations p c = length (filter (is_create p) (runnerCalls c))"

subsection \<open>The mock runner of test/multiplexing.test.ts\<close>

record MockRunner =
  lastOptions :: "RunOptions option"
  killCount :: nat

definition mock_layer :: "(unit, MockRunner) runner_layer" where
  "mock_layer =
     \<lparr>createRunner = (\<lambda>p w. ((), w)),
      runnerRun = (\<lambda>r options w. ([], w\<lparr>lastOptions := Some options\<rparr>)),
      runnerKill = (\<lambda>r w. w\<lparr>killCount := Suc (killCount w)\<rparr>),
      runnerDispose = (\<lambda>r w. w\<lparr>killCount := Suc (killCount w)\<rparr>)\<rparr>"

definition mock_connection :: "(unit, MockRunner) connection" where
  "mock_connection = new_connection None \<lparr>lastOptions = None, killCount = 0\<rparr>"

definition prompt_r1 :: PromptMessage where
  "prompt_r1 = \<lparr>prompt = js ''hi'', model = None, systemPrompt = None, projectId = None,
     requestId = js ''r1'', provider = Claude, thinkingTokens = None, images = None\<rparr>"

text \<open>
  What holds of a connection at every moment: the request map has no key twice, and a provider's
  runner has been created exactly when its slot is set, and then once.
\<close>

definition conn_inv :: "('r, 'w) connection \<Rightarrow> bool" where
  "conn_inv c =
     (distinct (map fst (requests c))
      \<and> list_all (\<lambda>p. creations p c = (if runner_slot p c = None then 0 else 1)) [Claude, Codex, Ollama])"

section \<open>Project scoping in the subprocess providers (process/claude-provider.ts, process/codex-provider.ts)\<close>

subsection \<open>\<open>path.resolve\<close> of node:path, on POSIX\<close>

definition slash :: jchar where
  "slash = 0x2F"

fun split_on :: "'a \<Rightarrow> 'a list \<Rightarrow> 'a list list" where
  "split_on sep [] = [[]]"
| "split_on sep (c # cs) =
     (if c = sep then [] # split_on sep cs
      else case split_on sep cs of
        [] \<Rightarrow> [[c]]
      | l # ls \<Rightarrow> (c # l) # ls)"

text \<open>
  \<open>normalizeString\<close> without going above the root: an empty segment and \<open>.\<close> are skipped, \<open>..\<close>
  removes the last segment kept so far (none at the root), any other segment is kept.
\<close>

fun normalize_segments :: "jstring list \<Rightarrow> jstring list \<Rightarrow> jstring list" where
  "normalize_segments [] kept = kept"
| "normalize_segments (s # ss) kept =
     (if s = [] \<or> s = js ''.'' then normalize_segments ss kept
      else if s = js ''..'' then normalize_segments ss (butlast kept)
      else normalize_segments ss (kept @ [s]))"

fun join_slash :: "jstring list \<Rightarrow> jstring" where
  "join_slash [] = []"
| "join_slash [s] = s"
| "join_slash (s # t # ts) = s @ slash # join_slash (t # ts)"

text \<open>The segments an absolute path leads through, and the absolute path of segments.\<close>

definition path_segments :: "jstring \<Rightarrow> jstring list" where
  "path_segments p = normalize_segments (split_on slash p) []"

definition absolute_path :: "jstring list \<Rightarrow> jstring" where
  "absolute_path segs = slash # join_slash segs"

text \<open>
  The loop of \<open>resolve\<close> over its arguments from the right, until one is absolute; after the
  first argument comes the working directory of the process, which is absolute.
\<close>

fun resolve_from_right :: "jstring list \<Rightarrow> jstring \<Rightarrow> jstring \<Rightarrow> jstring" where
  "resolve_from_right [] processCwd resolvedPath = processCwd @ slash # resolvedPath"
| "resolve_from_right (p # ps) processCwd resolvedPath =
     (if p = [] then resolve_from_right ps processCwd resolvedPath
      else if hd p = slash then p @ slash # resolvedPath
      else resolve_from_right ps processCwd (p @ slash # resolvedPath))"

definition resolve :: "jstring \<Rightarrow> jstring list \<Rightarrow> jstring" where
  "resolve processCwd paths =
     absolute_path (path_segments (resolve_from_right (rev paths) processCwd []))"

subsection \<open>The operating system, as \<open>spawnProcess\<close> meets it\<close>

text \<open>What is written to the child's stdin: the raw text, or the JSON user message and a newline.\<close>

datatype stdin_payload = StdinText jstring | StdinUserMessage "PromptImage list" jstring

text \<open>
  What \<open>spawnProcess\<close> does to the file system and the process table: \<open>mkdirSync\<close>,
  \<open>writeFileSync\<close> of the decoded base64 data, \<open>unlinkSync\<close>, and \<open>spawn\<close> with its path,
  arguments, working directory, environment and stdin.
\<close>

datatype os_effect =
    Mkdir jstring
  | WriteFile jstring jstring
  | Unlink jstring
  | SpawnProc jstring "jstring list" "jstring option" "(jstring \<times> jstring) list" stdin_payload

text \<open>
  What \<open>spawn\<close> throws, if it throws; and the exception of a call of the file system.
  \<open>mkdirSync\<close> and \<open>writeFileSync\<close> stand outside every \<open>try\<close>: their exception leaves
  \<open>spawnProcess\<close> and \<open>run\<close>, and no handler is called.
\<close>

datatype thrown = ThrownError jstring | ThrownOther

datatype fs_exception = MkdirThrows jstring | WriteFileThrows jstring

text \<open>
  \<open>os.tmpdir()\<close>, \<open>process.cwd()\<close>, \<open>process.env\<close>, what \<open>spawn\<close> throws if it throws,
  \<open>String\<close> on a number, and whether a call of \<open>mkdirSync\<close> or \<open>writeFileSync\<close> throws, given the
  calls that \<open>spawnProcess\<close> has made before it.
\<close>

record os_env =
  os_tmpdir :: jstring
  os_cwd :: jstring
  os_env_vars :: "(jstring \<times> jstring) list"
  os_spawn_throws :: "thrown option"
  os_number_to_string :: "jnumber \<Rightarrow> jstring"
  os_fs_throws :: "os_effect list \<Rightarrow> os_effect \<Rightarrow> bool"

text \<open>The environment passed to the child: the allowed keys that are set and not empty.\<close>

definition allowed_env :: "jstring list \<Rightarrow> (jstring \<times> jstring) list \<Rightarrow> (jstring \<times> jstring) list" where
  "allowed_env keys vars =
     concat (map (\<lambda>key. case map_of vars key of
                           Some v \<Rightarrow> if v \<noteq> [] then [(key, v)] else []
                         | None \<Rightarrow> []) keys)"

text \<open>\<open>v\<close> when the optional string is set and not empty (a truthy string).\<close>

definition truthy_string :: "jstring option \<Rightarrow> jstring option" where
  "truthy_string v = (case v of Some s \<Rightarrow> if s \<noteq> [] then Some s else None | None \<Rightarrow> None)"

text \<open>
  The base of the sessions, \<open>resolve(tmpdir(), this.sessionDir)\<close>, and the directory of a
  project, \<open>resolve(base, projectId)\<close>.
\<close>

definition session_base :: "os_env \<Rightarrow> jstring \<Rightarrow> jstring" where
  "session_base os sessionDir = resolve (os_cwd os) [os_tmpdir os, sessionDir]"

definition project_dir :: "os_env \<Rightarrow> jstring \<Rightarrow> jstring \<Rightarrow> jstring" where
  "project_dir os sessionDir pid = resolve (os_cwd os) [session_base os sessionDir, pid]"

text \<open>
  The working directory for a project: \<open>Inl\<close> when the resolved path is neither the base nor
  below \<open>base + "/"\<close>.
\<close>

definition project_cwd :: "os_env \<Rightarrow> jstring \<Rightarrow> jstring \<Rightarrow> unit + jstring" where
  "project_cwd os sessionDir pid =
     (let base = session_base os sessionDir;
          cwd = project_dir os sessionDir pid
      in if \<not> startsWith cwd (base @ [slash]) \<and> cwd \<noteq> base then Inl () else Inr cwd)"

text \<open>
  A segment of a normalised path: not empty, neither \<open>.\<close> nor \<open>..\<close>, without a slash. A path
  lies within a base when the segments of the base lead it (the base itself included), and
  strictly within when it is not the base.
\<close>

definition clean_segment :: "jstring \<Rightarrow> bool" where
  "clean_segment s = (s \<noteq> [] \<and> s \<noteq> js ''.'' \<and> s \<noteq> js ''..'' \<and> slash \<notin> set s)"

definition within_base :: "jstring \<Rightarrow> jstring \<Rightarrow> bool" where
  "within_base base p = startsWith (path_segments p) (path_segments base)"

definition strictly_within_base :: "jstring \<Rightarrow> jstring \<Rightarrow> bool" where
  "strictly_within_base base p = (within_base base p \<and> path_segments p \<noteq> path_segments base)"

subsection \<open>\<open>ClaudeProvider.spawnProcess\<close>\<close>

record ClaudeProvider =
  claudePath :: jstring
  claude_sessionDir :: jstring
  maxTurns :: "nat option"
  tools :: "jstring option"

definition CLAUDE_ALLOWED_ENV_KEYS :: "jstring list" where
  "CLAUDE_ALLOWED_ENV_KEYS =
     [js ''PATH'', js ''HOME'', js ''USER'', js ''SHELL'', js ''TERM'', js ''LANG'', js ''LC_ALL'',
      js ''ANTHROPIC_API_KEY'', js ''NODE_PATH'', js ''XDG_CONFIG_HOME'']"

definition claude_args :: "ClaudeProvider \<Rightarrow> RunOptions \<Rightarrow> jstring list" where
  "claude_args p options =
     [js ''--print'', js ''--verbose'', js ''--output-format'', js ''stream-json'']
     @ (case maxTurns p of Some n \<Rightarrow> [js ''--max-turns'', js (digits n)] | None \<Rightarrow> [])
     @ (case tools p of Some t \<Rightarrow> [js ''--tools'', t] | None \<Rightarrow> [])
     @ (case opt_images options of
          Some (i # is) \<Rightarrow> [js ''--input-format'', js ''stream-json''] | _ \<Rightarrow> [])
     @ (case truthy_string (opt_projectId options) of Some pid \<Rightarrow> [js ''--continue''] | None \<Rightarrow> [])
     @ (case truthy_string (opt_model options) of Some m \<Rightarrow> [js ''--model'', m] | None \<Rightarrow> [])
     @ (case truthy_string (opt_systemPrompt options) of
          Some sp \<Rightarrow> [js ''--append-system-prompt'', sp] | None \<Rightarrow> [])
     @ [js ''-'']"

text \<open>The environment, the \<open>spawn\<close> in its \<open>try\<close>, and the write to stdin.\<close>

definition claude_spawn ::
  "os_env \<Rightarrow> ClaudeProvider \<Rightarrow> RunOptions \<Rightarrow> jstring option \<Rightarrow> os_effect list
     \<Rightarrow> (fs_exception + spawn_result) \<times> os_effect list" where
  "claude_spawn os p options cwd made =
     (let env = (case opt_thinkingTokens options of
                   Some n \<Rightarrow> [(js ''MAX_THINKING_TOKENS'', os_number_to_string os n)]
                 | None \<Rightarrow> [])
                @ allowed_env CLAUDE_ALLOWED_ENV_KEYS (os_env_vars os)
      in case os_spawn_throws os of
           Some err \<Rightarrow>
             (Inr (NotSpawned [OnError (JStr (case err of ThrownError message \<Rightarrow> message
                                              | ThrownOther \<Rightarrow> js ''Failed to start Claude''))
                                 (opt_requestId options)]), made)
         | None \<Rightarrow>
             (Inr Spawned,
              made @ [SpawnProc (claudePath p) (claude_args p options) cwd env
                       (case opt_images options of
                          Some (i # is) \<Rightarrow> StdinUserMessage (i # is) (opt_prompt options)
                        | _ \<Rightarrow> StdinText (opt_prompt options))]))"

text \<open>
  \<open>spawnProcess\<close>: \<open>Inr\<close> what it returns (the child, or \<open>null\<close> after the calls of the handlers),
  \<open>Inl\<close> the exception that leaves it; and the calls of the file system and of \<open>spawn\<close> that
  succeeded.
\<close>

definition claude_spawnProcess ::
  "os_env \<Rightarrow> ClaudeProvider \<Rightarrow> RunOptions \<Rightarrow> (fs_exception + spawn_result) \<times> os_effect list" where
  "claude_spawnProcess os p options =
     (case truthy_string (opt_projectId options) of
        None \<Rightarrow> claude_spawn os p options None []
      | Some pid \<Rightarrow>
          (case project_cwd os (claude_sessionDir p) pid of
             Inl u \<Rightarrow>
               (Inr (NotSpawned [OnError (JStr (js ''Invalid projectId'')) (opt_requestId options)]), [])
           | Inr cwd \<Rightarrow>
               if os_fs_throws os [] (Mkdir cwd) then (Inl (MkdirThrows cwd), [])
               else claude_spawn os p options (Some cwd) [Mkdir cwd]))"

subsection \<open>\<open>CodexProvider.spawnProcess\<close>\<close>

record CodexProvider =
  codexPath :: jstring
  codex_sessionDir :: jstring
  threadId :: "jstring option"
  currentImagePaths :: "jstring list"

definition CODEX_ALLOWED_ENV_KEYS :: "jstring list" where
  "CODEX_ALLOWED_ENV_KEYS =
     [js ''PATH'', js ''HOME'', js ''USER'', js ''SHELL'', js ''TERM'', js ''LANG'', js ''LC_ALL'',
      js ''OPENAI_API_KEY'', js ''NODE_PATH'', js ''XDG_CONFIG_HOME'']"

definition is_alnum :: "jchar \<Rightarrow> bool" where
  "is_alnum c = ((0x61 \<le> c \<and> c \<le> 0x7A) \<or> (0x41 \<le> c \<and> c \<le> 0x5A) \<or> (0x30 \<le> c \<and> c \<le> 0x39))"

text \<open>\<open>requestId.replace(/[^a-zA-Z0-9_-]/g, "_").slice(0, 64)\<close>\<close>

definition safeId :: "jstring \<Rightarrow> jstring" where
  "safeId rid = take 64 (map (\<lambda>c. if is_alnum c \<or> c = 0x5F \<or> c = 0x2D then c else 0x5F) rid)"

text \<open>The extension of an image file, from its media type.\<close>

definition image_ext :: "jstring \<Rightarrow> jstring" where
  "image_ext mediaType =
     (let parts = split_on slash mediaType;
          rawExt = (if length parts > 1 \<and> parts ! 1 \<noteq> [] then parts ! 1 else js ''png'');
          ext = take 10 (filter is_alnum rawExt)
      in if ext \<noteq> [] then ext else js ''png'')"

text \<open>The temp file of image \<open>i\<close>: \<open>join(imgDir, `${safeId}-${i}.${ext}`)\<close>.\<close>

definition image_path :: "jstring \<Rightarrow> jstring \<Rightarrow> nat \<Rightarrow> PromptImage \<Rightarrow> jstring" where
  "image_path imgDir rid i img =
     absolute_path (path_segments
       (imgDir @ slash # (safeId rid @ js ''-'' @ js (digits i) @ js ''.'' @ image_ext (media_type img))))"

definition cleanupImages :: "CodexProvider \<Rightarrow> CodexProvider \<times> os_effect list" where
  "cleanupImages p = (p\<lparr>currentImagePaths := []\<rparr>, map Unlink (currentImagePaths p))"

definition codex_args :: "CodexProvider \<Rightarrow> RunOptions \<Rightarrow> jstring list \<Rightarrow> jstring list" where
  "codex_args p options imagePaths =
     (let resuming = (case (truthy_string (opt_projectId options), truthy_string (threadId p)) of
                        (Some pid, Some tid) \<Rightarrow> Some tid | _ \<Rightarrow> None)
      in (case resuming of
            Some tid \<Rightarrow> [js ''exec'', js ''resume'', tid, js ''--json'', js ''--full-auto'',
                         js ''--skip-git-repo-check'']
          | None \<Rightarrow> [js ''exec'', js ''--json'', js ''--full-auto'', js ''--skip-git-repo-check''])
         @ (case (truthy_string (opt_model options), resuming) of
              (Some m, None) \<Rightarrow> [js ''--model'', m] | _ \<Rightarrow> [])
         @ concat (map (\<lambda>imgPath. [js ''-i'', imgPath]) imagePaths)
         @ [js ''-''])"

text \<open>
  The loop that writes the images to temp files: the exception of the first write that throws,
  the paths pushed to \<open>currentImagePaths\<close>, and the calls made.
\<close>

fun write_images ::
  "os_env \<Rightarrow> jstring \<Rightarrow> jstring \<Rightarrow> PromptImage list \<Rightarrow> nat \<Rightarrow> jstring list \<Rightarrow> os_effect list
     \<Rightarrow> fs_exception option \<times> jstring list \<times> os_effect list" where
  "write_images os imgDir rid [] i paths made = (None, paths, made)"
| "write_images os imgDir rid (img # imgs) i paths made =
     (let imgPath = image_path imgDir rid i img in
      if os_fs_throws os made (WriteFile imgPath (data img))
      then (Some (WriteFileThrows imgPath), paths, made)
      else write_images os imgDir rid imgs (Suc i) (paths @ [imgPath])
             (made @ [WriteFile imgPath (data img)]))"

definition codex_images ::
  "os_env \<Rightarrow> RunOptions \<Rightarrow> fs_exception option \<times> jstring list \<times> os_effect list" where
  "codex_images os options =
     (case opt_images options of
        Some (i # is) \<Rightarrow>
          let imgDir = resolve (os_cwd os) [os_tmpdir os, js ''bridge-ws-images''] in
          if os_fs_throws os [] (Mkdir imgDir) then (Some (MkdirThrows imgDir), [], [])
          else write_images os imgDir (opt_requestId options) (i # is) 0 [] [Mkdir imgDir]
      | _ \<Rightarrow> (None, [], []))"

text \<open>The environment, the \<open>spawn\<close> in its \<open>try\<close>, and the write to stdin.\<close>

definition codex_spawn ::
  "os_env \<Rightarrow> CodexProvider \<Rightarrow> RunOptions \<Rightarrow> jstring option \<Rightarrow> os_effect list
     \<Rightarrow> (fs_exception + spawn_result) \<times> CodexProvider \<times> os_effect list" where
  "codex_spawn os p options cwd made =
     (let fullPrompt = (case truthy_string (opt_systemPrompt options) of
                          Some sp \<Rightarrow> sp @ [0x0A, 0x0A] @ js ''---'' @ [0x0A, 0x0A] @ opt_prompt options
                        | None \<Rightarrow> opt_prompt options);
          env = allowed_env CODEX_ALLOWED_ENV_KEYS (os_env_vars os)
      in case os_spawn_throws os of
           Some err \<Rightarrow>
             (case cleanupImages p of (p2, removed) \<Rightarrow>
                (Inr (NotSpawned [OnError (JStr (case err of ThrownError message \<Rightarrow> message
                                                 | ThrownOther \<Rightarrow> js ''Failed to start Codex''))
                                    (opt_requestId options)]), p2, made @ removed))
         | None \<Rightarrow>
             (Inr Spawned, p,
              made @ [SpawnProc (codexPath p) (codex_args p options (currentImagePaths p)) cwd env
                       (StdinText fullPrompt)]))"

text \<open>
  \<open>spawnProcess\<close>: \<open>Inr\<close> what it returns, \<open>Inl\<close> the exception that leaves it; the provider's
  fields afterwards; and the calls of the file system and of \<open>spawn\<close> that succeeded.
\<close>

definition codex_spawnProcess ::
  "os_env \<Rightarrow> CodexProvider \<Rightarrow> RunOptions
     \<Rightarrow> (fs_exception + spawn_result) \<times> CodexProvider \<times> os_effect list" where
  "codex_spawnProcess os p options =
     (let images = codex_images os options;
          written = snd (snd images);
          p1 = p\<lparr>currentImagePaths := fst (snd images)\<rparr>
      in case fst images of
           Some exc \<Rightarrow> (Inl exc, p1, written)
         | None \<Rightarrow>
             (case truthy_string (opt_projectId options) of
                None \<Rightarrow> codex_spawn os p1 options None written
              | Some pid \<Rightarrow>
                  (case project_cwd os (codex_sessionDir p) pid of
                     Inl u \<Rightarrow>
                       (case cleanupImages p1 of (p2, removed) \<Rightarrow>
                          (Inr (NotSpawned [OnError (JStr (js ''Invalid projectId''))
                                              (opt_requestId options)]), p2, written @ removed))
                   | Inr cwd \<Rightarrow>
                       if os_fs_throws os written (Mkdir cwd) then (Inl (MkdirThrows cwd), p1, written)
                       else codex_spawn os p1 options (Some cwd) (written @ [Mkdir cwd]))))"

text \<open>The working directories of the children spawned by a list of effects.\<close>

fun spawn_cwds :: "os_effect list \<Rightarrow> jstring option list" where
  "spawn_cwds [] = []"
| "spawn_cwds (SpawnProc path args cwd env stdin # es) = cwd # spawn_cwds es"
| "spawn_cwds (e # es) = spawn_cwds es"

text \<open>An operating system for the examples, and the providers with their default options.\<close>

definition example_os :: os_env where
  "example_os = \<lparr>os_tmpdir = js ''/tmp'', os_cwd = js ''/srv/app'', os_env_vars = [],
     os_spawn_throws = None, os_number_to_string = (\<lambda>n. []), os_fs_throws = (\<lambda>made call. False)\<rparr>"

text \<open>The same system with a disk on which no file can be written, and a request with an image.\<close>

definition full_disk_os :: os_env where
  "full_disk_os = example_os\<lparr>os_fs_throws :=
     (\<lambda>made call. case call of WriteFile path bytes \<Rightarrow> True | _ \<Rightarrow> False)\<rparr>"

definition image_options :: "string \<Rightarrow> string \<Rightarrow> RunOptions" where
  "image_options rid pid = \<lparr>opt_prompt = js ''hi'', opt_model = None, opt_systemPrompt = None,
     opt_projectId = Some (js pid), opt_requestId = js rid, opt_thinkingTokens = None,
     opt_images = Some [\<lparr>media_type = js ''image/png'', data = js ''aGk=''\<rparr>]\<rparr>"

definition default_claude :: ClaudeProvider where
  "default_claude = \<lparr>claudePath = js ''claude'', claude_sessionDir = js ''bridge-ws-sessions'',
     maxTurns = None, tools = None\<rparr>"

definition default_codex :: CodexProvider where
  "default_codex = \<lparr>codexPath = js ''codex'', codex_sessionDir = js ''bridge-ws-sessions'',
     threadId = None, currentImagePaths = []\<rparr>"

definition project_options :: "string \<Rightarrow> string \<Rightarrow> RunOptions" where
  "project_options rid pid = \<lparr>opt_prompt = js ''hi'', opt_model = None, opt_systemPrompt = None,
     opt_projectId = Some (js pid), opt_requestId = js rid, opt_thinkingTokens = None,
     opt_images = None\<rparr>"

section \<open>Verified properties\<close>

subsection \<open>String literals\<close>

lemma cu_eq_iff: "cu a = cu b \<longleftrightarrow> a = b"
proof
  assume h: "cu a = cu b"
  have lt: "(of_char c :: nat) < 2 ^ 16" for c :: char
  proof -
    have "(of_char c :: nat) < 256" by (rule nat_of_char_less_256)
    also have "(256::nat) < 2 ^ 16" by simp
    finally show ?thesis .
  qed
  have u: "unat (cu c) = of_char c" for c
    using lt [of c] by (simp add: cu_def unat_of_nat take_bit_nat_eq_self)
  from h have "unat (cu a) = unat (cu b)" by simp
  then have "(of_char a :: nat) = of_char b" by (simp only: u)
  then show "a = b" by simp
qed simp

lemma js_eq_iff [simp]: "js a = js b \<longleftrightarrow> a = b"
  unfolding js_def by (rule inj_map_eq_map) (simp add: inj_on_def cu_eq_iff)

lemma js_Nil [simp]: "js [] = []"
  by (simp add: js_def)

lemma js_eq_Nil [simp]: "js a = [] \<longleftrightarrow> a = []" "[] = js a \<longleftrightarrow> a = []"
  by (auto simp: js_def)

lemma js_append: "js (a @ b) = js a @ js b"
  by (simp add: js_def)

lemma length_js [simp]: "length (js a) = length a"
  by (simp add: js_def)

lemma take_js: "take n (js a) = js (take n a)"
  by (simp add: js_def take_map)

subsection \<open>Protocol validation\<close>

lemma first_failing_append:
  "first_failing (xs @ ys) = (case first_failing xs of Some e \<Rightarrow> Some e | None \<Rightarrow> first_failing ys)"
  by (induction xs) auto

lemma parseImages_step:
  "parseImages (img # rest) acc =
     (case first_failing (image_checks img) of
        Some e \<Rightarrow> Inl e
      | None \<Rightarrow> parseImages rest
          (acc @ [\<lparr>media_type = the (typeof_string (getProp img (js ''media_type''))),
                   data = the (typeof_string (getProp img (js ''data'')))\<rparr>]))"
  by (simp add: image_checks_def MAX_IMAGE_BASE64_BYTES_def split: option.split)

lemma parseImages_checks:
  "(parseImages imgs acc = Inl e) = (first_failing (concat (map image_checks imgs)) = Some e)"
proof (induction imgs arbitrary: acc)
  case Nil
  then show ?case by simp
next
  case (Cons img rest)
  show ?case
    by (simp only: parseImages_step list.map concat.simps first_failing_append Cons.IH
                   split: option.split) simp
qed

lemma parseImagesField_Inl:
  "(parseImagesField (Some (JArr (x # xs))) = Inl e) =
     (if length (x # xs) > 4 then e = js ''Too many images (max 4)''
      else parseImages (x # xs) [] = Inl e)"
  by (auto simp: parseImagesField_def MAX_IMAGES_def split: sum.splits simp del: parseImages.simps)

lemma parseImagesField_checks:
  "(parseImagesField v = Inl e) = (first_failing (images_checks v) = Some e)"
proof (cases "\<exists>x xs. v = Some (JArr (x # xs))")
  case True
  then obtain x xs where v: "v = Some (JArr (x # xs))" by blast
  have "first_failing (images_checks v) =
          (if length (x # xs) > 4 then Some (js ''Too many images (max 4)'')
           else first_failing (concat (map image_checks (x # xs))))"
    by (simp add: v images_checks_def)
  then show ?thesis
    unfolding v parseImagesField_Inl parseImages_checks by auto
next
  case False
  then show ?thesis
    by (auto simp: parseImagesField_def images_checks_def split: option.split json.split list.split)
qed

lemma finishPrompt_Inl:
  "(finishPrompt obj p rid = Inl e) = (parseImagesField (getProp obj (js ''images'')) = Inl e)"
  by (auto simp: finishPrompt_def split: sum.splits)

lemma finishPrompt_checks:
  "(finishPrompt obj p rid = Inl e) = (first_failing (images_checks (getProp obj (js ''images''))) = Some e)"
  by (simp only: finishPrompt_Inl parseImagesField_checks)

lemma parsePrompt_checks:
  "(parsePrompt obj = Inl e) = (first_failing (prompt_checks obj) = Some e)"
proof -
  note defs = parsePrompt_def prompt_checks_def finishPrompt_checks Let_def first_failing_append
    MAX_PROMPT_BYTES_def MAX_SYSTEM_PROMPT_BYTES_def MAX_PROJECT_ID_LENGTH_def
  show ?thesis
  proof (cases "typeof_string (getProp obj (js ''prompt''))")
    case None
    then show ?thesis by (simp add: defs)
  next
    case p: (Some p)
    show ?thesis
    proof (cases "typeof_string (getProp obj (js ''requestId''))")
      case None
      with p show ?thesis by (simp add: defs)
    next
      case r: (Some rid)
      show ?thesis
      proof (cases "typeof_string (getProp obj (js ''systemPrompt''))")
        case sp: None
        show ?thesis
        proof (cases "typeof_string (getProp obj (js ''projectId''))")
          case pid: None
          show ?thesis
            by (cases "typeof_string (getProp obj (js ''provider''))")
               (simp_all add: defs p r sp pid)
        next
          case pid: (Some a)
          show ?thesis
            by (cases "typeof_string (getProp obj (js ''provider''))")
               (simp_all add: defs p r sp pid)
        qed
      next
        case sp: (Some s)
        show ?thesis
        proof (cases "typeof_string (getProp obj (js ''projectId''))")
          case pid: None
          show ?thesis
            by (cases "typeof_string (getProp obj (js ''provider''))")
               (simp_all add: defs p r sp pid)
        next
          case pid: (Some a)
          show ?thesis
            by (cases "typeof_string (getProp obj (js ''provider''))")
               (simp_all add: defs p r sp pid)
        qed
      qed
    qed
  qed
qed

lemma parseCancel_checks:
  "(parseCancel obj = Inl e) = (first_failing (cancel_checks obj) = Some e)"
  by (simp add: parseCancel_def cancel_checks_def split: option.split)

lemma parseClientMessage_checks:
  "(parseClientMessage JSON_parse raw = Inl e) = (first_failing (frame_checks (JSON_parse raw)) = Some e)"
proof (cases "JSON_parse raw")
  case None
  then show ?thesis by (simp add: parseClientMessage_def frame_checks_def)
next
  case (Some dat)
  show ?thesis
  proof (cases "\<exists>kvs. dat = JObj kvs")
    case False
    then show ?thesis using Some
      by (cases dat) (simp_all add: parseClientMessage_def frame_checks_def)
  next
    case True
    then obtain kvs where d: "dat = JObj kvs" by blast
    show ?thesis
    proof (cases "typeof_string (getProp dat (js ''type''))")
      case None
      then show ?thesis using Some d by (simp add: parseClientMessage_def frame_checks_def)
    next
      case t: (Some t)
      show ?thesis using Some d t
        by (simp add: parseClientMessage_def frame_checks_def parsePrompt_checks parseCancel_checks)
    qed
  qed
qed

lemma utf8_hi: "utf8_byteLength (js ''hi'') = 2"
  by (simp add: js_def cu_def unit_bytes_def is_high_surrogate_def is_low_surrogate_def)

text \<open>
  Claim C1, as amended. \<open>parseClientMessage\<close> rejects a frame with error \<open>e\<close> exactly when
  \<open>e\<close> is the message of the first failing check in the stated order: invalid JSON, not a JSON
  object, missing or non-string \<open>type\<close>; then for type \<open>prompt\<close> the checks empty prompt, prompt
  UTF-8 byte length over 512 KiB, empty requestId, systemPrompt byte length over 64 KiB, projectId
  length over 128, projectId pattern, unknown provider string, image count over 4 and, image by
  image, object shape, string fields, allowed media type, data length over 10 MiB; for type
  \<open>cancel\<close> the check empty requestId; and for any type other than \<open>prompt\<close> and \<open>cancel\<close> the
  error \<open>Unknown message type: <value>\<close> with the value cut to 50 code units. A frame that
  fails no check is accepted.
\<close>

theorem C1_validation_order:
  "(parseClientMessage JSON_parse raw = Inl e) = (first_failing (frame_checks (JSON_parse raw)) = Some e)"
  by (rule parseClientMessage_checks)

theorem C1_validation_order_witness:
  "parseClientMessage (JSON_parse_table [(gpt4_frame, gpt4_frame_value)]) gpt4_frame
     = Inl (js (''Unknown provider: '' @ dq ''gpt4'' @ '' (supported: claude, codex, ollama)''))"
proof -
  have "first_failing (frame_checks (JSON_parse_table [(gpt4_frame, gpt4_frame_value)] gpt4_frame))
          = Some (js (''Unknown provider: '' @ dq ''gpt4'' @ '' (supported: claude, codex, ollama)''))"
    by (simp add: JSON_parse_table_def gpt4_frame_value_def frame_checks_def prompt_checks_def
          images_checks_def utf8_hi PROJECT_ID_PATTERN_test_def js_append dq_def)
       (simp add: js_def cu_def)
  then show ?thesis
    using C1_validation_order [of "JSON_parse_table [(gpt4_frame, gpt4_frame_value)]" gpt4_frame] by simp
qed

text \<open>
  Claim C1 as stated says that any type other than \<open>prompt\<close> yields \<open>Unknown message type\<close>. The
  frame \<open>{"type":"cancel","requestId":"r1"}\<close> has another type and is accepted as a cancel
  message.
\<close>

theorem C1_cancel_counterexample:
  "parseClientMessage (JSON_parse_table [(cancel_frame, cancel_frame_value)]) cancel_frame
      = Inr (Cancel (js ''r1''))
   \<and> parseClientMessage (JSON_parse_table [(cancel_frame, cancel_frame_value)]) cancel_frame
      \<noteq> Inl (js ''Unknown message type: '' @ take 50 (js ''cancel''))"
  by (simp add: JSON_parse_table_def cancel_frame_value_def parseClientMessage_def parseCancel_def)

lemma map_of_without_provider:
  "map_of (without_provider kvs) k = (if k = js ''provider'' then None else map_of kvs k)"
  by (induction kvs) (auto simp: without_provider_def)

lemma typeof_string_None: "typeof_string v = None \<longleftrightarrow> (\<forall>s. v \<noteq> Some (JStr s))"
  by (cases v rule: typeof_string.cases) auto

lemma typeof_string_Some: "typeof_string v = Some s \<longleftrightarrow> v = Some (JStr s)"
  by (cases v rule: typeof_string.cases) auto

lemma parsePrompt_provider_ignored:
  assumes "typeof_string (map_of kvs (js ''provider'')) = None"
  shows "parsePrompt (JObj kvs) = parsePrompt (JObj (without_provider kvs))"
proof -
  have k: "getProp (JObj (without_provider kvs)) (js ''prompt'') = getProp (JObj kvs) (js ''prompt'')"
    "getProp (JObj (without_provider kvs)) (js ''requestId'') = getProp (JObj kvs) (js ''requestId'')"
    "getProp (JObj (without_provider kvs)) (js ''model'') = getProp (JObj kvs) (js ''model'')"
    "getProp (JObj (without_provider kvs)) (js ''systemPrompt'') = getProp (JObj kvs) (js ''systemPrompt'')"
    "getProp (JObj (without_provider kvs)) (js ''projectId'') = getProp (JObj kvs) (js ''projectId'')"
    "getProp (JObj (without_provider kvs)) (js ''thinkingTokens'') = getProp (JObj kvs) (js ''thinkingTokens'')"
    "getProp (JObj (without_provider kvs)) (js ''images'') = getProp (JObj kvs) (js ''images'')"
    by (simp_all add: map_of_without_provider)
  have pv: "getProp (JObj (without_provider kvs)) (js ''provider'') = None"
    by (simp add: map_of_without_provider)
  have pn: "typeof_string (getProp (JObj kvs) (js ''provider'')) = None"
    using assms by simp
  have ne: "(getProp (JObj kvs) (js ''provider'') = Some (JStr (js ''codex''))) = False"
    "(getProp (JObj kvs) (js ''provider'') = Some (JStr (js ''ollama''))) = False"
    using assms by (simp_all add: typeof_string_None)
  have nn: "((None :: json option) = Some (JStr (js ''codex''))) = False"
    "((None :: json option) = Some (JStr (js ''ollama''))) = False"
    "typeof_string None = None"
    by simp_all
  show ?thesis
    unfolding parsePrompt_def finishPrompt_def Let_def k pv pn ne nn ..
qed

lemma parsePrompt_provider_accepted:
  assumes "parsePrompt (JObj kvs) = Inr (Prompt m)"
  shows "case typeof_string (map_of kvs (js ''provider'')) of
           Some pv \<Rightarrow> pv = provider_name (provider m)
         | None \<Rightarrow> provider m = Claude"
proof (cases "typeof_string (map_of kvs (js ''provider''))")
  case None
  then have "\<And>s. map_of kvs (js ''provider'') \<noteq> Some (JStr s)" by (simp add: typeof_string_None)
  with assms None show ?thesis
    by (auto simp: parsePrompt_def finishPrompt_def Let_def split: option.splits if_splits sum.splits)
next
  case (Some pv)
  then have "map_of kvs (js ''provider'') = Some (JStr pv)" by (simp add: typeof_string_Some)
  with assms Some show ?thesis
    by (auto simp: parsePrompt_def finishPrompt_def Let_def provider_name_def
             split: option.splits if_splits sum.splits)
qed


lemma parsePrompt_known_provider:
  assumes "typeof_string (map_of kvs (js ''provider'')) = Some pv"
      and "pv = js ''claude'' \<or> pv = js ''codex'' \<or> pv = js ''ollama''"
  shows "(parsePrompt (JObj kvs) = Inl e) = (parsePrompt (JObj (without_provider kvs)) = Inl e)"
proof -
  have k: "getProp (JObj (without_provider kvs)) (js ''prompt'') = getProp (JObj kvs) (js ''prompt'')"
    "getProp (JObj (without_provider kvs)) (js ''requestId'') = getProp (JObj kvs) (js ''requestId'')"
    "getProp (JObj (without_provider kvs)) (js ''systemPrompt'') = getProp (JObj kvs) (js ''systemPrompt'')"
    "getProp (JObj (without_provider kvs)) (js ''projectId'') = getProp (JObj kvs) (js ''projectId'')"
    "getProp (JObj (without_provider kvs)) (js ''images'') = getProp (JObj kvs) (js ''images'')"
    by (simp_all add: map_of_without_provider)
  have pv: "typeof_string (getProp (JObj (without_provider kvs)) (js ''provider'')) = None"
    by (simp add: map_of_without_provider)
  have pn: "typeof_string (getProp (JObj kvs) (js ''provider'')) = Some pv"
    using assms by simp
  show ?thesis
    unfolding parsePrompt_checks prompt_checks_def k pv pn
    using assms(2) by (auto simp: first_failing_append)
qed

text \<open>
  Claim C10. The provider of an accepted prompt is one of the three tags (the type \<open>provider\<close>
  has no other value): when the frame's \<open>provider\<close> is a string, it is that string, which is
  \<open>claude\<close>, \<open>codex\<close> or \<open>ollama\<close>; when it is absent or not a string, the provider is
  \<open>claude\<close>. A non-string \<open>provider\<close> is ignored: the frame parses exactly as the frame without
  that property. A frame that is rejected although it is accepted without its \<open>provider\<close>
  property has a string-valued provider that is none of the three tags.
\<close>

theorem C10_provider_field:
  assumes "JSON_parse raw = Some (JObj kvs)"
  shows "(\<forall>m. parseClientMessage JSON_parse raw = Inr (Prompt m) \<longrightarrow>
            (case typeof_string (map_of kvs (js ''provider'')) of
               Some pv \<Rightarrow> pv = provider_name (provider m)
             | None \<Rightarrow> provider m = Claude))
       \<and> (typeof_string (map_of kvs (js ''provider'')) = None \<longrightarrow>
            parseClientMessage JSON_parse raw
              = parseClientMessage (\<lambda>r. Some (JObj (without_provider kvs))) raw)
       \<and> (\<forall>e m'. parseClientMessage JSON_parse raw = Inl e
              \<and> parseClientMessage (\<lambda>r. Some (JObj (without_provider kvs))) raw = Inr m' \<longrightarrow>
            (\<exists>pv. map_of kvs (js ''provider'') = Some (JStr pv)
                \<and> pv \<noteq> js ''claude'' \<and> pv \<noteq> js ''codex'' \<and> pv \<noteq> js ''ollama''))"
proof -
  have ty: "getProp (JObj (without_provider kvs)) (js ''type'') = getProp (JObj kvs) (js ''type'')"
    and rq: "getProp (JObj (without_provider kvs)) (js ''requestId'') = getProp (JObj kvs) (js ''requestId'')"
    by (simp_all add: map_of_without_provider)
  have cancel: "parseCancel (JObj (without_provider kvs)) = parseCancel (JObj kvs)"
    unfolding parseCancel_def rq ..
  have shape: "parseClientMessage P raw =
      (case typeof_string (getProp (JObj kvs) (js ''type'')) of
         None \<Rightarrow> Inl (js ''Missing or invalid 'type' field'')
       | Some t \<Rightarrow> if t = js ''prompt'' then parsePrompt (JObj kvs')
                   else if t = js ''cancel'' then parseCancel (JObj kvs)
                   else Inl (js ''Unknown message type: '' @ take 50 t))"
    if "P raw = Some (JObj kvs')" "kvs' = kvs \<or> kvs' = without_provider kvs" for P kvs'
    using that ty cancel by (auto simp: parseClientMessage_def split: option.splits)
  note s1 = shape [of JSON_parse kvs, OF assms, simplified]
  note s2 = shape [of "\<lambda>r. Some (JObj (without_provider kvs))" "without_provider kvs", simplified]
  have A: "case typeof_string (map_of kvs (js ''provider'')) of
               Some pv \<Rightarrow> pv = provider_name (provider m)
             | None \<Rightarrow> provider m = Claude"
    if "parseClientMessage JSON_parse raw = Inr (Prompt m)" for m
  proof -
    from that have "parsePrompt (JObj kvs) = Inr (Prompt m)"
      unfolding s1 by (auto simp: parseCancel_def split: option.splits if_splits)
    then show ?thesis by (rule parsePrompt_provider_accepted)
  qed
  have B: "parseClientMessage JSON_parse raw
              = parseClientMessage (\<lambda>r. Some (JObj (without_provider kvs))) raw"
    if "typeof_string (map_of kvs (js ''provider'')) = None"
    unfolding s1 s2 parsePrompt_provider_ignored [OF that] ..
  have C: "\<exists>pv. map_of kvs (js ''provider'') = Some (JStr pv)
                \<and> pv \<noteq> js ''claude'' \<and> pv \<noteq> js ''codex'' \<and> pv \<noteq> js ''ollama''"
    if h: "parseClientMessage JSON_parse raw = Inl e"
          "parseClientMessage (\<lambda>r. Some (JObj (without_provider kvs))) raw = Inr m'" for e m'
  proof (cases "typeof_string (map_of kvs (js ''provider''))")
    case None
    from B [OF None] h show ?thesis by simp
  next
    case (Some pv)
    have "\<not> (pv = js ''claude'' \<or> pv = js ''codex'' \<or> pv = js ''ollama'')"
    proof
      assume known: "pv = js ''claude'' \<or> pv = js ''codex'' \<or> pv = js ''ollama''"
      from h(1) have "parseClientMessage (\<lambda>r. Some (JObj (without_provider kvs))) raw = Inl e"
        unfolding s1 s2 using parsePrompt_known_provider [OF Some known, of e]
        by (auto split: option.splits if_splits)
      with h(2) show False by simp
    qed
    with Some show ?thesis by (auto simp: typeof_string_Some)
  qed
  from A B C show ?thesis by blast
qed

theorem C10_provider_field_witness:
  "parseClientMessage (JSON_parse_table [(numeric_provider_frame, numeric_provider_value)]) numeric_provider_frame
     = Inr (Prompt \<lparr>prompt = js ''hi'', model = None, systemPrompt = None, projectId = None,
          requestId = js ''r1'', provider = Claude, thinkingTokens = None, images = None\<rparr>)
   \<and> parseClientMessage (JSON_parse_table [(numeric_provider_frame, numeric_provider_value)]) numeric_provider_frame
     = parseClientMessage (\<lambda>r. Some (JObj (without_provider
          [(js ''type'', JStr (js ''prompt'')), (js ''prompt'', JStr (js ''hi'')),
           (js ''requestId'', JStr (js ''r1'')), (js ''provider'', JNum (Finite 5))]))) numeric_provider_frame"
proof -
  have p: "JSON_parse_table [(numeric_provider_frame, numeric_provider_value)] numeric_provider_frame
      = Some (JObj [(js ''type'', JStr (js ''prompt'')), (js ''prompt'', JStr (js ''hi'')),
           (js ''requestId'', JStr (js ''r1'')), (js ''provider'', JNum (Finite 5))])"
    by (simp add: JSON_parse_table_def numeric_provider_value_def)
  have v: "parseClientMessage (JSON_parse_table [(numeric_provider_frame, numeric_provider_value)]) numeric_provider_frame
     = Inr (Prompt \<lparr>prompt = js ''hi'', model = None, systemPrompt = None, projectId = None,
          requestId = js ''r1'', provider = Claude, thinkingTokens = None, images = None\<rparr>)"
    by (simp add: parseClientMessage_def p parsePrompt_def finishPrompt_def parseImagesField_def
          utf8_hi MAX_PROMPT_BYTES_def)
  have n: "typeof_string (map_of [(js ''type'', JStr (js ''prompt'')), (js ''prompt'', JStr (js ''hi'')),
           (js ''requestId'', JStr (js ''r1'')), (js ''provider'', JNum (Finite 5))] (js ''provider'')) = None"
    by simp
  from C10_provider_field
      [of "JSON_parse_table [(numeric_provider_frame, numeric_provider_value)]" numeric_provider_frame
          "[(js ''type'', JStr (js ''prompt'')), (js ''prompt'', JStr (js ''hi'')),
            (js ''requestId'', JStr (js ''r1'')), (js ''provider'', JNum (Finite 5))]", OF p] n v
  show ?thesis by blast
qed

subsection \<open>Subprocess runner base\<close>

lemma kill_out: "terminal_count k (snd (kill r)) = 0"
  by (simp add: kill_def terminal_count_def Let_def split: option.split)

lemma kill_fields:
  "handlersDone (fst (kill r)) = handlersDone r" "children (fst (kill r)) = children r"
  "runs (fst (kill r)) = runs r" "disposed (fst (kill r)) = disposed r" "sub (fst (kill r)) = sub r"
  "process (fst (kill r)) = None" "timeout (fst (kill r)) = None"
  by (simp_all add: kill_def clearTimeout_def Let_def split: option.split)


lemma pending_cong: "handlersDone r' = handlersDone r \<Longrightarrow> pending k r' = pending k r"
  by (simp add: pending_def)

lemma finish_fields:
  "children (fst (finish j cb r)) = children r" "runs (fst (finish j cb r)) = runs r"
  "disposed (fst (finish j cb r)) = disposed r" "sub (fst (finish j cb r)) = sub r"
  "process (fst (finish j cb r)) = process r" "killed (fst (finish j cb r)) = killed r"
  "set (handlersDone (fst (finish j cb r))) = insert j (set (handlersDone r))"
  by (auto simp: finish_def clearTimeout_def)


lemma terminal_count_Nil [simp]: "terminal_count k [] = 0"
  by (simp add: terminal_count_def)

lemma map_of_children_lt:
  "runner_inv r \<Longrightarrow> map_of (children r) j = Some options \<Longrightarrow> j < runs r"
  by (auto simp: runner_inv_def list_all_iff dest!: map_of_SomeD)

lemma run_fields:
  "runs (fst (run S options r)) = Suc (runs r)"
  "handlersDone (fst (run S options r)) = handlersDone r"
  "children (fst (run S options r)) =
     (if \<not> disposed r \<and> fst (spawnProcess S options (sub r)) = Spawned
      then children r @ [(runs r, options)] else children r)"
  by (simp_all add: run_def Let_def case_prod_beta kill_fields split: spawn_result.split)


lemma dispose_fields:
  "runs (fst (dispose r)) = runs r" "handlersDone (fst (dispose r)) = handlersDone r"
  "children (fst (dispose r)) = children r" "terminal_count j (snd (dispose r)) = 0"
  "disposed (fst (dispose r))"
  by (simp_all add: dispose_def kill_fields kill_out)

lemma onExit_fields:
  "runs (fst (onExit S k c sg r)) = runs r" "children (fst (onExit S k c sg r)) = children r"
  "set (handlersDone (fst (onExit S k c sg r))) \<subseteq> set (handlersDone r) \<union> (if map_of (children r) k = None then {} else {k})"
  "disposed (fst (onExit S k c sg r)) = disposed r"
  by (auto simp: onExit_def Let_def finish_fields split: option.split)

lemma onErrorEvent_fields:
  "runs (fst (onErrorEvent S k m r)) = runs r" "children (fst (onErrorEvent S k m r)) = children r"
  "set (handlersDone (fst (onErrorEvent S k m r))) \<subseteq> set (handlersDone r) \<union> (if map_of (children r) k = None then {} else {k})"
  "disposed (fst (onErrorEvent S k m r)) = disposed r"
  by (auto simp: onErrorEvent_def Let_def finish_fields split: option.split)

lemma onTimeout_fields:
  "runs (fst (onTimeout k r)) = runs r" "children (fst (onTimeout k r)) = children r"
  "set (handlersDone (fst (onTimeout k r))) \<subseteq> set (handlersDone r) \<union> (if map_of (children r) k = None then {} else {k})"
  "disposed (fst (onTimeout k r)) = disposed r"
  by (auto simp: onTimeout_def Let_def case_prod_beta finish_fields kill_fields split: option.split)

lemma onLine_fields:
  "runs (fst (onLine S k l r)) = runs r" "children (fst (onLine S k l r)) = children r"
  "handlersDone (fst (onLine S k l r)) = handlersDone r"
  "disposed (fst (onLine S k l r)) = disposed r"
  by (simp_all add: onLine_def case_prod_beta split: option.split)

lemmas op_fields = run_fields kill_fields dispose_fields onExit_fields onErrorEvent_fields
  onTimeout_fields onLine_fields

lemma step_runs: "runs r \<le> runs (fst (step S x r))"
  by (cases x) (simp_all add: op_fields)

lemma step_spawned: "spawned (fst (step S x r)) \<subseteq> insert (runs r) (spawned r)"
  by (cases x) (auto simp: op_fields spawned_def)

lemma map_of_spawned: "map_of (children r) k \<noteq> None \<Longrightarrow> k \<in> spawned r"
  by (simp add: spawned_def map_of_eq_None_iff)

lemma step_done: "set (handlersDone (fst (step S x r))) \<subseteq> set (handlersDone r) \<union> spawned r"
proof (cases x)
  case (Exit k c sg)
  then show ?thesis using onExit_fields(3) [of S k c sg r] map_of_spawned [of r k]
    by (auto split: if_splits)
next
  case (ErrorEvent k m)
  then show ?thesis using onErrorEvent_fields(3) [of S k m r] map_of_spawned [of r k]
    by (auto split: if_splits)
next
  case (TimeoutFired k)
  then show ?thesis using onTimeout_fields(3) [of k r] map_of_spawned [of r k]
    by (auto split: if_splits)
qed (simp_all add: op_fields)

lemma runner_inv_iff:
  "runner_inv r \<longleftrightarrow> (\<forall>k \<in> spawned r. k < runs r) \<and> (\<forall>k \<in> set (handlersDone r). k < runs r)"
  by (auto simp: runner_inv_def spawned_def list_all_iff)

lemma step_inv:
  assumes "runner_inv r"
  shows "runner_inv (fst (step S x r))"
  unfolding runner_inv_iff
proof (intro conjI ballI)
  fix k assume "k \<in> spawned (fst (step S x r))"
  with step_spawned [of S x r] have "k = runs r \<or> k \<in> spawned r" by auto
  with assms have "k \<le> runs r" by (auto simp: runner_inv_iff intro: less_imp_le)
  moreover have "k \<noteq> runs r \<or> runs r < runs (fst (step S x r))"
    using \<open>k \<in> spawned (fst (step S x r))\<close> assms
    by (cases x) (auto simp: op_fields spawned_def runner_inv_iff split: if_splits)
  ultimately show "k < runs (fst (step S x r))"
    using step_runs [of r S x] by linarith
next
  fix k assume "k \<in> set (handlersDone (fst (step S x r)))"
  with step_done [of S x r] have "k \<in> set (handlersDone r) \<or> k \<in> spawned r" by auto
  with assms have "k < runs r" by (auto simp: runner_inv_iff)
  then show "k < runs (fst (step S x r))" using step_runs [of r S x] by linarith
qed

lemma exec_inv: "runner_inv r \<Longrightarrow> runner_inv (fst (exec S xs r))"
  by (induction xs arbitrary: r) (simp_all add: case_prod_beta step_inv)












lemmas test_defs = TestProvider_class_def TestProvider_spawnProcess_def TestProvider_parseStreamLine_def
  test_provider_def test_options_def new_runner_def

lemmas runner_defs = run_def kill_def dispose_def finish_def clearTimeout_def onExit_def
  onErrorEvent_def onTimeout_def onLine_def Let_def





text \<open>
  Claim C5 fails on the code. A second \<open>run\<close> while the first child is live kills that child and
  resets \<open>killed\<close>; when the first child's exit event arrives (no code, signal SIGTERM), the
  first request's \<open>onError\<close> is called. After a plain \<open>kill\<close>, a line of the killed child's
  stdout still reaches \<open>onChunk\<close>.
\<close>

theorem C5_killed_execution_still_calls_back:
  "snd (exec TestProvider_class
          [Run (test_options ''r1''), Run (test_options ''r2''), Exit 0 None (Some (js ''SIGTERM''))]
          (new_runner test_provider))
     = [ProcKill 0, Handler 0 (OnError (JStr (js ''CLI killed by signal SIGTERM'')) (js ''r1''))]
   \<and> snd (exec TestProvider_class
          [Run (test_options ''r1''), Kill, StdoutLine 0 (js ''CHUNK:hello'')]
          (new_runner test_provider))
     = [ProcKill 0, Handler 0 (OnChunk (JStr (js ''hello'')) (js ''r1'') False)]"
  by (simp add: test_defs runner_defs exit_reason_def js_append [symmetric])

subsection \<open>HTTP streaming runner\<close>

lemma split_nl_not_Nil [simp]: "split_nl s \<noteq> []"
  by (induction s) (auto split: list.split)

lemma split_nl_append:
  "split_nl (a @ b) = butlast (split_nl a) @ split_nl (last (split_nl a) @ b)"
proof (induction a)
  case Nil
  then show ?case by simp
next
  case (Cons c cs)
  obtain x xs where X: "split_nl cs = x # xs" by (cases "split_nl cs") simp_all
  show ?case
  proof (cases "c = 0x0A")
    case True
    then show ?thesis using Cons by simp
  next
    case False
    show ?thesis
    proof (cases xs)
      case Nil
      with False X Cons show ?thesis by (simp split: list.split)
    next
      case (Cons y ys)
      with False X Cons.IH show ?thesis by simp
    qed
  qed
qed

lemma last_split_nl: "0x0A \<notin> set (last (split_nl s))"
  by (induction s) (auto split: list.split)

lemma split_nl_no_nl: "0x0A \<notin> set s \<Longrightarrow> split_nl s = [s]"
  by (induction s) auto

lemma processLines_append:
  "processLines P rid (xs @ ys) =
     (case processLines P rid xs of
        Stop c \<Rightarrow> Stop c
      | Continue c \<Rightarrow>
          (case processLines P rid ys of
             Stop c2 \<Rightarrow> Stop (c @ c2)
           | Continue c2 \<Rightarrow> Continue (c @ c2)))"
  by (induction xs) (auto split: line_result.split)

lemma readLoop_lines:
  assumes "no_read_aborted reads" "0x0A \<notin> set buffer"
  shows "fst (readLoop P rid reads (EndOfStream ab) buffer) =
     (case processLines P rid (butlast (split_nl (buffer @ concat (map snd reads)))) of
        Stop cbs \<Rightarrow> cbs
      | Continue cbs \<Rightarrow> if ab then cbs else cbs @ [OnComplete rid])"
  using assms
proof (induction reads arbitrary: buffer)
  case Nil
  then show ?case by (simp add: split_nl_no_nl ollama_finish_def)
next
  case (Cons rd rest)
  obtain a t where rd: "rd = (a, t)" by (cases rd)
  from Cons.prems rd have a: "\<not> a" and rest: "no_read_aborted rest"
    by (simp_all add: no_read_aborted_def)
  let ?lines = "split_nl (buffer @ t)"
  have sp: "butlast (split_nl (buffer @ concat (map snd (rd # rest))))
      = butlast ?lines @ butlast (split_nl (last ?lines @ concat (map snd rest)))"
    using split_nl_append [of "buffer @ t" "concat (map snd rest)"]
    by (simp add: rd butlast_append)
  have ih: "fst (readLoop P rid rest (EndOfStream ab) (last ?lines)) =
     (case processLines P rid (butlast (split_nl (last ?lines @ concat (map snd rest)))) of
        Stop cbs \<Rightarrow> cbs
      | Continue cbs \<Rightarrow> if ab then cbs else cbs @ [OnComplete rid])"
    by (rule Cons.IH [OF rest last_split_nl])
  show ?case
  proof (cases "processLines P rid (butlast ?lines)")
    case (Stop c)
    then show ?thesis
      unfolding sp processLines_append by (simp add: rd a Let_def)
  next
    case (Continue c)
    then show ?thesis
      unfolding sp processLines_append using ih
      by (cases "processLines P rid (butlast (split_nl (last ?lines @ concat (map snd rest))))")
         (simp_all add: rd a Let_def case_prod_beta)
  qed
qed

lemma processLine_cases:
  assumes "\<not> list_all js_whitespace line" "P line = Some event" "event \<noteq> JNull"
  shows "processLine P rid line =
     (case if_truthy (getProp event (js ''error'')) of
        Some err \<Rightarrow> Stop [OnError err rid]
      | None \<Rightarrow>
          if truthy (getProp event (js ''done''))
          then Stop ((case if_truthy (getProp event (js ''response'')) of
                        Some response \<Rightarrow> [OnChunk response rid False] | None \<Rightarrow> [])
                     @ [OnComplete rid])
          else Continue (case if_truthy (getProp event (js ''response'')) of
                        Some response \<Rightarrow> [OnChunk response rid False] | None \<Rightarrow> []))"
  using assms
  by (cases event) (simp_all add: processLine_def ollama_finish_def Let_def split: option.split)


lemma cu_newline: "cu (CHR 0x0A) = 0x0A"
  by (simp add: cu_def)

lemma nl_in_js: "(0x0A :: jchar) \<in> set (js s) \<longleftrightarrow> CHR 0x0A \<in> set s"
  unfolding cu_newline [symmetric] js_def by (auto simp: cu_eq_iff)

lemma split_nl_line: "0x0A \<notin> set a \<Longrightarrow> split_nl (a @ 0x0A # b) = a # split_nl b"
  by (induction a) auto

lemma js_not_blank: "s \<noteq> [] \<Longrightarrow> \<not> js_whitespace (cu (hd s)) \<Longrightarrow> \<not> list_all js_whitespace (js s)"
  by (cases s) (simp_all add: js_def)

lemma processLines_stream:
  "(case processLines P rid lines of
      Stop cbs \<Rightarrow> cbs
    | Continue cbs \<Rightarrow> if ab then cbs else cbs @ [OnComplete rid]) = stream_calls P rid lines ab"
proof (induction lines)
  case Nil
  show ?case by (simp add: stream_calls_def)
next
  case (Cons l ls)
  show ?case
  proof (cases "processLine P rid l")
    case (Stop c)
    then show ?thesis by (simp add: stream_calls_def line_calls_def line_stops_def)
  next
    case (Continue c)
    have "stream_calls P rid (l # ls) ab = c @ stream_calls P rid ls ab"
      using Continue by (simp add: stream_calls_def line_calls_def line_stops_def)
    then show ?thesis
      using Continue Cons [symmetric] by (cases "processLines P rid ls") simp_all
  qed
qed

lemma readLoop_aborted_read:
  assumes "no_read_aborted reads"
  shows "fst (readLoop P rid (reads @ (True, t) # later) e buffer)
    = fst (readLoop P rid reads (EndOfStream True) buffer)"
  using assms
proof (induction reads arbitrary: buffer)
  case Nil
  show ?case by simp
next
  case (Cons rd rest)
  obtain a u where rd: "rd = (a, u)" by (cases rd)
  from Cons.prems rd have a: "\<not> a" and rest: "no_read_aborted rest"
    by (simp_all add: no_read_aborted_def)
  show ?case
    using Cons.IH [OF rest, of "last (split_nl (buffer @ u))"]
    by (simp add: rd a Let_def case_prod_beta split: line_result.split)
qed

lemma stream_calls_stop:
  assumes "list_all (\<lambda>l. \<not> line_stops P rid l) before" "line_stops P rid line"
  shows "stream_calls P rid (before @ line # after) ab
    = concat (map (line_calls P rid) before) @ line_calls P rid line"
proof -
  have "takeWhile (\<lambda>l. \<not> line_stops P rid l) (before @ line # after) = before"
    using assms by (simp add: list_all_iff takeWhile_append2)
  moreover have "dropWhile (\<lambda>l. \<not> line_stops P rid l) (before @ line # after) = line # after"
    using assms by (simp add: list_all_iff dropWhile_append2)
  ultimately show ?thesis by (simp add: stream_calls_def)
qed

lemma ollama_lines_simps:
  "ollama_lines hello_line = Some hello_value"
  "ollama_lines done_line = Some done_value"
  "ollama_lines empty_response_line = Some empty_response_value"
  "ollama_lines error_line = Some error_value"
  by (simp_all add: ollama_lines_def JSON_parse_table_def hello_line_def done_line_def
        empty_response_line_def error_line_def dq_def)

lemma example_lines_not_blank:
  "\<not> list_all js_whitespace hello_line" "\<not> list_all js_whitespace done_line"
  "\<not> list_all js_whitespace empty_response_line" "\<not> list_all js_whitespace error_line"
  by (simp_all add: hello_line_def done_line_def empty_response_line_def error_line_def
        js_def cu_def js_whitespace_def)

lemma example_lines_no_nl:
  "0x0A \<notin> set hello_line" "0x0A \<notin> set done_line" "0x0A \<notin> set empty_response_line"
  "0x0A \<notin> set error_line"
  by (simp_all add: hello_line_def done_line_def empty_response_line_def error_line_def
        nl_in_js dq_def)

text \<open>
  Claim C7, as amended. A line that is not blank and parses to a value other than \<open>null\<close>: with a
  truthy \<open>error\<close> (a non-empty string, say) it calls \<open>onError(error, id)\<close> and stops; otherwise
  a truthy \<open>response\<close> (a non-empty text) calls \<open>onChunk(response, id)\<close>, and then a truthy \<open>done\<close>
  calls \<open>onComplete(id)\<close> and stops. A blank line, a line that is not JSON and the line \<open>null\<close>
  are skipped. When no read finds the request aborted, the calls made over the whole stream,
  however it is cut into reads, are those of the complete lines of the concatenated text, in
  order, up to and including the first line that stops: no line after it is processed. When no
  line stops, \<open>onComplete(id)\<close> follows at the end of the stream unless the request is aborted
  then. A read that finds the request aborted ends the processing with no further call.
\<close>

theorem C7_ollama_stream:
  "(\<not> list_all js_whitespace line \<and> P line = Some event \<and> event \<noteq> JNull \<longrightarrow>
      (\<forall>err. if_truthy (getProp event (js ''error'')) = Some err \<longrightarrow>
         processLine P rid line = Stop [OnError err rid])
    \<and> (if_truthy (getProp event (js ''error'')) = None \<longrightarrow>
         (\<forall>t. if_truthy (getProp event (js ''response'')) = Some t
               \<and> \<not> truthy (getProp event (js ''done'')) \<longrightarrow>
            processLine P rid line = Continue [OnChunk t rid False])
       \<and> (truthy (getProp event (js ''done'')) \<longrightarrow>
            processLine P rid line =
              Stop ((case if_truthy (getProp event (js ''response'')) of
                       Some t \<Rightarrow> [OnChunk t rid False] | None \<Rightarrow> [])
                    @ [OnComplete rid]))
       \<and> (if_truthy (getProp event (js ''response'')) = None
            \<and> \<not> truthy (getProp event (js ''done'')) \<longrightarrow>
            processLine P rid line = Continue [])))
   \<and> (list_all js_whitespace line \<or> P line = None \<or> P line = Some JNull \<longrightarrow>
        processLine P rid line = Continue [])
   \<and> (no_read_aborted reads \<longrightarrow>
        fst (readLoop P rid reads (EndOfStream endAborted) []) =
          stream_calls P rid (butlast (split_nl (concat (map snd reads)))) endAborted)
   \<and> (no_read_aborted reads
        \<and> butlast (split_nl (concat (map snd reads))) = before @ stopping # after
        \<and> list_all (\<lambda>l. \<not> line_stops P rid l) before \<and> line_stops P rid stopping \<longrightarrow>
        fst (readLoop P rid reads (EndOfStream endAborted) []) =
          concat (map (line_calls P rid) before) @ line_calls P rid stopping)
   \<and> (no_read_aborted reads \<longrightarrow>
        fst (readLoop P rid (reads @ (True, chunk) # later) streamEnd []) =
          stream_calls P rid (butlast (split_nl (concat (map snd reads)))) True)"
proof -
  have A: "processLine P rid line =
     (case if_truthy (getProp event (js ''error'')) of
        Some err \<Rightarrow> Stop [OnError err rid]
      | None \<Rightarrow>
          if truthy (getProp event (js ''done''))
          then Stop ((case if_truthy (getProp event (js ''response'')) of
                        Some response \<Rightarrow> [OnChunk response rid False] | None \<Rightarrow> [])
                     @ [OnComplete rid])
          else Continue (case if_truthy (getProp event (js ''response'')) of
                        Some response \<Rightarrow> [OnChunk response rid False] | None \<Rightarrow> []))"
    if "\<not> list_all js_whitespace line" "P line = Some event" "event \<noteq> JNull"
    using that by (rule processLine_cases)
  have B: "processLine P rid line = Continue []"
    if "list_all js_whitespace line \<or> P line = None \<or> P line = Some JNull"
    using that by (auto simp: processLine_def)
  have C: "fst (readLoop P rid reads (EndOfStream ab) []) =
          stream_calls P rid (butlast (split_nl (concat (map snd reads)))) ab"
    if "no_read_aborted reads" for ab
    using readLoop_lines [OF that, of "[]" P rid ab] by (simp add: processLines_stream)
  have D: "fst (readLoop P rid reads (EndOfStream endAborted) []) =
          concat (map (line_calls P rid) before) @ line_calls P rid stopping"
    if "no_read_aborted reads \<and> butlast (split_nl (concat (map snd reads))) = before @ stopping # after
        \<and> list_all (\<lambda>l. \<not> line_stops P rid l) before \<and> line_stops P rid stopping"
    using that C [of endAborted] stream_calls_stop [of P rid before stopping after endAborted]
    by simp
  have E: "fst (readLoop P rid (reads @ (True, chunk) # later) streamEnd []) =
          stream_calls P rid (butlast (split_nl (concat (map snd reads)))) True"
    if "no_read_aborted reads"
    using that C [of True] readLoop_aborted_read [OF that, of P rid chunk later streamEnd "[]"]
    by simp
  show ?thesis
    apply (intro conjI impI allI)
    subgoal by (simp add: A)
    subgoal by (simp add: A)
    subgoal by (simp add: A)
    subgoal by (simp add: A)
    subgoal by (rule B)
    subgoal by (rule C)
    subgoal by (rule D)
    subgoal by (rule E)
    done
qed

lemma example_processLine:
  "processLine ollama_lines rid hello_line = Continue [OnChunk (JStr (js ''Hello'')) rid False]"
  "processLine ollama_lines rid done_line = Stop [OnComplete rid]"
  "processLine ollama_lines rid error_line = Stop [OnError (JStr (js ''model not found'')) rid]"
  by (simp_all add:
        processLine_cases [where P = ollama_lines and line = hello_line and event = hello_value,
          OF example_lines_not_blank(1) ollama_lines_simps(1)]
        processLine_cases [where P = ollama_lines and line = done_line and event = done_value,
          OF example_lines_not_blank(2) ollama_lines_simps(2)]
        processLine_cases [where P = ollama_lines and line = error_line and event = error_value,
          OF example_lines_not_blank(4) ollama_lines_simps(4)]
        hello_value_def done_value_def error_value_def if_truthy_def)

lemma example_line_stops:
  "\<not> line_stops ollama_lines rid hello_line" "line_stops ollama_lines rid done_line"
  "line_stops ollama_lines rid error_line"
  "line_calls ollama_lines rid hello_line = [OnChunk (JStr (js ''Hello'')) rid False]"
  "line_calls ollama_lines rid done_line = [OnComplete rid]"
  "line_calls ollama_lines rid error_line = [OnError (JStr (js ''model not found'')) rid]"
  by (simp_all add: line_stops_def line_calls_def example_processLine)

theorem C7_ollama_stream_witness:
  "processLine ollama_lines (js ''req-1'') hello_line
     = Continue [OnChunk (JStr (js ''Hello'')) (js ''req-1'') False]
   \<and> fst (readLoop ollama_lines (js ''req-1'')
        [(False, hello_line @ [0x0A]), (False, done_line @ [0x0A])] (EndOfStream False) [])
     = [OnChunk (JStr (js ''Hello'')) (js ''req-1'') False, OnComplete (js ''req-1'')]
   \<and> processLine ollama_lines (js ''req-1'') error_line
     = Stop [OnError (JStr (js ''model not found'')) (js ''req-1'')]
   \<and> fst (readLoop ollama_lines (js ''req-1'')
        [(False, hello_line @ [0x0A]), (False, error_line @ [0x0A]), (False, hello_line @ [0x0A])]
        (EndOfStream False) [])
     = [OnChunk (JStr (js ''Hello'')) (js ''req-1'') False,
        OnError (JStr (js ''model not found'')) (js ''req-1'')]
   \<and> fst (readLoop ollama_lines (js ''req-1'')
        ([(False, hello_line @ [0x0A])] @ (True, done_line @ [0x0A]) # []) (EndOfStream False) [])
     = [OnChunk (JStr (js ''Hello'')) (js ''req-1'') False]"
proof -
  let ?rid = "js ''req-1''"
  let ?good = "[(False, hello_line @ [0x0A]), (False, done_line @ [0x0A])]"
  let ?bad = "[(False, hello_line @ [0x0A]), (False, error_line @ [0x0A]), (False, hello_line @ [0x0A])]"
  let ?cut = "[(False, hello_line @ [0x0A])]"
  have h: "\<not> list_all js_whitespace hello_line \<and> ollama_lines hello_line = Some hello_value
      \<and> hello_value \<noteq> JNull"
    by (simp add: ollama_lines_simps example_lines_not_blank hello_value_def)
  have he: "if_truthy (getProp hello_value (js ''error'')) = None"
    "if_truthy (getProp hello_value (js ''response'')) = Some (JStr (js ''Hello''))"
    "\<not> truthy (getProp hello_value (js ''done''))"
    by (simp_all add: hello_value_def if_truthy_def)
  have e: "\<not> list_all js_whitespace error_line \<and> ollama_lines error_line = Some error_value
      \<and> error_value \<noteq> JNull"
    by (simp add: ollama_lines_simps example_lines_not_blank error_value_def)
  have ee: "if_truthy (getProp error_value (js ''error'')) = Some (JStr (js ''model not found''))"
    by (simp add: error_value_def if_truthy_def)
  have r: "no_read_aborted ?good" "no_read_aborted ?bad" "no_read_aborted ?cut"
    by (simp_all add: no_read_aborted_def)
  have s: "butlast (split_nl (concat (map snd ?good))) = [hello_line, done_line]"
    "butlast (split_nl (concat (map snd ?bad))) = [hello_line] @ error_line # [hello_line]"
    "butlast (split_nl (concat (map snd ?cut))) = [hello_line]"
    by (simp_all add: split_nl_line example_lines_no_nl)
  note good = C7_ollama_stream [where line = hello_line and P = ollama_lines and event = hello_value
      and rid = ?rid and reads = ?good and endAborted = False]
  note bad = C7_ollama_stream [where line = error_line and P = ollama_lines and event = error_value
      and rid = ?rid and reads = ?bad and endAborted = False and before = "[hello_line]"
      and stopping = error_line and after = "[hello_line]"]
  note cut = C7_ollama_stream [where P = ollama_lines and rid = ?rid and reads = ?cut
      and chunk = "done_line @ [0x0A]" and later = "[]" and streamEnd = "EndOfStream False"]
  from good h he have c1: "processLine ollama_lines ?rid hello_line
     = Continue [OnChunk (JStr (js ''Hello'')) ?rid False]"
    by blast
  from good r(1) have "fst (readLoop ollama_lines ?rid ?good (EndOfStream False) [])
     = stream_calls ollama_lines ?rid (butlast (split_nl (concat (map snd ?good)))) False"
    by blast
  then have c2: "fst (readLoop ollama_lines ?rid ?good (EndOfStream False) [])
     = [OnChunk (JStr (js ''Hello'')) ?rid False, OnComplete ?rid]"
    unfolding s by (simp add: stream_calls_def example_line_stops)
  from bad e ee have c3: "processLine ollama_lines ?rid error_line
     = Stop [OnError (JStr (js ''model not found'')) ?rid]"
    by blast
  have "list_all (\<lambda>l. \<not> line_stops ollama_lines ?rid l) [hello_line]
      \<and> line_stops ollama_lines ?rid error_line"
    by (simp add: example_line_stops)
  with bad r(2) s(2) have "fst (readLoop ollama_lines ?rid ?bad (EndOfStream False) [])
     = concat (map (line_calls ollama_lines ?rid) [hello_line]) @ line_calls ollama_lines ?rid error_line"
    by blast
  then have c4: "fst (readLoop ollama_lines ?rid ?bad (EndOfStream False) [])
     = [OnChunk (JStr (js ''Hello'')) ?rid False, OnError (JStr (js ''model not found'')) ?rid]"
    by (simp add: example_line_stops)
  from cut r(3) have "fst (readLoop ollama_lines ?rid (?cut @ (True, done_line @ [0x0A]) # []) (EndOfStream False) [])
     = stream_calls ollama_lines ?rid (butlast (split_nl (concat (map snd ?cut)))) True"
    by blast
  then have c5: "fst (readLoop ollama_lines ?rid (?cut @ (True, done_line @ [0x0A]) # []) (EndOfStream False) [])
     = [OnChunk (JStr (js ''Hello'')) ?rid False]"
    unfolding s by (simp add: stream_calls_def example_line_stops)
  show ?thesis by (intro conjI c1 c2 c3 c4 c5)
qed

text \<open>
  Claim C7 as stated says that a line \<open>{response: <text>, done: false}\<close> calls \<open>onChunk(text, id)\<close>.
  For the empty text the line \<open>{"response":"","done":false}\<close> calls nothing.
\<close>

theorem C7_empty_response_counterexample:
  "processLine ollama_lines (js ''req-1'') empty_response_line = Continue []
   \<and> processLine ollama_lines (js ''req-1'') empty_response_line
       \<noteq> Continue [OnChunk (JStr []) (js ''req-1'') False]"
  by (simp add: processLine_cases [where P = ollama_lines and line = empty_response_line
          and event = empty_response_value, OF example_lines_not_blank(3) ollama_lines_simps(3)]
        empty_response_value_def if_truthy_def)

lemma run_disposed_field: "disposed (fst (run S options r)) = disposed r"
  by (simp add: run_def Let_def case_prod_beta kill_fields split: spawn_result.split)

lemma step_disposed: "disposed r \<Longrightarrow> disposed (fst (step S x r))"
  by (cases x) (simp_all add: op_fields run_disposed_field)

lemma exec_disposed: "disposed r \<Longrightarrow> disposed (fst (exec S xs r))"
  by (induction xs arbitrary: r) (simp_all add: case_prod_beta step_disposed)

lemma run_when_disposed:
  "disposed r \<Longrightarrow> run S options r =
     (r\<lparr>runs := Suc (runs r)\<rparr>,
      [Handler (runs r) (OnError (JStr (js ''Runner has been disposed'')) (opt_requestId options))])"
  by (simp add: run_def Let_def)

lemma ollama_kill_disposed: "ol_disposed (ollama_kill r) = ol_disposed r"
  by (simp add: ollama_kill_def split: option.split)

lemma ollama_step_disposed: "ol_disposed r \<Longrightarrow> ol_disposed (fst (ollama_step P x r))"
  by (cases x)
     (simp_all add: ollama_run_def ollama_dispose_def ollama_onTimeout_def ollama_settle_def
        ollama_kill_disposed Let_def case_prod_beta split: option.split)

lemma ollama_exec_disposed: "ol_disposed r \<Longrightarrow> ol_disposed (fst (ollama_exec P xs r))"
  by (induction xs arbitrary: r) (simp_all add: case_prod_beta ollama_step_disposed)

lemma ollama_run_when_disposed:
  "ol_disposed r \<Longrightarrow> ollama_run options r =
     (r\<lparr>ol_runs := Suc (ol_runs r)\<rparr>,
      [Handler (ol_runs r) (OnError (JStr (js ''Runner has been disposed'')) (opt_requestId options))])"
  by (simp add: ollama_run_def Let_def)

text \<open>
  Claim C9. Once \<open>dispose()\<close> has been called on a subprocess runner or on the HTTP runner, then
  after any further method calls and events a call of \<open>run(options, handlers)\<close> calls
  \<open>handlers.onError("Runner has been disposed", options.requestId)\<close> once and does nothing
  else: the runner's fields stay as they are (only the count of runs made advances), so no
  child is spawned, \<open>spawnProcess\<close> is not reached and no HTTP call is started.
\<close>

theorem C9_disposed_runner:
  "run S options (fst (exec S xs (fst (dispose r)))) =
     ((fst (exec S xs (fst (dispose r))))\<lparr>runs := Suc (runs (fst (exec S xs (fst (dispose r)))))\<rparr>,
      [Handler (runs (fst (exec S xs (fst (dispose r)))))
         (OnError (JStr (js ''Runner has been disposed'')) (opt_requestId options))])
   \<and> ollama_run options (fst (ollama_exec P ys (ollama_dispose q))) =
     ((fst (ollama_exec P ys (ollama_dispose q)))
         \<lparr>ol_runs := Suc (ol_runs (fst (ollama_exec P ys (ollama_dispose q))))\<rparr>,
      [Handler (ol_runs (fst (ollama_exec P ys (ollama_dispose q))))
         (OnError (JStr (js ''Runner has been disposed'')) (opt_requestId options))])"
proof
  have "disposed (fst (exec S xs (fst (dispose r))))"
    by (rule exec_disposed) (rule dispose_fields)
  then show "run S options (fst (exec S xs (fst (dispose r)))) =
     ((fst (exec S xs (fst (dispose r))))\<lparr>runs := Suc (runs (fst (exec S xs (fst (dispose r)))))\<rparr>,
      [Handler (runs (fst (exec S xs (fst (dispose r)))))
         (OnError (JStr (js ''Runner has been disposed'')) (opt_requestId options))])"
    by (rule run_when_disposed)
next
  have "ol_disposed (ollama_dispose q)"
    by (simp add: ollama_dispose_def ollama_kill_disposed)
  then have "ol_disposed (fst (ollama_exec P ys (ollama_dispose q)))"
    by (rule ollama_exec_disposed)
  then show "ollama_run options (fst (ollama_exec P ys (ollama_dispose q))) =
     ((fst (ollama_exec P ys (ollama_dispose q)))
         \<lparr>ol_runs := Suc (ol_runs (fst (ollama_exec P ys (ollama_dispose q))))\<rparr>,
      [Handler (ol_runs (fst (ollama_exec P ys (ollama_dispose q))))
         (OnError (JStr (js ''Runner has been disposed'')) (opt_requestId options))])"
    by (rule ollama_run_when_disposed)
qed

theorem C9_disposed_runner_witness:
  "snd (run TestProvider_class (test_options ''r1'')
          (fst (exec TestProvider_class [] (fst (dispose (new_runner test_provider))))))
     = [Handler 0 (OnError (JStr (js ''Runner has been disposed'')) (js ''r1''))]
   \<and> snd (ollama_run (test_options ''r1'')
          (fst (ollama_exec ollama_lines [] (ollama_dispose (new_OllamaProvider None)))))
     = [Handler 0 (OnError (JStr (js ''Runner has been disposed'')) (js ''r1''))]"
proof -
  have a: "runs (fst (exec TestProvider_class [] (fst (dispose (new_runner test_provider))))) = 0"
    by (simp add: dispose_fields new_runner_def)
  have b: "ol_runs (fst (ollama_exec ollama_lines [] (ollama_dispose (new_OllamaProvider None)))) = 0"
    by (simp add: ollama_dispose_def ollama_kill_def new_OllamaProvider_def)
  have c: "opt_requestId (test_options ''r1'') = js ''r1''"
    by (simp add: test_options_def)
  from C9_disposed_runner [of TestProvider_class "test_options ''r1''" "[]" "new_runner test_provider"
      ollama_lines "[]" "new_OllamaProvider None"]
  show ?thesis unfolding a b c by simp
qed

lemma startsWith_self: "startsWith s s"
  by (induction s) simp_all

lemma str_includes_self: "str_includes s s"
  by (cases s) (simp_all add: startsWith_self)

lemma ollama_settle_error_status:
  assumes "map_of (calls q) k = Some options" "k \<notin> set (aborted q)"
      and "\<not> (200 \<le> status \<and> status \<le> 299)"
  shows "snd (ollama_settle P k (Response status text body) q) =
     [Handler k (OnError (JStr (js ''Ollama returned HTTP '' @ js (digits status) @ js '': ''
          @ take 200 (case text of Some t \<Rightarrow> t | None \<Rightarrow> []))) (opt_requestId options))]"
  using assms by (simp add: ollama_settle_def fetchStream_def)

lemma ollama_settle_refused:
  assumes "map_of (calls q) k = Some options" "k \<notin> set (aborted q)"
      and "str_includes m (js ''ECONNREFUSED'')"
  shows "snd (ollama_settle P k (FetchRejects False (Some m) cause) q) =
     [Handler k (OnError (JStr (js ''Ollama server not reachable at '' @ baseUrl q
          @ js ''. Is Ollama running?'')) (opt_requestId options))]"
  using assms by (simp add: ollama_settle_def fetchStream_def)

lemma ollama_settle_rejected:
  assumes "map_of (calls q) k = Some options" "k \<notin> set (aborted q)"
      and "\<not> str_includes m (js ''ECONNREFUSED'')"
  shows "snd (ollama_settle P k (FetchRejects False (Some m) cause) q) =
     [Handler k (OnError (JStr m) (opt_requestId options))]"
  using assms by (simp add: ollama_settle_def fetchStream_def)

lemma ollama_run_fetch:
  assumes "\<not> ol_disposed r"
  shows "\<exists>body. snd (ollama_run options r) = [Fetch (ol_runs r) (baseUrl r @ js ''/api/generate'') body]"
  using assms by (simp add: ollama_run_def Let_def)

lemma digits_500: "digits 500 = ''500''"
  by code_simp

lemma fetch_failed_message: "\<not> str_includes (js ''fetch failed'') (js ''ECONNREFUSED'')"
  by code_simp

lemma req8_state:
  "fst (ollama_run (test_options ''req-8'') (new_OllamaProvider None)) =
     \<lparr>baseUrl = js ''http://localhost:11434'', abortController = Some 0, ol_disposed = False,
      aborted = [], timers = [0], ol_runs = 1, calls = [(0, test_options ''req-8'')]\<rparr>"
  by (simp add: ollama_run_def new_OllamaProvider_def ollama_kill_def Let_def
        strip_trailing_slash_def DEFAULT_BASE_URL_def js_def cu_def)

text \<open>
  The message of an HTTP error status is \<open>Ollama returned HTTP <code>: <body>\<close>, not
  \<open>HTTP <code>: <body>\<close>: for status 500 with body \<open>internal error\<close> it is
  \<open>Ollama returned HTTP 500: internal error\<close>.
\<close>

lemma ollama_http_500_message:
  "snd (ollama_settle ollama_lines 0 (Response 500 (Some (js ''internal error'')) NoBody)
          (fst (ollama_run (test_options ''req-8'') (new_OllamaProvider None))))
     \<noteq> [Handler 0 (OnError (JStr (js ''HTTP 500: internal error'')) (js ''req-8''))]"
proof -
  let ?q = "fst (ollama_run (test_options ''req-8'') (new_OllamaProvider None))"
  have h: "map_of (calls ?q) 0 = Some (test_options ''req-8'')" "0 \<notin> set (aborted ?q)"
    "\<not> (200 \<le> (500::nat) \<and> (500::nat) \<le> 299)"
    by (simp_all only: req8_state) simp_all
  show ?thesis
    unfolding ollama_settle_error_status [OF h]
    by (simp add: test_options_def digits_500 js_append [symmetric] take_js)
qed

text \<open>
  Claim C8 fails on the code for a refused connection. A run on a runner that is not disposed
  starts the POST to \<open><baseUrl>/api/generate\<close>. When the answer has an error status (outside
  200..299) and the request has not been aborted, the runner calls \<open>onError\<close> for the request id
  with the message \<open>Ollama returned HTTP <code>: <first 200 code units of the body></code>\<close>. When
  \<open>fetch\<close> rejects, only the message of the error decides: a message that contains
  \<open>ECONNREFUSED\<close> gives \<open>Ollama server not reachable at <baseUrl>. Is Ollama running?\<close>, and any
  other message is passed on as it is, whatever the underlying cause. The \<open>fetch\<close> of Node 18
  rejects a refused connection with the message \<open>fetch failed\<close> and keeps \<open>ECONNREFUSED\<close> in
  the \<open>code\<close> of \<open>err.cause\<close>; the runner then calls \<open>onError("fetch failed", id)\<close> and not the
  message about the server, which the comment in the \<open>catch\<close> and the test for an unreachable
  server intend.
\<close>

theorem C8_ollama_http_errors:
  "(\<not> ol_disposed r \<longrightarrow>
      (\<exists>body. snd (ollama_run options r) = [Fetch (ol_runs r) (baseUrl r @ js ''/api/generate'') body]))
   \<and> (map_of (calls q) k = Some options \<and> k \<notin> set (aborted q) \<longrightarrow>
        (\<not> (200 \<le> status \<and> status \<le> 299) \<longrightarrow>
           snd (ollama_settle P k (Response status bodyText stream) q) =
             [Handler k (OnError (JStr (js ''Ollama returned HTTP '' @ js (digits status) @ js '': ''
                @ take 200 (case bodyText of Some t \<Rightarrow> t | None \<Rightarrow> []))) (opt_requestId options))])
      \<and> (\<forall>m cause. str_includes m (js ''ECONNREFUSED'') \<longrightarrow>
           snd (ollama_settle P k (FetchRejects False (Some m) cause) q) =
             [Handler k (OnError (JStr (js ''Ollama server not reachable at '' @ baseUrl q
                @ js ''. Is Ollama running?'')) (opt_requestId options))])
      \<and> (\<forall>m cause. \<not> str_includes m (js ''ECONNREFUSED'') \<longrightarrow>
           snd (ollama_settle P k (FetchRejects False (Some m) cause) q) =
             [Handler k (OnError (JStr m) (opt_requestId options))]))"
  by (simp add: ollama_run_fetch ollama_settle_error_status ollama_settle_refused
        ollama_settle_rejected)

theorem C8_ollama_http_errors_witness:
  "snd (ollama_settle ollama_lines 0 (Response 500 (Some (js ''internal error'')) NoBody)
          (fst (ollama_run (test_options ''req-8'') (new_OllamaProvider None))))
     = [Handler 0 (OnError (JStr (js ''Ollama returned HTTP 500: internal error'')) (js ''req-8''))]
   \<and> snd (ollama_settle ollama_lines 0
          (FetchRejects False (Some (js ''ECONNREFUSED'')) None)
          (fst (ollama_run (test_options ''req-8'') (new_OllamaProvider None))))
     = [Handler 0 (OnError (JStr (js ''Ollama server not reachable at http://localhost:11434. Is Ollama running?''))
          (js ''req-8''))]
   \<and> snd (ollama_settle ollama_lines 0
          (FetchRejects False (Some (js ''fetch failed'')) (Some (js ''ECONNREFUSED'')))
          (fst (ollama_run (test_options ''req-8'') (new_OllamaProvider None))))
     = [Handler 0 (OnError (JStr (js ''fetch failed'')) (js ''req-8''))]"
proof -
  let ?q = "fst (ollama_run (test_options ''req-8'') (new_OllamaProvider None))"
  have h: "map_of (calls ?q) 0 = Some (test_options ''req-8'') \<and> 0 \<notin> set (aborted ?q)"
    "\<not> (200 \<le> (500::nat) \<and> (500::nat) \<le> 299)" "str_includes (js ''ECONNREFUSED'') (js ''ECONNREFUSED'')"
    by (simp_all only: req8_state str_includes_self) simp_all
  have e: "baseUrl ?q = js ''http://localhost:11434''" "opt_requestId (test_options ''req-8'') = js ''req-8''"
    by (simp_all only: req8_state) (simp_all add: test_options_def)
  note t = C8_ollama_http_errors [where r = "new_OllamaProvider None" and options = "test_options ''req-8''"
      and q = ?q and k = 0 and status = 500 and P = ollama_lines
      and bodyText = "Some (js ''internal error'')" and stream = NoBody]
  from t h have a: "snd (ollama_settle ollama_lines 0 (Response 500 (Some (js ''internal error'')) NoBody) ?q) =
             [Handler 0 (OnError (JStr (js ''Ollama returned HTTP '' @ js (digits 500) @ js '': ''
                @ take 200 (case Some (js ''internal error'') of Some t \<Rightarrow> t | None \<Rightarrow> [])))
                (opt_requestId (test_options ''req-8'')))]"
    by blast
  from t h have b: "snd (ollama_settle ollama_lines 0 (FetchRejects False (Some (js ''ECONNREFUSED'')) None) ?q) =
             [Handler 0 (OnError (JStr (js ''Ollama server not reachable at '' @ baseUrl ?q
                @ js ''. Is Ollama running?'')) (opt_requestId (test_options ''req-8'')))]"
    by blast
  from t h fetch_failed_message
  have c: "snd (ollama_settle ollama_lines 0
             (FetchRejects False (Some (js ''fetch failed'')) (Some (js ''ECONNREFUSED''))) ?q) =
             [Handler 0 (OnError (JStr (js ''fetch failed'')) (opt_requestId (test_options ''req-8'')))]"
    by blast
  show ?thesis
    unfolding a b c e by (simp add: digits_500 js_append [symmetric] take_js)
qed

text \<open>
  Claim C8 as stated says that a refused connection gives the message about the server that is
  not reachable. For the rejection of Node's \<open>fetch\<close> at a refused connection (message
  \<open>fetch failed\<close>, cause \<open>ECONNREFUSED\<close>) the runner calls \<open>onError("fetch failed", id)\<close>.
\<close>

theorem C8_refused_connection_counterexample:
  "snd (ollama_settle ollama_lines 0
          (FetchRejects False (Some (js ''fetch failed'')) (Some (js ''ECONNREFUSED'')))
          (fst (ollama_run (test_options ''req-8'') (new_OllamaProvider None))))
     = [Handler 0 (OnError (JStr (js ''fetch failed'')) (js ''req-8''))]
   \<and> snd (ollama_settle ollama_lines 0
          (FetchRejects False (Some (js ''fetch failed'')) (Some (js ''ECONNREFUSED'')))
          (fst (ollama_run (test_options ''req-8'') (new_OllamaProvider None))))
     \<noteq> [Handler 0 (OnError (JStr (js ''Ollama server not reachable at http://localhost:11434. Is Ollama running?''))
          (js ''req-8''))]"
proof -
  let ?q = "fst (ollama_run (test_options ''req-8'') (new_OllamaProvider None))"
  have h: "map_of (calls ?q) 0 = Some (test_options ''req-8'')" "0 \<notin> set (aborted ?q)"
    by (simp_all only: req8_state) simp_all
  show ?thesis
    unfolding ollama_settle_rejected [OF h fetch_failed_message]
    by (simp add: test_options_def)
qed

subsection \<open>Connection state and multiplexer\<close>

lemma sendMessage_fields [simp]:
  "requests (sendMessage c m) = requests c" "world (sendMessage c m) = world c"
  "runnerCalls (sendMessage c m) = runnerCalls c" "claudeRunner (sendMessage c m) = claudeRunner c"
  "codexRunner (sendMessage c m) = codexRunner c" "ollamaRunner (sendMessage c m) = ollamaRunner c"
  "readyStateOpen (sendMessage c m) = readyStateOpen c" "isAlive (sendMessage c m) = isAlive c"
  by (simp_all add: sendMessage_def)

lemma runner_slot_sendMessage [simp]: "runner_slot p (sendMessage c m) = runner_slot p c"
  by (simp add: runner_slot_def split: provider.split)

lemma creations_sendMessage [simp]: "creations p (sendMessage c m) = creations p c"
  by (simp add: creations_def)

lemma distinct_Map_delete: "distinct (map fst m) \<Longrightarrow> distinct (map fst (Map_delete m k))"
  by (simp add: Map_delete_def distinct_map_filter)

lemma map_fst_replace: "map fst (map (\<lambda>kv. if fst kv = k then (k, v) else kv) m) = map fst m"
  by (induction m) auto

lemma distinct_Map_set: "distinct (map fst m) \<Longrightarrow> distinct (map fst (Map_set m k v))"
proof (cases "Map_has m k")
  case True
  then have "map fst (Map_set m k v) = map fst m"
    by (simp only: Map_set_def if_True map_fst_replace)
  then show "distinct (map fst m) \<Longrightarrow> distinct (map fst (Map_set m k v))" by simp
next
  case False
  then have "k \<notin> fst ` set m" by (simp add: Map_has_def map_of_eq_None_iff)
  with False show "distinct (map fst m) \<Longrightarrow> distinct (map fst (Map_set m k v))"
    by (simp add: Map_set_def)
qed

lemma Map_get_set: "Map_get (Map_set m k v) k = Some v"
proof (cases "Map_has m k")
  case False
  then have "map_of m k = None" by (simp add: Map_has_def)
  with False show ?thesis by (simp add: Map_set_def Map_get_def map_add_def)
next
  case True
  have "map_of m k \<noteq> None \<Longrightarrow> map_of (map (\<lambda>kv. if fst kv = k then (k, v) else kv) m) k = Some v"
    by (induction m) auto
  with True show ?thesis by (simp add: Map_set_def Map_get_def Map_has_def)
qed

lemma Map_has_delete: "\<not> Map_has (Map_delete m k) k"
  by (auto simp: Map_has_def Map_delete_def map_of_eq_None_iff)

lemma applyCallback_fields [simp]:
  "world (applyCallback cb c) = world c" "runnerCalls (applyCallback cb c) = runnerCalls c"
  "claudeRunner (applyCallback cb c) = claudeRunner c" "codexRunner (applyCallback cb c) = codexRunner c"
  "ollamaRunner (applyCallback cb c) = ollamaRunner c"
  by (cases cb; simp)+

lemma applyCallback_inv: "conn_inv c \<Longrightarrow> conn_inv (applyCallback cb c)"
  by (cases cb) (simp_all add: conn_inv_def creations_def runner_slot_def distinct_Map_delete)

lemma fold_applyCallback_fields [simp]:
  "world (fold applyCallback cbs c) = world c" "runnerCalls (fold applyCallback cbs c) = runnerCalls c"
  "claudeRunner (fold applyCallback cbs c) = claudeRunner c"
  "codexRunner (fold applyCallback cbs c) = codexRunner c"
  "ollamaRunner (fold applyCallback cbs c) = ollamaRunner c"
  by (induction cbs arbitrary: c; simp)+

lemma fold_applyCallback_inv: "conn_inv c \<Longrightarrow> conn_inv (fold applyCallback cbs c)"
  by (induction cbs arbitrary: c) (simp_all add: applyCallback_inv)

lemma selectRunner_cached:
  "runner_slot p c = Some r \<Longrightarrow> selectRunner L p c = (r, c)"
  by (simp add: selectRunner_def)

lemma selectRunner_created:
  assumes "runner_slot p c = None"
  shows "runner_slot p (snd (selectRunner L p c)) = Some (fst (selectRunner L p c))"
    and "runnerCalls (snd (selectRunner L p c)) = runnerCalls c @ [CreateCall p (fst (selectRunner L p c))]"
    and "requests (snd (selectRunner L p c)) = requests c"
    and "q \<noteq> p \<Longrightarrow> runner_slot q (snd (selectRunner L p c)) = runner_slot q c"
  using assms
  by (cases p; cases q; simp add: selectRunner_def runner_slot_def case_prod_beta Let_def)+


lemma conn_inv_iff:
  "conn_inv c \<longleftrightarrow> distinct (map fst (requests c))
     \<and> (\<forall>p. creations p c = (if runner_slot p c = None then 0 else 1))"
proof -
  have "(\<forall>p. Q p) \<longleftrightarrow> Q Claude \<and> Q Codex \<and> Q Ollama" for Q :: "provider \<Rightarrow> bool"
    by (metis provider.exhaust)
  then show ?thesis by (simp add: conn_inv_def)
qed

lemma selectRunner_requests [simp]: "requests (snd (selectRunner L p c)) = requests c"
  by (cases "runner_slot p c") (simp_all add: selectRunner_cached selectRunner_created)

lemma selectRunner_slot:
  "runner_slot q (snd (selectRunner L p c)) =
     (if q = p then Some (fst (selectRunner L p c)) else runner_slot q c)"
  by (cases "runner_slot p c") (auto simp: selectRunner_cached selectRunner_created)

lemma selectRunner_creations:
  "creations q (snd (selectRunner L p c)) =
     (if q = p \<and> runner_slot p c = None then Suc (creations q c) else creations q c)"
  by (cases "runner_slot p c") (auto simp: selectRunner_cached selectRunner_created creations_def)

lemma selectRunner_inv: "conn_inv c \<Longrightarrow> conn_inv (snd (selectRunner L p c))"
  by (simp add: conn_inv_iff selectRunner_slot selectRunner_creations)

lemma invokeRun_fields [simp]:
  "claudeRunner (invokeRun L r options c) = claudeRunner c"
  "codexRunner (invokeRun L r options c) = codexRunner c"
  "ollamaRunner (invokeRun L r options c) = ollamaRunner c"
  "runnerCalls (invokeRun L r options c) = runnerCalls c @ [RunCall r options]"
  by (simp_all add: invokeRun_def case_prod_beta)

lemma invokeRun_inv: "conn_inv c \<Longrightarrow> conn_inv (invokeRun L r options c)"
proof -
  assume "conn_inv c"
  then have "conn_inv (c\<lparr>world := w, runnerCalls := runnerCalls c @ [RunCall r options]\<rparr>)" for w
    by (simp add: conn_inv_def creations_def runner_slot_def)
  then show ?thesis by (simp add: invokeRun_def case_prod_beta fold_applyCallback_inv)
qed

lemma set_requests_inv:
  "conn_inv c \<Longrightarrow> conn_inv (c\<lparr>requests := Map_set (requests c) k v\<rparr>)"
  "conn_inv c \<Longrightarrow> conn_inv (c\<lparr>requests := Map_delete (requests c) k\<rparr>)"
  by (simp_all add: conn_inv_def creations_def runner_slot_def distinct_Map_set distinct_Map_delete)

lemma sendMessage_inv: "conn_inv c \<Longrightarrow> conn_inv (sendMessage c m)"
  by (simp add: conn_inv_iff)

lemma handlePrompt_inv:
  assumes "conn_inv c"
  shows "conn_inv (handlePrompt L c m)"
proof (cases "Map_has (requests c) (requestId m)")
  case True
  then show ?thesis using assms by (simp add: handlePrompt_def sendMessage_inv)
next
  case False
  let ?c1 = "snd (selectRunner L (provider m) c)" and ?r = "fst (selectRunner L (provider m) c)"
  have "conn_inv (invokeRun L ?r (promptOptions m)
          (?c1\<lparr>requests := Map_set (requests ?c1) (requestId m) ?r\<rparr>))"
    by (intro invokeRun_inv set_requests_inv selectRunner_inv assms)
  then show ?thesis using False by (simp only: handlePrompt_def case_prod_beta if_False)
qed

lemma handleCancel_inv: "conn_inv c \<Longrightarrow> conn_inv (handleCancel L c rid)"
proof (cases "Map_get (requests c) rid")
  case None
  then show "conn_inv c \<Longrightarrow> conn_inv (handleCancel L c rid)"
    by (simp add: handleCancel_def sendMessage_inv)
next
  case (Some r)
  assume "conn_inv c"
  then have "conn_inv (c\<lparr>world := w, runnerCalls := runnerCalls c @ [KillCall r],
      requests := Map_delete (requests c) rid\<rparr>)" for w
    by (simp add: conn_inv_def creations_def runner_slot_def distinct_Map_delete)
  then show "conn_inv (handleCancel L c rid)"
    by (simp add: handleCancel_def Some Let_def sendMessage_inv)
qed

lemma handleMessage_inv: "conn_inv c \<Longrightarrow> conn_inv (handleMessage L P c raw)"
  by (simp add: handleMessage_def sendMessage_inv handlePrompt_inv handleCancel_inv
        split: sum.split ClientMessage.split)

lemma disposeRunner_fields [simp]:
  "requests (disposeRunner L r c) = requests c" "claudeRunner (disposeRunner L r c) = claudeRunner c"
  "codexRunner (disposeRunner L r c) = codexRunner c" "ollamaRunner (disposeRunner L r c) = ollamaRunner c"
  "creations p (disposeRunner L r c) = creations p c"
  by (simp_all add: disposeRunner_def creations_def)

lemma fold_disposeRunner_fields [simp]:
  "requests (fold (disposeRunner L) rs c) = requests c"
  "claudeRunner (fold (disposeRunner L) rs c) = claudeRunner c"
  "codexRunner (fold (disposeRunner L) rs c) = codexRunner c"
  "ollamaRunner (fold (disposeRunner L) rs c) = ollamaRunner c"
  "creations p (fold (disposeRunner L) rs c) = creations p c"
  by (induction rs arbitrary: c; simp)+

lemma disposeAll_fields [simp]:
  "requests (disposeAll L c) = requests c" "claudeRunner (disposeAll L c) = claudeRunner c"
  "codexRunner (disposeAll L c) = codexRunner c" "ollamaRunner (disposeAll L c) = ollamaRunner c"
  "creations p (disposeAll L c) = creations p c"
  by (simp_all add: disposeAll_def)

lemma creations_update [simp]:
  "creations p (c\<lparr>readyStateOpen := b\<rparr>) = creations p c"
  "creations p (c\<lparr>isAlive := b\<rparr>) = creations p c"
  by (simp_all add: creations_def)

lemma runner_slot_cong:
  "claudeRunner c' = claudeRunner c \<Longrightarrow> codexRunner c' = codexRunner c \<Longrightarrow>
   ollamaRunner c' = ollamaRunner c \<Longrightarrow> runner_slot p c' = runner_slot p c"
  by (simp add: runner_slot_def split: provider.split)

lemma disposeAll_inv: "conn_inv c \<Longrightarrow> conn_inv ((disposeAll L c)\<lparr>readyStateOpen := b\<rparr>)"
  by (simp add: conn_inv_iff runner_slot_cong [of "(disposeAll L c)\<lparr>readyStateOpen := b\<rparr>" c])

lemma conn_step_inv: "conn_inv c \<Longrightarrow> conn_inv (conn_step L P e c)"
proof (cases e)
  case (Message raw)
  then show "conn_inv c \<Longrightarrow> ?thesis" by (simp add: handleMessage_inv)
next
  case Pong
  then show "conn_inv c \<Longrightarrow> ?thesis" by (simp add: conn_inv_def creations_def runner_slot_def)
next
  case (HandlerCall cb)
  then show "conn_inv c \<Longrightarrow> ?thesis" by (simp add: applyCallback_inv)
next
  case (Heartbeat b)
  assume inv: "conn_inv c"
  then have "conn_inv (c\<lparr>isAlive := False\<rparr>)"
    by (simp add: conn_inv_def creations_def runner_slot_def)
  with inv Heartbeat show ?thesis using disposeAll_inv [where c = "c\<lparr>isAlive := False\<rparr>" and L = L and b = False]
    by (simp add: disposeAll_inv)
next
  case Close
  then show "conn_inv c \<Longrightarrow> ?thesis" by (simp add: disposeAll_inv)
qed

lemma conn_run_inv: "conn_inv c \<Longrightarrow> conn_inv (conn_run L P es c)"
  unfolding conn_run_def by (induction es arbitrary: c) (simp_all add: conn_step_inv)

lemma new_connection_inv: "conn_inv (new_connection a w)"
  by (simp add: new_connection_def sendMessage_def conn_inv_def creations_def runner_slot_def)


lemma handlePrompt_slot:
  assumes "runner_slot q c = Some r"
  shows "runner_slot q (handlePrompt L c m) = Some r"
proof (cases "Map_has (requests c) (requestId m)")
  case True
  then show ?thesis using assms by (simp add: handlePrompt_def)
next
  case False
  let ?c1 = "snd (selectRunner L (provider m) c)" and ?r = "fst (selectRunner L (provider m) c)"
  have "runner_slot q ?c1 = Some r"
    using assms by (auto simp: selectRunner_slot selectRunner_cached)
  moreover have "runner_slot q (invokeRun L ?r (promptOptions m)
          (?c1\<lparr>requests := Map_set (requests ?c1) (requestId m) ?r\<rparr>)) = runner_slot q ?c1"
    by (rule runner_slot_cong) simp_all
  ultimately show ?thesis using False by (simp only: handlePrompt_def case_prod_beta if_False)
qed

lemma handleCancel_slot: "runner_slot q (handleCancel L c rid) = runner_slot q c"
  by (rule runner_slot_cong) (simp_all add: handleCancel_def Let_def split: option.split)

lemma conn_step_slot:
  assumes "runner_slot q c = Some r"
  shows "runner_slot q (conn_step L P e c) = Some r"
proof (cases e)
  case (Message raw)
  then show ?thesis using assms
    by (simp add: handleMessage_def handlePrompt_slot handleCancel_slot
          split: sum.split ClientMessage.split)
next
  case Pong
  then show ?thesis using assms runner_slot_cong [of "c\<lparr>isAlive := True\<rparr>" c q] by simp
next
  case (HandlerCall cb)
  then show ?thesis using assms runner_slot_cong [of "applyCallback cb c" c q] by simp
next
  case (Heartbeat b)
  then show ?thesis
    using assms runner_slot_cong [of "c\<lparr>isAlive := False\<rparr>" c q]
      runner_slot_cong [of "(disposeAll L c)\<lparr>readyStateOpen := False\<rparr>" c q]
      runner_slot_cong [of "(disposeAll L (c\<lparr>isAlive := False\<rparr>))\<lparr>readyStateOpen := False\<rparr>" c q]
    by simp
next
  case Close
  then show ?thesis
    using assms runner_slot_cong [of "(disposeAll L c)\<lparr>readyStateOpen := False\<rparr>" c q] by simp
qed

lemma handlePrompt_duplicate:
  assumes "Map_has (requests c) (requestId m)"
  shows "handlePrompt L c m =
     sendMessage c (ErrorMessage (JStr (js ''Request '' @ requestId m @ js '' is already in progress''))
       (Some (requestId m)))"
  using assms by (simp add: handlePrompt_def)

lemma handlePrompt_accepted:
  assumes "\<not> Map_has (requests c) (requestId m)"
  shows "handlePrompt L c m =
     invokeRun L (fst (selectRunner L (provider m) c)) (promptOptions m)
       ((snd (selectRunner L (provider m) c))
          \<lparr>requests := Map_set (requests (snd (selectRunner L (provider m) c))) (requestId m)
              (fst (selectRunner L (provider m) c))\<rparr>)"
  using assms by (simp only: handlePrompt_def case_prod_beta if_False)

text \<open>
  Claim C2. A prompt whose requestId is already in the request map: the server sends the error
  \<open>Request <id> is already in progress\<close> with that requestId and nothing else happens (no call
  to a runner, the runners' world untouched). Otherwise the runner is the provider's cached one
  (if the slot is set, that runner and no creation; if not, one creation, which fills the
  slot), and \<open>run\<close> is invoked on the connection in which the request map already has the id,
  bound to that runner. On every connection, whatever happens on it: the request map has no id
  twice, each provider's runner has been created at most once, and a slot once set keeps its
  runner.
\<close>

theorem C2_prompt_dispatch:
  "(Map_has (requests c) (requestId m) \<longrightarrow>
      handlePrompt L c m =
        sendMessage c (ErrorMessage (JStr (js ''Request '' @ requestId m @ js '' is already in progress''))
          (Some (requestId m)))
      \<and> runnerCalls (handlePrompt L c m) = runnerCalls c
      \<and> world (handlePrompt L c m) = world c)
   \<and> (\<not> Map_has (requests c) (requestId m) \<longrightarrow>
        (\<exists>r c1. selectRunner L (provider m) c = (r, c1)
           \<and> runner_slot (provider m) c1 = Some r
           \<and> (\<forall>r0. runner_slot (provider m) c = Some r0 \<longrightarrow> r = r0 \<and> c1 = c)
           \<and> (runner_slot (provider m) c = None \<longrightarrow>
                runnerCalls c1 = runnerCalls c @ [CreateCall (provider m) r])
           \<and> Map_get (requests (c1\<lparr>requests := Map_set (requests c1) (requestId m) r\<rparr>)) (requestId m)
                = Some r
           \<and> handlePrompt L c m =
                invokeRun L r (promptOptions m) (c1\<lparr>requests := Map_set (requests c1) (requestId m) r\<rparr>)
           \<and> runnerCalls (handlePrompt L c m) = runnerCalls c1 @ [RunCall r (promptOptions m)]))
   \<and> distinct (map fst (requests (conn_run L P events (new_connection agent w))))
   \<and> (\<forall>p. creations p (conn_run L P events (new_connection agent w)) \<le> 1)
   \<and> (\<forall>p r e. runner_slot p (conn_run L P events (new_connection agent w)) = Some r \<longrightarrow>
         runner_slot p (conn_step L P e (conn_run L P events (new_connection agent w))) = Some r)"
proof -
  let ?c' = "conn_run L P events (new_connection agent w)"
  have inv: "conn_inv ?c'" by (rule conn_run_inv) (rule new_connection_inv)
  have A: "handlePrompt L c m =
        sendMessage c (ErrorMessage (JStr (js ''Request '' @ requestId m @ js '' is already in progress''))
          (Some (requestId m)))
      \<and> runnerCalls (handlePrompt L c m) = runnerCalls c
      \<and> world (handlePrompt L c m) = world c"
    if "Map_has (requests c) (requestId m)"
    by (simp add: handlePrompt_duplicate [OF that])
  have B: "\<exists>r c1. selectRunner L (provider m) c = (r, c1)
           \<and> runner_slot (provider m) c1 = Some r
           \<and> (\<forall>r0. runner_slot (provider m) c = Some r0 \<longrightarrow> r = r0 \<and> c1 = c)
           \<and> (runner_slot (provider m) c = None \<longrightarrow>
                runnerCalls c1 = runnerCalls c @ [CreateCall (provider m) r])
           \<and> Map_get (requests (c1\<lparr>requests := Map_set (requests c1) (requestId m) r\<rparr>)) (requestId m)
                = Some r
           \<and> handlePrompt L c m =
                invokeRun L r (promptOptions m) (c1\<lparr>requests := Map_set (requests c1) (requestId m) r\<rparr>)
           \<and> runnerCalls (handlePrompt L c m) = runnerCalls c1 @ [RunCall r (promptOptions m)]"
    if nd: "\<not> Map_has (requests c) (requestId m)"
  proof (intro exI conjI)
    show "selectRunner L (provider m) c
        = (fst (selectRunner L (provider m) c), snd (selectRunner L (provider m) c))" by simp
    show "runner_slot (provider m) (snd (selectRunner L (provider m) c))
        = Some (fst (selectRunner L (provider m) c))"
      by (simp add: selectRunner_slot)
    show "\<forall>r0. runner_slot (provider m) c = Some r0 \<longrightarrow>
        fst (selectRunner L (provider m) c) = r0 \<and> snd (selectRunner L (provider m) c) = c"
      by (simp add: selectRunner_cached)
    show "runner_slot (provider m) c = None \<longrightarrow>
        runnerCalls (snd (selectRunner L (provider m) c))
          = runnerCalls c @ [CreateCall (provider m) (fst (selectRunner L (provider m) c))]"
      by (simp add: selectRunner_created)
    show "Map_get (requests ((snd (selectRunner L (provider m) c))
          \<lparr>requests := Map_set (requests (snd (selectRunner L (provider m) c))) (requestId m)
              (fst (selectRunner L (provider m) c))\<rparr>)) (requestId m)
        = Some (fst (selectRunner L (provider m) c))"
      by (simp add: Map_get_set)
    show "handlePrompt L c m =
        invokeRun L (fst (selectRunner L (provider m) c)) (promptOptions m)
          ((snd (selectRunner L (provider m) c))
            \<lparr>requests := Map_set (requests (snd (selectRunner L (provider m) c))) (requestId m)
                (fst (selectRunner L (provider m) c))\<rparr>)"
      by (rule handlePrompt_accepted [OF nd])
    then show "runnerCalls (handlePrompt L c m) =
        runnerCalls (snd (selectRunner L (provider m) c))
          @ [RunCall (fst (selectRunner L (provider m) c)) (promptOptions m)]"
      by simp
  qed
  have C: "distinct (map fst (requests ?c'))" and D: "\<forall>p. creations p ?c' \<le> 1"
    using inv by (simp_all add: conn_inv_iff)
  have E: "\<forall>p r e. runner_slot p ?c' = Some r \<longrightarrow> runner_slot p (conn_step L P e ?c') = Some r"
    by (simp add: conn_step_slot)
  from A B C D E show ?thesis by blast
qed

lemma mock_first_prompt:
  "handlePrompt mock_layer mock_connection prompt_r1 =
     \<lparr>requests = [(js ''r1'', ())], claudeRunner = Some (), codexRunner = None, ollamaRunner = None,
      isAlive = True, readyStateOpen = True,
      sent = [ConnectedMessage (js ''2.0'') (js ''bridge-ws'')], dropped = [],
      world = \<lparr>lastOptions = Some (promptOptions prompt_r1), killCount = 0\<rparr>,
      runnerCalls = [CreateCall Claude (), RunCall () (promptOptions prompt_r1)]\<rparr>"
  by (simp add: handlePrompt_def selectRunner_def invokeRun_def Map_get_def
        Map_has_def Map_set_def sendMessage_def runner_slot_def new_connection_def Let_def
        mock_layer_def mock_connection_def prompt_r1_def)

theorem C2_prompt_dispatch_witness:
  "sent (handlePrompt mock_layer (handlePrompt mock_layer mock_connection prompt_r1) prompt_r1)
     = [ConnectedMessage (js ''2.0'') (js ''bridge-ws''),
        ErrorMessage (JStr (js ''Request r1 is already in progress'')) (Some (js ''r1''))]
   \<and> runnerCalls (handlePrompt mock_layer (handlePrompt mock_layer mock_connection prompt_r1) prompt_r1)
     = [CreateCall Claude (), RunCall () (promptOptions prompt_r1)]
   \<and> runnerCalls (handlePrompt mock_layer mock_connection prompt_r1)
     = runnerCalls (snd (selectRunner mock_layer Claude mock_connection))
        @ [RunCall () (promptOptions prompt_r1)]"
proof -
  let ?c0 = "handlePrompt mock_layer mock_connection prompt_r1"
  have dup: "Map_has (requests ?c0) (requestId prompt_r1)"
    by (simp only: mock_first_prompt) (simp add: Map_has_def prompt_r1_def)
  have fresh: "\<not> Map_has (requests mock_connection) (requestId prompt_r1)"
    by (simp add: Map_has_def mock_connection_def new_connection_def sendMessage_def)
  have p: "provider prompt_r1 = Claude" "requestId prompt_r1 = js ''r1''"
    by (simp_all add: prompt_r1_def)
  note t1 = C2_prompt_dispatch [where c = ?c0 and m = prompt_r1 and L = mock_layer
      and P = ollama_lines and events = "[]" and agent = None
      and w = "\<lparr>lastOptions = None, killCount = 0\<rparr>"]
  note t2 = C2_prompt_dispatch [where c = mock_connection and m = prompt_r1 and L = mock_layer
      and P = ollama_lines and events = "[]" and agent = None
      and w = "\<lparr>lastOptions = None, killCount = 0\<rparr>"]
  from t1 dup have a: "handlePrompt mock_layer ?c0 prompt_r1 =
        sendMessage ?c0 (ErrorMessage (JStr (js ''Request '' @ requestId prompt_r1 @ js '' is already in progress''))
          (Some (requestId prompt_r1)))"
    and b: "runnerCalls (handlePrompt mock_layer ?c0 prompt_r1) = runnerCalls ?c0"
    by blast+
  from t2 fresh obtain r c1 where sel: "selectRunner mock_layer (provider prompt_r1) mock_connection = (r, c1)"
    and rc: "runnerCalls ?c0 = runnerCalls c1 @ [RunCall r (promptOptions prompt_r1)]"
    by blast
  have s: "sent (handlePrompt mock_layer ?c0 prompt_r1)
     = [ConnectedMessage (js ''2.0'') (js ''bridge-ws''),
        ErrorMessage (JStr (js ''Request r1 is already in progress'')) (Some (js ''r1''))]"
    unfolding a by (simp only: mock_first_prompt p) (simp add: sendMessage_def js_append [symmetric])
  have c: "runnerCalls (handlePrompt mock_layer ?c0 prompt_r1)
     = [CreateCall Claude (), RunCall () (promptOptions prompt_r1)]"
    unfolding b by (simp only: mock_first_prompt) simp
  from sel rc have d: "runnerCalls ?c0 = runnerCalls (snd (selectRunner mock_layer Claude mock_connection))
        @ [RunCall () (promptOptions prompt_r1)]"
    by (simp add: p)
  from s c d show ?thesis by simp
qed

lemma handleCancel_unknown:
  assumes "Map_get (requests c) rid = None"
  shows "handleCancel L c rid =
     sendMessage c (ErrorMessage (JStr (js ''No active request with id: '' @ rid)) (Some rid))"
  using assms by (simp add: handleCancel_def)

lemma handleCancel_active:
  assumes "Map_get (requests c) rid = Some r"
  shows "handleCancel L c rid =
     sendMessage (c\<lparr>world := runnerKill L r (world c), runnerCalls := runnerCalls c @ [KillCall r],
                    requests := Map_delete (requests c) rid\<rparr>)
       (ErrorMessage (JStr (js ''Request cancelled'')) (Some rid))"
  using assms by (simp add: handleCancel_def Let_def)

text \<open>
  Claim C3. A cancel whose requestId is not in the request map: the server sends the error
  \<open>No active request with id: <id>\<close> with that requestId and calls no runner (the runners'
  world is untouched). A cancel whose requestId is in the map, bound to runner \<open>r\<close>: the server
  calls \<open>kill()\<close> on \<open>r\<close> once, removes the id from the map and sends the error
  \<open>Request cancelled\<close> with the requestId; afterwards the id is not in the map, so a later
  prompt with the same id is accepted: it reaches \<open>run\<close>.
\<close>

theorem C3_cancel_dispatch:
  "(Map_get (requests c) rid = None \<longrightarrow>
      handleCancel L c rid =
        sendMessage c (ErrorMessage (JStr (js ''No active request with id: '' @ rid)) (Some rid))
      \<and> world (handleCancel L c rid) = world c
      \<and> runnerCalls (handleCancel L c rid) = runnerCalls c)
   \<and> (\<forall>r. Map_get (requests c) rid = Some r \<longrightarrow>
        handleCancel L c rid =
          sendMessage (c\<lparr>world := runnerKill L r (world c), runnerCalls := runnerCalls c @ [KillCall r],
                         requests := Map_delete (requests c) rid\<rparr>)
            (ErrorMessage (JStr (js ''Request cancelled'')) (Some rid))
        \<and> world (handleCancel L c rid) = runnerKill L r (world c)
        \<and> runnerCalls (handleCancel L c rid) = runnerCalls c @ [KillCall r]
        \<and> \<not> Map_has (requests (handleCancel L c rid)) rid
        \<and> (\<forall>m. requestId m = rid \<longrightarrow>
              (\<exists>r' c1. selectRunner L (provider m) (handleCancel L c rid) = (r', c1)
                 \<and> handlePrompt L (handleCancel L c rid) m =
                     invokeRun L r' (promptOptions m)
                       (c1\<lparr>requests := Map_set (requests c1) rid r'\<rparr>))))"
proof -
  have A: "handleCancel L c rid =
        sendMessage c (ErrorMessage (JStr (js ''No active request with id: '' @ rid)) (Some rid))
      \<and> world (handleCancel L c rid) = world c
      \<and> runnerCalls (handleCancel L c rid) = runnerCalls c"
    if "Map_get (requests c) rid = None"
    by (simp add: handleCancel_unknown [OF that])
  have B: "handleCancel L c rid =
          sendMessage (c\<lparr>world := runnerKill L r (world c), runnerCalls := runnerCalls c @ [KillCall r],
                         requests := Map_delete (requests c) rid\<rparr>)
            (ErrorMessage (JStr (js ''Request cancelled'')) (Some rid))
        \<and> world (handleCancel L c rid) = runnerKill L r (world c)
        \<and> runnerCalls (handleCancel L c rid) = runnerCalls c @ [KillCall r]
        \<and> \<not> Map_has (requests (handleCancel L c rid)) rid
        \<and> (\<forall>m. requestId m = rid \<longrightarrow>
              (\<exists>r' c1. selectRunner L (provider m) (handleCancel L c rid) = (r', c1)
                 \<and> handlePrompt L (handleCancel L c rid) m =
                     invokeRun L r' (promptOptions m)
                       (c1\<lparr>requests := Map_set (requests c1) rid r'\<rparr>)))"
    if act: "Map_get (requests c) rid = Some r" for r
  proof -
    have gone: "\<not> Map_has (requests (handleCancel L c rid)) rid"
      by (simp add: handleCancel_active [OF act] Map_has_delete)
    have "\<exists>r' c1. selectRunner L (provider m) (handleCancel L c rid) = (r', c1)
                 \<and> handlePrompt L (handleCancel L c rid) m =
                     invokeRun L r' (promptOptions m)
                       (c1\<lparr>requests := Map_set (requests c1) rid r'\<rparr>)"
      if "requestId m = rid" for m
    proof (intro exI conjI)
      show "selectRunner L (provider m) (handleCancel L c rid)
          = (fst (selectRunner L (provider m) (handleCancel L c rid)),
             snd (selectRunner L (provider m) (handleCancel L c rid)))" by simp
      from gone that have "\<not> Map_has (requests (handleCancel L c rid)) (requestId m)" by simp
      from handlePrompt_accepted [OF this, of L] that
      show "handlePrompt L (handleCancel L c rid) m =
          invokeRun L (fst (selectRunner L (provider m) (handleCancel L c rid))) (promptOptions m)
            ((snd (selectRunner L (provider m) (handleCancel L c rid)))
              \<lparr>requests := Map_set (requests (snd (selectRunner L (provider m) (handleCancel L c rid))))
                  rid (fst (selectRunner L (provider m) (handleCancel L c rid)))\<rparr>)"
        by simp
    qed
    with gone show ?thesis by (simp add: handleCancel_active [OF act])
  qed
  from A B show ?thesis by blast
qed

theorem C3_cancel_dispatch_witness:
  "sent (handleCancel mock_layer (handlePrompt mock_layer mock_connection prompt_r1) (js ''r1''))
     = [ConnectedMessage (js ''2.0'') (js ''bridge-ws''),
        ErrorMessage (JStr (js ''Request cancelled'')) (Some (js ''r1''))]
   \<and> killCount (world (handleCancel mock_layer (handlePrompt mock_layer mock_connection prompt_r1) (js ''r1''))) = 1
   \<and> sent (handleCancel mock_layer mock_connection (js ''nope''))
     = [ConnectedMessage (js ''2.0'') (js ''bridge-ws''),
        ErrorMessage (JStr (js ''No active request with id: nope'')) (Some (js ''nope''))]
   \<and> killCount (world (handleCancel mock_layer mock_connection (js ''nope''))) = 0"
proof -
  let ?c0 = "handlePrompt mock_layer mock_connection prompt_r1"
  have act: "Map_get (requests ?c0) (js ''r1'') = Some ()"
    by (simp only: mock_first_prompt) (simp add: Map_get_def)
  have non: "Map_get (requests mock_connection) (js ''nope'') = None"
    by (simp add: Map_get_def mock_connection_def new_connection_def sendMessage_def)
  from C3_cancel_dispatch [where c = ?c0 and rid = "js ''r1''" and L = mock_layer] act
  have a: "handleCancel mock_layer ?c0 (js ''r1'') =
          sendMessage (?c0\<lparr>world := runnerKill mock_layer () (world ?c0),
                         runnerCalls := runnerCalls ?c0 @ [KillCall ()],
                         requests := Map_delete (requests ?c0) (js ''r1'')\<rparr>)
            (ErrorMessage (JStr (js ''Request cancelled'')) (Some (js ''r1'')))"
    by blast
  from C3_cancel_dispatch [where c = mock_connection and rid = "js ''nope''" and L = mock_layer] non
  have b: "handleCancel mock_layer mock_connection (js ''nope'') =
        sendMessage mock_connection
          (ErrorMessage (JStr (js ''No active request with id: '' @ js ''nope'')) (Some (js ''nope'')))"
    by blast
  show ?thesis
    unfolding a b
    by (simp only: mock_first_prompt)
       (simp add: sendMessage_def mock_layer_def mock_connection_def new_connection_def
          js_append [symmetric])
qed

subsection \<open>Project scoping: the working directory of a spawned child\<close>

lemma split_on_nonempty: "split_on sep xs \<noteq> []"
  by (induction xs) (simp_all split: list.split)

lemma split_on_sep: "split_on sep (a @ sep # r) = split_on sep a @ split_on sep r"
proof (induction a)
  case Nil
  show ?case by simp
next
  case (Cons c a)
  show ?case
  proof (cases "c = sep")
    case True
    then show ?thesis using Cons by simp
  next
    case False
    obtain l ls where l: "split_on sep a = l # ls"
      using split_on_nonempty [of sep a] by (cases "split_on sep a") auto
    show ?thesis using False Cons l by simp
  qed
qed

lemma split_on_no_sep: "sep \<notin> set s \<Longrightarrow> split_on sep s = [s]"
  by (induction s) auto

lemma split_on_pieces: "s \<in> set (split_on sep xs) \<Longrightarrow> sep \<notin> set s"
proof (induction xs arbitrary: s)
  case Nil
  then show ?case by simp
next
  case (Cons c xs)
  obtain l ls where l: "split_on sep xs = l # ls"
    using split_on_nonempty [of sep xs] by (cases "split_on sep xs") auto
  show ?case
  proof (cases "c = sep")
    case True
    then show ?thesis using Cons by auto
  next
    case False
    have "s = c # l \<or> s \<in> set ls" using Cons.prems False l by simp
    then show ?thesis
    proof
      assume "s = c # l"
      moreover have "sep \<notin> set l" using Cons.IH [of l] l by simp
      ultimately show ?thesis using False by auto
    next
      assume "s \<in> set ls"
      then show ?thesis using Cons.IH [of s] l by simp
    qed
  qed
qed

lemma split_join:
  "segs \<noteq> [] \<Longrightarrow> \<forall>s \<in> set segs. slash \<notin> set s \<Longrightarrow> split_on slash (join_slash segs) = segs"
proof (induction segs rule: join_slash.induct)
  case 1
  then show ?case by simp
next
  case (2 s)
  then show ?case by (simp add: split_on_no_sep)
next
  case (3 s t ts)
  have "split_on slash (join_slash (t # ts)) = t # ts" using 3 by simp
  moreover have "split_on slash s = [s]" using 3 by (simp add: split_on_no_sep)
  ultimately show ?case by (simp add: split_on_sep)
qed

lemma join_slash_append:
  "bs \<noteq> [] \<Longrightarrow> r \<noteq> [] \<Longrightarrow> join_slash (bs @ r) = join_slash bs @ slash # join_slash r"
proof (induction bs rule: join_slash.induct)
  case 1
  then show ?case by simp
next
  case (2 s)
  then show ?case by (cases r) simp_all
next
  case (3 s t ts)
  then show ?case by simp
qed

lemma normalize_clean:
  "\<forall>s \<in> set ss. slash \<notin> set s \<Longrightarrow> list_all clean_segment kept \<Longrightarrow>
   list_all clean_segment (normalize_segments ss kept)"
proof (induction ss arbitrary: kept)
  case Nil
  then show ?case by simp
next
  case (Cons s ss)
  have b: "list_all clean_segment (butlast kept)"
    using Cons.prems(2) by (auto simp: list_all_iff dest: in_set_butlastD)
  have a: "s \<noteq> [] \<Longrightarrow> s \<noteq> js ''.'' \<Longrightarrow> s \<noteq> js ''..'' \<Longrightarrow> list_all clean_segment (kept @ [s])"
    using Cons.prems by (auto simp: list_all_iff clean_segment_def)
  show ?case using Cons.IH [of kept] Cons.IH [OF _ b] Cons.IH [OF _ a] Cons.prems
    by (simp del: js_eq_iff)
qed

lemma normalize_of_clean:
  "list_all clean_segment ss \<Longrightarrow> normalize_segments ss kept = kept @ ss"
  by (induction ss arbitrary: kept) (simp_all add: clean_segment_def del: js_eq_iff)

lemma split_absolute:
  "list_all clean_segment segs \<Longrightarrow>
   split_on slash (absolute_path segs) = [] # (if segs = [] then [[]] else segs)"
  by (simp add: absolute_path_def split_join list_all_iff clean_segment_def)

lemma path_segments_absolute:
  "list_all clean_segment segs \<Longrightarrow> path_segments (absolute_path segs) = segs"
  by (cases "segs = []")
     (simp_all add: path_segments_def split_absolute normalize_of_clean del: js_eq_iff)

lemma path_segments_clean: "list_all clean_segment (path_segments p)"
  unfolding path_segments_def by (rule normalize_clean) (simp_all add: split_on_pieces)

lemma path_segments_resolve:
  "path_segments (resolve c ps) = path_segments (resolve_from_right (rev ps) c [])"
  unfolding resolve_def by (rule path_segments_absolute) (rule path_segments_clean)

lemma absolute_path_resolve: "absolute_path (path_segments (resolve c ps)) = resolve c ps"
  by (simp add: path_segments_resolve) (simp add: resolve_def)

lemma startsWith_append: "startsWith (p @ r) p"
  by (induction p) simp_all

lemma startsWith_iff: "startsWith s p \<longleftrightarrow> (\<exists>r. s = p @ r)"
proof (induction s p rule: startsWith.induct)
  case (1 s)
  show ?case by simp
next
  case (2 p ps)
  show ?case by simp
next
  case (3 c cs p ps)
  then show ?case by auto
qed

lemma within_segments:
  assumes bs: "list_all clean_segment bs" and cs: "list_all clean_segment cs"
    and chk: "startsWith (absolute_path cs) (absolute_path bs @ [slash]) \<or> absolute_path cs = absolute_path bs"
  shows "startsWith cs bs"
  using chk
proof
  assume "absolute_path cs = absolute_path bs"
  then have "path_segments (absolute_path cs) = path_segments (absolute_path bs)" by simp
  then have "cs = bs" using bs cs by (simp add: path_segments_absolute)
  then show ?thesis by (simp add: startsWith_self)
next
  assume "startsWith (absolute_path cs) (absolute_path bs @ [slash])"
  then obtain r where r: "absolute_path cs = absolute_path bs @ slash # r"
    by (auto simp: startsWith_iff)
  show ?thesis
  proof (cases "bs = []")
    case True
    then show ?thesis by simp
  next
    case False
    have "split_on slash (absolute_path cs) = split_on slash (absolute_path bs) @ split_on slash r"
      using r by (simp add: split_on_sep)
    then have e: "(if cs = [] then [[]] else cs) = bs @ split_on slash r"
      using False by (simp add: split_absolute bs cs)
    have "cs \<noteq> []"
    proof
      assume "cs = []"
      then have "length (bs @ split_on slash r) = 1" using e by (metis length_Cons list.size(3) One_nat_def)
      then show False using False split_on_nonempty [of slash r]
        by (cases bs; cases "split_on slash r") simp_all
    qed
    then have "cs = bs @ split_on slash r" using e by simp
    then show ?thesis by (simp add: startsWith_append)
  qed
qed

lemma segments_within:
  assumes "startsWith cs bs" and "bs \<noteq> []"
  shows "startsWith (absolute_path cs) (absolute_path bs @ [slash]) \<or> absolute_path cs = absolute_path bs"
proof -
  obtain r where r: "cs = bs @ r" using assms(1) by (auto simp: startsWith_iff)
  show ?thesis
  proof (cases "r = []")
    case True
    then show ?thesis using r by simp
  next
    case False
    have "absolute_path cs = (absolute_path bs @ [slash]) @ join_slash r"
      using r False assms(2) by (simp add: absolute_path_def join_slash_append)
    then show ?thesis by (simp only: startsWith_append simp_thms)
  qed
qed

lemma project_cwd_cases:
  "project_cwd os sessionDir pid = Inl () \<or> project_cwd os sessionDir pid = Inr (project_dir os sessionDir pid)"
  by (simp add: project_cwd_def Let_def)

lemma project_cwd_within:
  assumes "project_cwd os sessionDir pid = Inr cwd"
  shows "cwd = project_dir os sessionDir pid
    \<and> within_base (session_base os sessionDir) (project_dir os sessionDir pid)"
proof -
  let ?base = "session_base os sessionDir"
  let ?cwd = "project_dir os sessionDir pid"
  have c: "cwd = ?cwd" and chk: "startsWith ?cwd (?base @ [slash]) \<or> ?cwd = ?base"
    using assms by (auto simp: project_cwd_def Let_def split: if_splits)
  have "startsWith (path_segments ?cwd) (path_segments ?base)"
  proof (rule within_segments)
    show "list_all clean_segment (path_segments ?base)" by (rule path_segments_clean)
    show "list_all clean_segment (path_segments ?cwd)" by (rule path_segments_clean)
    show "startsWith (absolute_path (path_segments ?cwd)) (absolute_path (path_segments ?base) @ [slash])
      \<or> absolute_path (path_segments ?cwd) = absolute_path (path_segments ?base)"
      using chk by (simp only: session_base_def project_dir_def absolute_path_resolve)
  qed
  then show ?thesis using c by (simp add: within_base_def)
qed

lemma project_cwd_escape:
  "\<not> within_base (session_base os sessionDir) (project_dir os sessionDir pid) \<Longrightarrow>
   project_cwd os sessionDir pid = Inl ()"
  using project_cwd_within [of os sessionDir pid]
  by (cases "project_cwd os sessionDir pid") auto

lemma project_cwd_accept:
  assumes "within_base (session_base os sessionDir) (project_dir os sessionDir pid)"
    and "path_segments (session_base os sessionDir) \<noteq> []"
  shows "project_cwd os sessionDir pid = Inr (project_dir os sessionDir pid)"
proof -
  let ?base = "session_base os sessionDir"
  let ?cwd = "project_dir os sessionDir pid"
  have "startsWith (absolute_path (path_segments ?cwd)) (absolute_path (path_segments ?base) @ [slash])
      \<or> absolute_path (path_segments ?cwd) = absolute_path (path_segments ?base)"
    using assms by (intro segments_within) (simp_all add: within_base_def)
  then have "startsWith ?cwd (?base @ [slash]) \<or> ?cwd = ?base"
    by (simp only: session_base_def project_dir_def absolute_path_resolve)
  then show ?thesis by (auto simp: project_cwd_def Let_def)
qed

lemma truthy_string_Some: "s \<noteq> [] \<Longrightarrow> truthy_string (Some s) = Some s"
  by (simp add: truthy_string_def)

lemma spawn_cwds_append: "spawn_cwds (es @ fs) = spawn_cwds es @ spawn_cwds fs"
  by (induction es rule: spawn_cwds.induct) simp_all

lemma spawn_cwds_Unlink: "spawn_cwds (map (Unlink \<circ> f) ps) = []"
  by (induction ps) simp_all

lemma spawn_cwds_Unlink_paths: "spawn_cwds (map Unlink ps) = []"
  by (induction ps) simp_all

lemma spawn_cwds_write_images:
  "spawn_cwds (snd (snd (write_images os imgDir rid imgs i paths made))) = spawn_cwds made"
  by (induction imgs arbitrary: i paths made) (simp_all add: Let_def spawn_cwds_append)

lemma spawn_cwds_codex_images: "spawn_cwds (snd (snd (codex_images os options))) = []"
  by (simp add: codex_images_def Let_def spawn_cwds_write_images split: option.split list.split)

lemma claude_spawn_cwds:
  "spawn_cwds (snd (claude_spawn os p options cwd made)) =
     spawn_cwds made @ (if os_spawn_throws os = None then [cwd] else [])"
  "os_spawn_throws os = None \<Longrightarrow> fst (claude_spawn os p options cwd made) = Inr Spawned"
  by (simp_all add: claude_spawn_def Let_def spawn_cwds_append split: option.split)

lemma codex_spawn_cwds:
  "spawn_cwds (snd (snd (codex_spawn os p options cwd made))) =
     spawn_cwds made @ (if os_spawn_throws os = None then [cwd] else [])"
  "os_spawn_throws os = None \<Longrightarrow> fst (codex_spawn os p options cwd made) = Inr Spawned"
  by (simp_all add: codex_spawn_def Let_def cleanupImages_def spawn_cwds_append
        spawn_cwds_Unlink_paths split: option.split)

lemma claude_rejected:
  assumes "opt_projectId options = Some pid" "pid \<noteq> []"
    "project_cwd os (claude_sessionDir p) pid = Inl ()"
  shows "claude_spawnProcess os p options =
    (Inr (NotSpawned [OnError (JStr (js ''Invalid projectId'')) (opt_requestId options)]), [])"
  using assms by (simp add: claude_spawnProcess_def truthy_string_Some)

lemma claude_accepted:
  assumes "opt_projectId options = Some pid" "pid \<noteq> []"
    "project_cwd os (claude_sessionDir p) pid = Inr cwd"
  shows "spawn_cwds (snd (claude_spawnProcess os p options)) =
      (if \<not> os_fs_throws os [] (Mkdir cwd) \<and> os_spawn_throws os = None then [Some cwd] else [])
    \<and> (\<not> os_fs_throws os [] (Mkdir cwd) \<and> os_spawn_throws os = None \<longrightarrow>
         fst (claude_spawnProcess os p options) = Inr Spawned)
    \<and> (os_fs_throws os [] (Mkdir cwd) \<longrightarrow>
         claude_spawnProcess os p options = (Inl (MkdirThrows cwd), []))"
  using assms by (simp add: claude_spawnProcess_def truthy_string_Some claude_spawn_cwds)

lemma codex_rejected:
  assumes "opt_projectId options = Some pid" "pid \<noteq> []"
    "project_cwd os (codex_sessionDir q) pid = Inl ()"
  shows "fst (codex_spawnProcess os q options) =
      (case fst (codex_images os options) of
         None \<Rightarrow> Inr (NotSpawned [OnError (JStr (js ''Invalid projectId'')) (opt_requestId options)])
       | Some exc \<Rightarrow> Inl exc)
    \<and> spawn_cwds (snd (snd (codex_spawnProcess os q options))) = []"
  using assms
  by (simp add: codex_spawnProcess_def truthy_string_Some Let_def cleanupImages_def
      spawn_cwds_append spawn_cwds_Unlink_paths spawn_cwds_codex_images split: option.split)

lemma codex_accepted:
  assumes "opt_projectId options = Some pid" "pid \<noteq> []"
    "project_cwd os (codex_sessionDir q) pid = Inr cwd"
  shows "spawn_cwds (snd (snd (codex_spawnProcess os q options))) =
      (if fst (codex_images os options) = None
          \<and> \<not> os_fs_throws os (snd (snd (codex_images os options))) (Mkdir cwd)
          \<and> os_spawn_throws os = None then [Some cwd] else [])
    \<and> (fst (codex_images os options) = None
          \<and> \<not> os_fs_throws os (snd (snd (codex_images os options))) (Mkdir cwd)
          \<and> os_spawn_throws os = None \<longrightarrow>
         fst (codex_spawnProcess os q options) = Inr Spawned)"
  using assms
  by (simp add: codex_spawnProcess_def truthy_string_Some Let_def codex_spawn_cwds
      spawn_cwds_append spawn_cwds_codex_images split: option.split)

subsection \<open>Project scoping: examples\<close>

lemma example_base: "session_base example_os (js ''bridge-ws-sessions'') = js ''/tmp/bridge-ws-sessions''"
  by code_simp

lemma example_base_segments:
  "path_segments (js ''/tmp/bridge-ws-sessions'') = [js ''tmp'', js ''bridge-ws-sessions'']"
  by code_simp

lemma example_project: "project_dir example_os (js ''bridge-ws-sessions'') (js ''my-project_1.0'')
  = js ''/tmp/bridge-ws-sessions/my-project_1.0''"
  by code_simp

lemma example_parent: "project_dir example_os (js ''bridge-ws-sessions'') (js ''..'') = js ''/tmp''"
  by code_simp

lemma example_dot:
  "project_dir example_os (js ''bridge-ws-sessions'') (js ''.'') = js ''/tmp/bridge-ws-sessions''"
  by code_simp

lemma example_within:
  "within_base (js ''/tmp/bridge-ws-sessions'') (js ''/tmp/bridge-ws-sessions/my-project_1.0'')"
  by code_simp

lemma example_escape: "\<not> within_base (js ''/tmp/bridge-ws-sessions'') (js ''/tmp'')"
  by code_simp

lemma example_dot_accepted:
  "PROJECT_ID_PATTERN_test (js ''.'') \<and> length (js ''.'') \<le> MAX_PROJECT_ID_LENGTH"
  by code_simp

lemma example_dot_claude:
  "claude_spawnProcess example_os default_claude (project_options ''r1'' ''.'')
   = (Inr Spawned, [Mkdir (js ''/tmp/bridge-ws-sessions''),
        SpawnProc (js ''claude'')
          [js ''--print'', js ''--verbose'', js ''--output-format'', js ''stream-json'',
           js ''--continue'', js ''-'']
          (Some (js ''/tmp/bridge-ws-sessions'')) [] (StdinText (js ''hi''))])"
  by code_simp

lemma example_dot_codex:
  "codex_spawnProcess example_os default_codex (project_options ''r1'' ''.'')
   = (Inr Spawned, default_codex, [Mkdir (js ''/tmp/bridge-ws-sessions''),
        SpawnProc (js ''codex'')
          [js ''exec'', js ''--json'', js ''--full-auto'', js ''--skip-git-repo-check'', js ''-'']
          (Some (js ''/tmp/bridge-ws-sessions'')) [] (StdinText (js ''hi''))])"
  by code_simp

lemma example_fields:
  "claude_sessionDir default_claude = js ''bridge-ws-sessions''"
  "codex_sessionDir default_codex = js ''bridge-ws-sessions''"
  "os_spawn_throws example_os = None"
  "opt_projectId (project_options rid pid) = Some (js pid)"
  "opt_requestId (project_options rid pid) = js rid"
  "os_fs_throws example_os made call = False"
  "opt_projectId (image_options rid pid) = Some (js pid)"
  "opt_requestId (image_options rid pid) = js rid"
  by (simp_all add: default_claude_def default_codex_def example_os_def project_options_def
        image_options_def)

lemma example_no_images: "codex_images os (project_options rid pid) = (None, [], [])"
  by (simp add: codex_images_def project_options_def)

lemma example_full_disk:
  "codex_images full_disk_os (image_options ''r3'' ''..'')
   = (Some (WriteFileThrows (js ''/tmp/bridge-ws-images/r3-0.png'')), [],
      [Mkdir (js ''/tmp/bridge-ws-images'')])"
  by code_simp

lemma example_full_disk_base:
  "session_base full_disk_os (js ''bridge-ws-sessions'') = js ''/tmp/bridge-ws-sessions''"
  "project_dir full_disk_os (js ''bridge-ws-sessions'') (js ''..'') = js ''/tmp''"
  by code_simp+

text \<open>
  Claim C6, with "strictly within" read as the code has it (the base itself is let through).
  For every run whose options carry a non-empty \<open>projectId\<close> (whether or not the protocol validator
  has seen it), the Claude and the Codex provider spawn a child only with the resolved directory
  (temp-dir)/(session-subdir)/(projectId) as its working directory, and only when that directory
  is the session base or lies within it. Whenever the resolution leaves the base they spawn
  nothing: the Claude provider reports \<open>onError("Invalid projectId", requestId)\<close> and touches no
  file; the Codex provider reports the same error unless writing the images of the request to
  temp files has thrown before the check, in which case the exception leaves \<open>run\<close> and no
  handler is called. And when the directory is the base or lies within it, the base is not the
  root, no call of the file system throws and \<open>spawn\<close> does not throw, the child is spawned
  there.
\<close>

theorem C6_project_scoping:
  assumes "opt_projectId options = Some pid" and "pid \<noteq> []"
  shows "(\<forall>d \<in> set (spawn_cwds (snd (claude_spawnProcess os p options))).
            d = Some (project_dir os (claude_sessionDir p) pid)
            \<and> within_base (session_base os (claude_sessionDir p)) (project_dir os (claude_sessionDir p) pid))
       \<and> (\<forall>d \<in> set (spawn_cwds (snd (snd (codex_spawnProcess os q options)))).
            d = Some (project_dir os (codex_sessionDir q) pid)
            \<and> within_base (session_base os (codex_sessionDir q)) (project_dir os (codex_sessionDir q) pid))
       \<and> (\<not> within_base (session_base os (claude_sessionDir p)) (project_dir os (claude_sessionDir p) pid) \<longrightarrow>
            claude_spawnProcess os p options =
              (Inr (NotSpawned [OnError (JStr (js ''Invalid projectId'')) (opt_requestId options)]), []))
       \<and> (\<not> within_base (session_base os (codex_sessionDir q)) (project_dir os (codex_sessionDir q) pid) \<longrightarrow>
            spawn_cwds (snd (snd (codex_spawnProcess os q options))) = []
            \<and> fst (codex_spawnProcess os q options) =
                (case fst (codex_images os options) of
                   None \<Rightarrow> Inr (NotSpawned [OnError (JStr (js ''Invalid projectId''))
                                             (opt_requestId options)])
                 | Some exc \<Rightarrow> Inl exc))
       \<and> (within_base (session_base os (claude_sessionDir p)) (project_dir os (claude_sessionDir p) pid)
            \<and> path_segments (session_base os (claude_sessionDir p)) \<noteq> []
            \<and> \<not> os_fs_throws os [] (Mkdir (project_dir os (claude_sessionDir p) pid))
            \<and> os_spawn_throws os = None \<longrightarrow>
            fst (claude_spawnProcess os p options) = Inr Spawned
            \<and> spawn_cwds (snd (claude_spawnProcess os p options)) = [Some (project_dir os (claude_sessionDir p) pid)])
       \<and> (within_base (session_base os (codex_sessionDir q)) (project_dir os (codex_sessionDir q) pid)
            \<and> path_segments (session_base os (codex_sessionDir q)) \<noteq> []
            \<and> fst (codex_images os options) = None
            \<and> \<not> os_fs_throws os (snd (snd (codex_images os options)))
                  (Mkdir (project_dir os (codex_sessionDir q) pid))
            \<and> os_spawn_throws os = None \<longrightarrow>
            fst (codex_spawnProcess os q options) = Inr Spawned
            \<and> spawn_cwds (snd (snd (codex_spawnProcess os q options))) = [Some (project_dir os (codex_sessionDir q) pid)])"
proof -
  have c1: "\<forall>d \<in> set (spawn_cwds (snd (claude_spawnProcess os p options))).
      d = Some (project_dir os (claude_sessionDir p) pid)
      \<and> within_base (session_base os (claude_sessionDir p)) (project_dir os (claude_sessionDir p) pid)"
  proof
    fix d
    assume d: "d \<in> set (spawn_cwds (snd (claude_spawnProcess os p options)))"
    show "d = Some (project_dir os (claude_sessionDir p) pid)
      \<and> within_base (session_base os (claude_sessionDir p)) (project_dir os (claude_sessionDir p) pid)"
    proof (cases "project_cwd os (claude_sessionDir p) pid")
      case (Inl u)
      then show ?thesis using d claude_rejected [OF assms, of os p] by simp
    next
      case (Inr cwd)
      then show ?thesis
        using d claude_accepted [OF assms Inr] project_cwd_within [OF Inr]
        by (simp split: if_splits)
    qed
  qed
  have c2: "\<forall>d \<in> set (spawn_cwds (snd (snd (codex_spawnProcess os q options)))).
      d = Some (project_dir os (codex_sessionDir q) pid)
      \<and> within_base (session_base os (codex_sessionDir q)) (project_dir os (codex_sessionDir q) pid)"
  proof
    fix d
    assume d: "d \<in> set (spawn_cwds (snd (snd (codex_spawnProcess os q options))))"
    show "d = Some (project_dir os (codex_sessionDir q) pid)
      \<and> within_base (session_base os (codex_sessionDir q)) (project_dir os (codex_sessionDir q) pid)"
    proof (cases "project_cwd os (codex_sessionDir q) pid")
      case (Inl u)
      then show ?thesis using d codex_rejected [OF assms, of os q] by simp
    next
      case (Inr cwd)
      then show ?thesis
        using d codex_accepted [OF assms Inr] project_cwd_within [OF Inr]
        by (simp split: if_splits)
    qed
  qed
  have c3: "\<not> within_base (session_base os (claude_sessionDir p)) (project_dir os (claude_sessionDir p) pid) \<longrightarrow>
      claude_spawnProcess os p options =
        (Inr (NotSpawned [OnError (JStr (js ''Invalid projectId'')) (opt_requestId options)]), [])"
  proof
    assume "\<not> within_base (session_base os (claude_sessionDir p)) (project_dir os (claude_sessionDir p) pid)"
    then show "claude_spawnProcess os p options =
        (Inr (NotSpawned [OnError (JStr (js ''Invalid projectId'')) (opt_requestId options)]), [])"
      by (intro claude_rejected [OF assms] project_cwd_escape)
  qed
  have c4: "\<not> within_base (session_base os (codex_sessionDir q)) (project_dir os (codex_sessionDir q) pid) \<longrightarrow>
      spawn_cwds (snd (snd (codex_spawnProcess os q options))) = []
      \<and> fst (codex_spawnProcess os q options) =
          (case fst (codex_images os options) of
             None \<Rightarrow> Inr (NotSpawned [OnError (JStr (js ''Invalid projectId''))
                                       (opt_requestId options)])
           | Some exc \<Rightarrow> Inl exc)"
  proof
    assume e: "\<not> within_base (session_base os (codex_sessionDir q)) (project_dir os (codex_sessionDir q) pid)"
    show "spawn_cwds (snd (snd (codex_spawnProcess os q options))) = []
      \<and> fst (codex_spawnProcess os q options) =
          (case fst (codex_images os options) of
             None \<Rightarrow> Inr (NotSpawned [OnError (JStr (js ''Invalid projectId''))
                                       (opt_requestId options)])
           | Some exc \<Rightarrow> Inl exc)"
      using codex_rejected [OF assms project_cwd_escape [OF e]] by simp
  qed
  have c5: "within_base (session_base os (claude_sessionDir p)) (project_dir os (claude_sessionDir p) pid)
      \<and> path_segments (session_base os (claude_sessionDir p)) \<noteq> []
      \<and> \<not> os_fs_throws os [] (Mkdir (project_dir os (claude_sessionDir p) pid))
      \<and> os_spawn_throws os = None \<longrightarrow>
      fst (claude_spawnProcess os p options) = Inr Spawned
      \<and> spawn_cwds (snd (claude_spawnProcess os p options)) = [Some (project_dir os (claude_sessionDir p) pid)]"
  proof
    assume a: "within_base (session_base os (claude_sessionDir p)) (project_dir os (claude_sessionDir p) pid)
      \<and> path_segments (session_base os (claude_sessionDir p)) \<noteq> []
      \<and> \<not> os_fs_throws os [] (Mkdir (project_dir os (claude_sessionDir p) pid))
      \<and> os_spawn_throws os = None"
    then have c: "project_cwd os (claude_sessionDir p) pid = Inr (project_dir os (claude_sessionDir p) pid)"
      by (intro project_cwd_accept) simp_all
    show "fst (claude_spawnProcess os p options) = Inr Spawned
      \<and> spawn_cwds (snd (claude_spawnProcess os p options)) = [Some (project_dir os (claude_sessionDir p) pid)]"
      using claude_accepted [OF assms c] a by simp
  qed
  have c6: "within_base (session_base os (codex_sessionDir q)) (project_dir os (codex_sessionDir q) pid)
      \<and> path_segments (session_base os (codex_sessionDir q)) \<noteq> []
      \<and> fst (codex_images os options) = None
      \<and> \<not> os_fs_throws os (snd (snd (codex_images os options)))
            (Mkdir (project_dir os (codex_sessionDir q) pid))
      \<and> os_spawn_throws os = None \<longrightarrow>
      fst (codex_spawnProcess os q options) = Inr Spawned
      \<and> spawn_cwds (snd (snd (codex_spawnProcess os q options))) = [Some (project_dir os (codex_sessionDir q) pid)]"
  proof
    assume a: "within_base (session_base os (codex_sessionDir q)) (project_dir os (codex_sessionDir q) pid)
      \<and> path_segments (session_base os (codex_sessionDir q)) \<noteq> []
      \<and> fst (codex_images os options) = None
      \<and> \<not> os_fs_throws os (snd (snd (codex_images os options)))
            (Mkdir (project_dir os (codex_sessionDir q) pid))
      \<and> os_spawn_throws os = None"
    then have c: "project_cwd os (codex_sessionDir q) pid = Inr (project_dir os (codex_sessionDir q) pid)"
      by (intro project_cwd_accept) simp_all
    show "fst (codex_spawnProcess os q options) = Inr Spawned
      \<and> spawn_cwds (snd (snd (codex_spawnProcess os q options))) = [Some (project_dir os (codex_sessionDir q) pid)]"
      using codex_accepted [OF assms c] a by simp
  qed
  show ?thesis by (intro conjI c1 c2 c3 c4 c5 c6)
qed

theorem C6_project_scoping_witness:
  "opt_projectId (project_options ''r1'' ''my-project_1.0'') = Some (js ''my-project_1.0'')
   \<and> js ''my-project_1.0'' \<noteq> []
   \<and> within_base (js ''/tmp/bridge-ws-sessions'') (js ''/tmp/bridge-ws-sessions/my-project_1.0'')
   \<and> fst (claude_spawnProcess example_os default_claude (project_options ''r1'' ''my-project_1.0''))
       = Inr Spawned
   \<and> spawn_cwds (snd (claude_spawnProcess example_os default_claude (project_options ''r1'' ''my-project_1.0'')))
       = [Some (js ''/tmp/bridge-ws-sessions/my-project_1.0'')]
   \<and> fst (codex_spawnProcess example_os default_codex (project_options ''r1'' ''my-project_1.0''))
       = Inr Spawned
   \<and> spawn_cwds (snd (snd (codex_spawnProcess example_os default_codex (project_options ''r1'' ''my-project_1.0''))))
       = [Some (js ''/tmp/bridge-ws-sessions/my-project_1.0'')]
   \<and> \<not> within_base (js ''/tmp/bridge-ws-sessions'') (js ''/tmp'')
   \<and> claude_spawnProcess example_os default_claude (project_options ''r2'' ''..'')
       = (Inr (NotSpawned [OnError (JStr (js ''Invalid projectId'')) (js ''r2'')]), [])
   \<and> spawn_cwds (snd (snd (codex_spawnProcess example_os default_codex (project_options ''r2'' ''..'')))) = []
   \<and> fst (codex_spawnProcess example_os default_codex (project_options ''r2'' ''..''))
       = Inr (NotSpawned [OnError (JStr (js ''Invalid projectId'')) (js ''r2'')])
   \<and> spawn_cwds (snd (snd (codex_spawnProcess full_disk_os default_codex (image_options ''r3'' ''..'')))) = []
   \<and> fst (codex_spawnProcess full_disk_os default_codex (image_options ''r3'' ''..''))
       = Inl (WriteFileThrows (js ''/tmp/bridge-ws-images/r3-0.png''))"
proof -
  have ne: "js ''my-project_1.0'' \<noteq> []" "js ''..'' \<noteq> []" by (simp_all add: js_def)
  have segs: "path_segments (js ''/tmp/bridge-ws-sessions'') \<noteq> []"
    by (simp only: example_base_segments) simp
  note good = C6_project_scoping [where options = "project_options ''r1'' ''my-project_1.0''"
      and pid = "js ''my-project_1.0''" and os = example_os and p = default_claude
      and q = default_codex, OF example_fields(4) ne(1),
      unfolded example_fields example_base example_project example_no_images fst_conv snd_conv]
  note bad = C6_project_scoping [where options = "project_options ''r2'' ''..''"
      and pid = "js ''..''" and os = example_os and p = default_claude
      and q = default_codex, OF example_fields(4) ne(2),
      unfolded example_fields example_base example_parent example_no_images fst_conv option.case]
  note disk = C6_project_scoping [where options = "image_options ''r3'' ''..''"
      and pid = "js ''..''" and os = full_disk_os and p = default_claude
      and q = default_codex, OF example_fields(7) ne(2),
      unfolded example_fields example_full_disk_base example_full_disk fst_conv option.case]
  have inside: "within_base (js ''/tmp/bridge-ws-sessions'') (js ''/tmp/bridge-ws-sessions/my-project_1.0'')
      \<and> path_segments (js ''/tmp/bridge-ws-sessions'') \<noteq> [] \<and> \<not> False
      \<and> (None :: thrown option) = None"
    using example_within segs by simp
  have inside_codex: "within_base (js ''/tmp/bridge-ws-sessions'') (js ''/tmp/bridge-ws-sessions/my-project_1.0'')
      \<and> path_segments (js ''/tmp/bridge-ws-sessions'') \<noteq> [] \<and> (None :: fs_exception option) = None
      \<and> \<not> False \<and> (None :: thrown option) = None"
    using example_within segs by simp
  note claude_good = good [THEN conjunct2, THEN conjunct2, THEN conjunct2, THEN conjunct2,
      THEN conjunct1, THEN mp, OF inside]
  note codex_good = good [THEN conjunct2, THEN conjunct2, THEN conjunct2, THEN conjunct2,
      THEN conjunct2, THEN mp, OF inside_codex]
  note claude_bad = bad [THEN conjunct2, THEN conjunct2, THEN conjunct1, THEN mp, OF example_escape]
  note codex_bad = bad [THEN conjunct2, THEN conjunct2, THEN conjunct2, THEN conjunct1, THEN mp,
      OF example_escape]
  note codex_disk = disk [THEN conjunct2, THEN conjunct2, THEN conjunct2, THEN conjunct1, THEN mp,
      OF example_escape]
  show ?thesis
    by (intro conjI example_fields ne example_within example_escape
        claude_good [THEN conjunct1] claude_good [THEN conjunct2]
        codex_good [THEN conjunct1] codex_good [THEN conjunct2]
        claude_bad codex_bad [THEN conjunct1] codex_bad [THEN conjunct2]
        codex_disk [THEN conjunct1] codex_disk [THEN conjunct2])
qed

text \<open>
  Claim C6 as stated asks for a working directory strictly within the session base. The
  \<open>projectId\<close> \<open>.\<close> passes the pattern and the length bound of the validator and resolves to the base
  itself; both providers spawn the child there.
\<close>

theorem C6_dot_counterexample:
  "PROJECT_ID_PATTERN_test (js ''.'') \<and> length (js ''.'') \<le> MAX_PROJECT_ID_LENGTH
   \<and> fst (claude_spawnProcess example_os default_claude (project_options ''r1'' ''.'')) = Inr Spawned
   \<and> spawn_cwds (snd (claude_spawnProcess example_os default_claude (project_options ''r1'' ''.'')))
       = [Some (js ''/tmp/bridge-ws-sessions'')]
   \<and> fst (codex_spawnProcess example_os default_codex (project_options ''r1'' ''.'')) = Inr Spawned
   \<and> spawn_cwds (snd (snd (codex_spawnProcess example_os default_codex (project_options ''r1'' ''.''))))
       = [Some (js ''/tmp/bridge-ws-sessions'')]
   \<and> session_base example_os (claude_sessionDir default_claude) = js ''/tmp/bridge-ws-sessions''
   \<and> session_base example_os (codex_sessionDir default_codex) = js ''/tmp/bridge-ws-sessions''
   \<and> \<not> strictly_within_base (js ''/tmp/bridge-ws-sessions'') (js ''/tmp/bridge-ws-sessions'')"
  using example_dot_accepted
  by (simp only: example_dot_claude example_dot_codex example_fields example_base)
     (simp add: strictly_within_base_def)

end
